theory Spec2Isabelle
  imports Main "HOL-Library.Word"
begin

unbundle bit_operations_syntax

section \<open>The SCTE-35 generator pipe of upipe-ts (upipe\_ts\_scte35\_generator.c)\<close>

subsection \<open>Machine integers and byte blocks\<close>

type_synonym u8 = "8 word"
type_synonym u16 = "16 word"
type_synonym u32 = "32 word"
type_synonym u64 = "64 word"

text \<open>A mapped block (the \<^verbatim>\<open>uint8_t *scte35\<close> of the C code) is the list of its bytes;
  offsets into it are natural numbers.\<close>

type_synonym ubuf = "u8 list"

definition UINT64_MAX :: u64 where
  "UINT64_MAX = 0xFFFFFFFFFFFFFFFF"

definition UCLOCK_FREQ :: u64 where
  "UCLOCK_FREQ = 27000000"

definition TB_RATE_PSI :: u64 where
  "TB_RATE_PSI = 125000"

definition POW2_33 :: u64 where
  "POW2_33 = 8589934592"

definition CLOCK_SCALE :: u64 where
  "CLOCK_SCALE = UCLOCK_FREQ div 90000"

subsection \<open>The section writers of the bitstream headers\<close>

text \<open>Modelled from the spec: the constants of bitstream/mpeg/psi.h, bitstream/mpeg/ts.h and
  bitstream/scte/35.h, which are not part of the sources. The values are the field widths of the
  wire layout (section 6 of the specification) and of the command bodies (section 4.2); the block
  size 1021 + 3 is the one of section 5.\<close>

definition PSI_HEADER_SIZE :: nat where "PSI_HEADER_SIZE = 3"
definition PSI_CRC_SIZE :: nat where "PSI_CRC_SIZE = 4"
definition PSI_MAX_SIZE :: nat where "PSI_MAX_SIZE = 1021"
definition DESC_HEADER_SIZE :: nat where "DESC_HEADER_SIZE = 2"
definition TS_SIZE :: nat where "TS_SIZE = 188"
definition TS_HEADER_SIZE :: nat where "TS_HEADER_SIZE = 4"
definition SCTE35_HEADER_SIZE :: nat where "SCTE35_HEADER_SIZE = PSI_HEADER_SIZE + 11"
definition SCTE35_HEADER2_SIZE :: nat where "SCTE35_HEADER2_SIZE = 2"
definition SCTE35_NULL_COMMAND :: u8 where "SCTE35_NULL_COMMAND = 0x00"
definition SCTE35_INSERT_COMMAND :: u8 where "SCTE35_INSERT_COMMAND = 0x05"
definition SCTE35_TIME_SIGNAL_COMMAND :: u8 where "SCTE35_TIME_SIGNAL_COMMAND = 0x06"
definition SCTE35_INSERT_HEADER_SIZE :: nat where "SCTE35_INSERT_HEADER_SIZE = 5"
definition SCTE35_INSERT_HEADER2_SIZE :: nat where "SCTE35_INSERT_HEADER2_SIZE = 1"
definition SCTE35_INSERT_FOOTER_SIZE :: nat where "SCTE35_INSERT_FOOTER_SIZE = 4"
definition SCTE35_SPLICE_TIME_HEADER_SIZE :: nat where "SCTE35_SPLICE_TIME_HEADER_SIZE = 1"
definition SCTE35_SPLICE_TIME_TIME_SIZE :: nat where "SCTE35_SPLICE_TIME_TIME_SIZE = 4"
definition SCTE35_BREAK_DURATION_HEADER_SIZE :: nat where "SCTE35_BREAK_DURATION_HEADER_SIZE = 5"

text \<open>Modelled from the spec: \<^verbatim>\<open>psi_set_length\<close> and \<^verbatim>\<open>psi_get_length\<close> of bitstream/mpeg/psi.h.
  The section length is the 12-bit field in the low nibble of byte 1 and in byte 2; the writer
  takes a \<^verbatim>\<open>uint16_t\<close> and keeps its low 12 bits.\<close>

definition psi_set_length :: "ubuf \<Rightarrow> u16 \<Rightarrow> ubuf" where
  "psi_set_length p l =
     (p[1 := (p ! 1 AND 0xF0) OR (ucast (drop_bit 8 l) AND 0x0F)])[2 := ucast l]"

definition psi_get_length :: "ubuf \<Rightarrow> u16" where
  "psi_get_length p = push_bit 8 (ucast (p ! 1 AND 0x0F)) OR ucast (p ! 2)"

text \<open>Modelled from the spec: the CRC-32/MPEG-2 of section 4.2 (polynomial 0x04C11DB7, initial
  value 0xFFFFFFFF, no reflection, no final xor), computed bit by bit, and \<^verbatim>\<open>psi_set_crc\<close>,
  which stores it big-endian in the last four bytes of the section, whose place is read from the
  section length field.\<close>

fun crc32_bits :: "nat \<Rightarrow> u32 \<Rightarrow> u32" where
  "crc32_bits 0 c = c"
| "crc32_bits (Suc n) c =
     crc32_bits n (if bit c 31 then push_bit 1 c XOR 0x04C11DB7 else push_bit 1 c)"

definition crc32_byte :: "u32 \<Rightarrow> u8 \<Rightarrow> u32" where
  "crc32_byte c b = crc32_bits 8 (c XOR push_bit 24 (ucast b))"

definition crc32_mpeg :: "u8 list \<Rightarrow> u32" where
  "crc32_mpeg bs = foldl crc32_byte 0xFFFFFFFF bs"

definition psi_set_crc :: "ubuf \<Rightarrow> ubuf" where
  "psi_set_crc p =
     (let i_end = unat (psi_get_length p) + PSI_HEADER_SIZE - PSI_CRC_SIZE;
          crc = crc32_mpeg (take i_end p)
      in p[i_end := ucast (drop_bit 24 crc),
           i_end + 1 := ucast (drop_bit 16 crc),
           i_end + 2 := ucast (drop_bit 8 crc),
           i_end + 3 := ucast crc])"

text \<open>Modelled from the spec: the header writers of bitstream/scte/35.h, after the common section
  framing of section 4.2: table id 0xFC, section syntax indicator and private indicator 0 with the
  two reserved bits set and a section length of 0 for a start, protocol version 0, no
  encryption, cw index 0, tier 0xFFF. The command
  length is the 12-bit field in the low nibble of byte 11 and in byte 12, the command type is
  byte 13, and the 16-bit descriptor loop length follows the command body.\<close>

definition scte35_init :: "ubuf \<Rightarrow> ubuf" where
  "scte35_init p = p[0 := 0xFC, 1 := 0x30, 2 := 0, 3 := 0, 4 := 0, 9 := 0, 10 := 0xFF,
                     11 := 0xF0]"

definition scte35_set_pts_adjustment :: "ubuf \<Rightarrow> u64 \<Rightarrow> ubuf" where
  "scte35_set_pts_adjustment p adj =
     p[4 := (p ! 4 AND 0xFE) OR (ucast (drop_bit 32 adj) AND 0x01),
       5 := ucast (drop_bit 24 adj),
       6 := ucast (drop_bit 16 adj),
       7 := ucast (drop_bit 8 adj),
       8 := ucast adj]"

definition scte35_set_command_length :: "ubuf \<Rightarrow> u16 \<Rightarrow> ubuf" where
  "scte35_set_command_length p l =
     (p[11 := (p ! 11 AND 0xF0) OR (ucast (drop_bit 8 l) AND 0x0F)])[12 := ucast l]"

definition scte35_get_command_length :: "ubuf \<Rightarrow> u16" where
  "scte35_get_command_length p = push_bit 8 (ucast (p ! 11 AND 0x0F)) OR ucast (p ! 12)"

definition scte35_set_command_type :: "ubuf \<Rightarrow> u8 \<Rightarrow> ubuf" where
  "scte35_set_command_type p t = p[13 := t]"

definition scte35_get_command_type :: "ubuf \<Rightarrow> u8" where
  "scte35_get_command_type p = p ! 13"

definition scte35_set_desclength :: "ubuf \<Rightarrow> u16 \<Rightarrow> ubuf" where
  "scte35_set_desclength p l =
     (let off = SCTE35_HEADER_SIZE + unat (scte35_get_command_length p)
      in p[off := ucast (drop_bit 8 l), off + 1 := ucast l])"

definition scte35_get_desclength :: "ubuf \<Rightarrow> u16" where
  "scte35_get_desclength p =
     (let off = SCTE35_HEADER_SIZE + unat (scte35_get_command_length p)
      in push_bit 8 (ucast (p ! off)) OR ucast (p ! (off + 1)))"

text \<open>\<^verbatim>\<open>scte35_get_descl\<close> returns a pointer; here it is the offset of the first descriptor.\<close>

definition scte35_get_descl :: "ubuf \<Rightarrow> nat" where
  "scte35_get_descl p =
     SCTE35_HEADER_SIZE + SCTE35_HEADER2_SIZE + unat (scte35_get_command_length p)"

text \<open>Modelled from the spec: \<^verbatim>\<open>scte35_null_init\<close>; the splice\_null command has an empty
  body.\<close>

definition scte35_null_init :: "ubuf \<Rightarrow> ubuf" where
  "scte35_null_init p =
     scte35_set_command_length (scte35_set_command_type p SCTE35_NULL_COMMAND) 0"

text \<open>Modelled from the spec: a one-bit flag is written by setting or clearing its mask in the
  byte at offset \<open>i\<close>, and read by testing the mask.\<close>

definition set_flag :: "ubuf \<Rightarrow> nat \<Rightarrow> u8 \<Rightarrow> bool \<Rightarrow> ubuf" where
  "set_flag p i m v = p[i := (if v then p ! i OR m else p ! i AND NOT m)]"

definition has_flag :: "ubuf \<Rightarrow> nat \<Rightarrow> u8 \<Rightarrow> bool" where
  "has_flag p i m = (p ! i AND m \<noteq> 0)"

text \<open>Modelled from the spec: the \<^verbatim>\<open>splice_time()\<close> writers of bitstream/scte/35.h, at the offset
  \<open>t\<close> of the structure: the time specified flag is the top bit of its first byte, followed by
  reserved bits (all set) and, when the flag is set, by the 33-bit \<open>pts_time\<close>, whose top bit is
  the low bit of the first byte.\<close>

definition scte35_splice_time_init :: "ubuf \<Rightarrow> nat \<Rightarrow> ubuf" where
  "scte35_splice_time_init p t = p[t := 0xFF]"

definition scte35_splice_time_set_time_specified :: "ubuf \<Rightarrow> nat \<Rightarrow> bool \<Rightarrow> ubuf" where
  "scte35_splice_time_set_time_specified p t b = set_flag p t 0x80 b"

definition scte35_splice_time_has_time_specified :: "ubuf \<Rightarrow> nat \<Rightarrow> bool" where
  "scte35_splice_time_has_time_specified p t = has_flag p t 0x80"

definition scte35_splice_time_set_pts_time :: "ubuf \<Rightarrow> nat \<Rightarrow> u64 \<Rightarrow> ubuf" where
  "scte35_splice_time_set_pts_time p t pts =
     p[t := (p ! t AND 0xFE) OR (ucast (drop_bit 32 pts) AND 0x01),
       t + 1 := ucast (drop_bit 24 pts),
       t + 2 := ucast (drop_bit 16 pts),
       t + 3 := ucast (drop_bit 8 pts),
       t + 4 := ucast pts]"

definition scte35_splice_time_get_pts_time :: "ubuf \<Rightarrow> nat \<Rightarrow> u64" where
  "scte35_splice_time_get_pts_time p t =
     push_bit 32 (ucast (p ! t AND 0x01)) OR push_bit 24 (ucast (p ! (t + 1))) OR
     push_bit 16 (ucast (p ! (t + 2))) OR push_bit 8 (ucast (p ! (t + 3))) OR
     ucast (p ! (t + 4))"

definition scte35_splice_time_size :: "ubuf \<Rightarrow> nat \<Rightarrow> nat" where
  "scte35_splice_time_size p t =
     SCTE35_SPLICE_TIME_HEADER_SIZE +
     (if scte35_splice_time_has_time_specified p t then SCTE35_SPLICE_TIME_TIME_SIZE else 0)"

text \<open>Modelled from the spec: the \<^verbatim>\<open>break_duration()\<close> writers, at the offset \<open>b\<close> of the
  structure: auto return in the top bit, six reserved bits, the 33-bit duration.\<close>

definition scte35_break_duration_init :: "ubuf \<Rightarrow> nat \<Rightarrow> ubuf" where
  "scte35_break_duration_init p b = p[b := 0xFF]"

definition scte35_break_duration_set_auto_return :: "ubuf \<Rightarrow> nat \<Rightarrow> bool \<Rightarrow> ubuf" where
  "scte35_break_duration_set_auto_return p b v = set_flag p b 0x80 v"

definition scte35_break_duration_has_auto_return :: "ubuf \<Rightarrow> nat \<Rightarrow> bool" where
  "scte35_break_duration_has_auto_return p b = has_flag p b 0x80"

definition scte35_break_duration_set_duration :: "ubuf \<Rightarrow> nat \<Rightarrow> u64 \<Rightarrow> ubuf" where
  "scte35_break_duration_set_duration p b d =
     p[b := (p ! b AND 0xFE) OR (ucast (drop_bit 32 d) AND 0x01),
       b + 1 := ucast (drop_bit 24 d),
       b + 2 := ucast (drop_bit 16 d),
       b + 3 := ucast (drop_bit 8 d),
       b + 4 := ucast d]"

definition scte35_break_duration_get_duration :: "ubuf \<Rightarrow> nat \<Rightarrow> u64" where
  "scte35_break_duration_get_duration p b =
     push_bit 32 (ucast (p ! b AND 0x01)) OR push_bit 24 (ucast (p ! (b + 1))) OR
     push_bit 16 (ucast (p ! (b + 2))) OR push_bit 8 (ucast (p ! (b + 3))) OR
     ucast (p ! (b + 4))"

text \<open>Modelled from the spec: the splice\_insert writers. The body starts with the 32-bit event
  id and the byte of the cancel indicator (seven reserved bits); when the event is not cancelled
  the flag byte follows (out of network 0x80, program splice 0x40, duration 0x20, splice immediate
  0x10, reserved bits), then \<^verbatim>\<open>splice_time()\<close> when program splice is set and splice immediate
  is not, \<^verbatim>\<open>break_duration()\<close> when the duration flag is set, and the footer: unique program
  id (16 bits), avail num, avails expected. As in the header file, the place of each later field
  is read from the flags already stored in the block.\<close>

definition insert_flags :: nat where
  "insert_flags = SCTE35_HEADER_SIZE + 5"

definition scte35_insert_init :: "ubuf \<Rightarrow> u16 \<Rightarrow> ubuf" where
  "scte35_insert_init p l =
     (let p = scte35_set_command_type p SCTE35_INSERT_COMMAND;
          p = scte35_set_command_length p (of_nat SCTE35_INSERT_HEADER_SIZE + l)
      in if l = 0 then p else p[insert_flags := 0xFF])"

definition scte35_insert_set_cancel :: "ubuf \<Rightarrow> bool \<Rightarrow> ubuf" where
  "scte35_insert_set_cancel p c = p[SCTE35_HEADER_SIZE + 4 := (if c then 0xFF else 0x7F)]"

definition scte35_insert_has_cancel :: "ubuf \<Rightarrow> bool" where
  "scte35_insert_has_cancel p = has_flag p (SCTE35_HEADER_SIZE + 4) 0x80"

definition scte35_insert_set_event_id :: "ubuf \<Rightarrow> u32 \<Rightarrow> ubuf" where
  "scte35_insert_set_event_id p ev =
     p[SCTE35_HEADER_SIZE := ucast (drop_bit 24 ev),
       SCTE35_HEADER_SIZE + 1 := ucast (drop_bit 16 ev),
       SCTE35_HEADER_SIZE + 2 := ucast (drop_bit 8 ev),
       SCTE35_HEADER_SIZE + 3 := ucast ev]"

definition scte35_insert_set_out_of_network :: "ubuf \<Rightarrow> bool \<Rightarrow> ubuf" where
  "scte35_insert_set_out_of_network p v = set_flag p insert_flags 0x80 v"

definition scte35_insert_set_program_splice :: "ubuf \<Rightarrow> bool \<Rightarrow> ubuf" where
  "scte35_insert_set_program_splice p v = set_flag p insert_flags 0x40 v"

definition scte35_insert_set_duration :: "ubuf \<Rightarrow> bool \<Rightarrow> ubuf" where
  "scte35_insert_set_duration p v = set_flag p insert_flags 0x20 v"

definition scte35_insert_set_splice_immediate :: "ubuf \<Rightarrow> bool \<Rightarrow> ubuf" where
  "scte35_insert_set_splice_immediate p v = set_flag p insert_flags 0x10 v"

definition scte35_insert_has_out_of_network :: "ubuf \<Rightarrow> bool" where
  "scte35_insert_has_out_of_network p = has_flag p insert_flags 0x80"

definition scte35_insert_has_program_splice :: "ubuf \<Rightarrow> bool" where
  "scte35_insert_has_program_splice p = has_flag p insert_flags 0x40"

definition scte35_insert_has_duration :: "ubuf \<Rightarrow> bool" where
  "scte35_insert_has_duration p = has_flag p insert_flags 0x20"

definition scte35_insert_has_splice_immediate :: "ubuf \<Rightarrow> bool" where
  "scte35_insert_has_splice_immediate p = has_flag p insert_flags 0x10"

definition scte35_insert_get_splice_time :: "ubuf \<Rightarrow> nat" where
  "scte35_insert_get_splice_time p =
     SCTE35_HEADER_SIZE + SCTE35_INSERT_HEADER_SIZE + SCTE35_INSERT_HEADER2_SIZE"

definition scte35_insert_get_break_duration :: "ubuf \<Rightarrow> nat" where
  "scte35_insert_get_break_duration p =
     (let t = scte35_insert_get_splice_time p
      in if scte35_insert_has_program_splice p \<and> \<not> scte35_insert_has_splice_immediate p
         then t + scte35_splice_time_size p t else t)"

definition scte35_insert_get_footer :: "ubuf \<Rightarrow> nat" where
  "scte35_insert_get_footer p =
     (let b = scte35_insert_get_break_duration p
      in if scte35_insert_has_duration p then b + SCTE35_BREAK_DURATION_HEADER_SIZE else b)"

definition scte35_insert_set_unique_program_id :: "ubuf \<Rightarrow> u16 \<Rightarrow> ubuf" where
  "scte35_insert_set_unique_program_id p v =
     (let f = scte35_insert_get_footer p
      in p[f := ucast (drop_bit 8 v), f + 1 := ucast v])"

definition scte35_insert_set_avail_num :: "ubuf \<Rightarrow> u8 \<Rightarrow> ubuf" where
  "scte35_insert_set_avail_num p v = p[scte35_insert_get_footer p + 2 := v]"

definition scte35_insert_set_avails_expected :: "ubuf \<Rightarrow> u8 \<Rightarrow> ubuf" where
  "scte35_insert_set_avails_expected p v = p[scte35_insert_get_footer p + 3 := v]"

text \<open>Modelled from the spec: the time\_signal writers. The body is one \<^verbatim>\<open>splice_time()\<close>; the
  initialiser is given the size of the optional time and adds the byte of the flag.\<close>

definition scte35_time_signal_init :: "ubuf \<Rightarrow> u16 \<Rightarrow> ubuf" where
  "scte35_time_signal_init p l =
     scte35_set_command_length (scte35_set_command_type p SCTE35_TIME_SIGNAL_COMMAND)
       (of_nat SCTE35_SPLICE_TIME_HEADER_SIZE + l)"

definition scte35_time_signal_get_splice_time :: "ubuf \<Rightarrow> nat" where
  "scte35_time_signal_get_splice_time p = SCTE35_HEADER_SIZE"

text \<open>Modelled from the spec: \<^verbatim>\<open>descl_get_desc\<close> of bitstream/mpeg/psi.h and
  \<^verbatim>\<open>scte35_splice_desc_get_length\<close>. A descriptor starts with its tag and its length byte; the
  \<open>n\<close>-th descriptor of a loop is found by stepping over the \<open>n\<close> descriptors before it, and
  there is none (a null pointer) once the loop length \<open>len\<close> is used up. \<open>descl\<close> is the offset
  of the loop in the block \<open>p\<close> and \<open>off\<close> the distance already walked; a read behind the end
  of the block has no result either.\<close>

definition scte35_splice_desc_get_length :: "ubuf \<Rightarrow> nat \<Rightarrow> nat" where
  "scte35_splice_desc_get_length p desc = unat (p ! (desc + 1))"

fun descl_walk :: "ubuf \<Rightarrow> nat \<Rightarrow> nat \<Rightarrow> nat \<Rightarrow> nat \<Rightarrow> nat option" where
  "descl_walk p descl len 0 off = (if off \<ge> len then None else Some (descl + off))"
| "descl_walk p descl len (Suc n) off =
     (if off + DESC_HEADER_SIZE > len \<or> descl + off + 1 \<ge> length p then None
      else descl_walk p descl len n
             (off + DESC_HEADER_SIZE + scte35_splice_desc_get_length p (descl + off)))"

definition descl_get_desc :: "ubuf \<Rightarrow> nat \<Rightarrow> u16 \<Rightarrow> nat \<Rightarrow> nat option" where
  "descl_get_desc p descl len n = descl_walk p descl (unat len) n 0"

subsection \<open>Input records, messages and the pipe\<close>

text \<open>The attributes of an input record that the generator reads. The dictionary holds the flow
  definition, the SCTE-35 attributes and the duration; start, end and the dates belong to the
  record itself. A getter leaves its output parameter untouched when the attribute is absent.\<close>

record udict =
  d_def :: "string option"
  d_command_type :: "u8 option"
  d_event_id :: "u64 option"
  d_cancel :: bool
  d_out_of_network :: bool
  d_auto_return :: bool
  d_unique_program_id :: "u64 option"
  d_duration :: "u64 option"
  d_desc :: "(u8 \<times> u8 list) option"

record uref =
  u_udict :: "udict option"
  u_start :: bool
  u_end :: bool
  u_pts_prog :: "u64 option"
  u_pts_sys :: "u64 option"

definition attr :: "(udict \<Rightarrow> 'a option) \<Rightarrow> uref \<Rightarrow> 'a option" where
  "attr f u = (case u_udict u of None \<Rightarrow> None | Some d \<Rightarrow> f d)"

definition flag :: "(udict \<Rightarrow> bool) \<Rightarrow> uref \<Rightarrow> bool" where
  "flag f u = (case u_udict u of None \<Rightarrow> False | Some d \<Rightarrow> f d)"

definition get_or :: "'a option \<Rightarrow> 'a \<Rightarrow> 'a" where
  "get_or v dflt = (case v of None \<Rightarrow> dflt | Some x \<Rightarrow> x)"

definition uref_flow_match_def :: "uref \<Rightarrow> string \<Rightarrow> bool" where
  "uref_flow_match_def u pre =
     (case attr d_def u of None \<Rightarrow> False | Some str \<Rightarrow> take (length pre) str = pre)"

text \<open>Modelled from the spec: \<^verbatim>\<open>upipe_ts_scte_export_desc\<close> (upipe\_ts\_scte\_common.c is not part
  of the sources). Section 4.2 of the specification has each descriptor exported as an opaque run
  of bytes that starts with the splice descriptor tag and the descriptor length, and has the
  export fail for some records. A record carries the tag and the bytes after the length byte; the
  export fails when it carries none or when they do not fit the 8-bit length.\<close>

definition upipe_ts_scte_export_desc :: "uref \<Rightarrow> u8 list option" where
  "upipe_ts_scte_export_desc u =
     (case attr d_desc u of
        None \<Rightarrow> None
      | Some (tag, body) \<Rightarrow>
          if length body < 256 then Some (tag # of_nat (length body) # body) else None)"

text \<open>\<^verbatim>\<open>struct scte35_message\<close>: the scheduled section, its immediate version and the date of the
  event. A null pointer is \<open>None\<close>.\<close>

record scte35_message =
  m_ubuf :: "ubuf option"
  m_immediate :: "ubuf option"
  m_cr_sys :: u64

text \<open>The output flow definition that \<^verbatim>\<open>upipe_ts_scte35g_build_flow_def\<close> fills in.\<close>

record flow_def_out =
  o_def :: string
  o_psi_section_interval :: u64
  o_octetrate :: u64
  o_tb_rate :: u64

text \<open>\<^verbatim>\<open>struct upipe_ts_scte35g\<close>, without the managers and the reference counter.\<close>

record upipe_ts_scte35g =
  flow_def :: "uref option"
  output_flow_def :: "flow_def_out option"
  urefs :: "uref list"
  scte35_interval :: u64
  scte35_cr_sys :: u64
  scte35_null_section :: "ubuf option"
  scte35_sections :: "scte35_message list"

subsection \<open>The collaborators: allocation, events, output\<close>

text \<open>What the pipe throws to its probes and logs.\<close>

datatype event =
  Fatal_alloc | New_flow_def | Warn string | Notice string | Dbg string | Verbose string

text \<open>A record handed to the output: the section, the start and end flags and \<open>cr_sys\<close>.\<close>

record sent =
  s_ubuf :: ubuf
  s_start :: bool
  s_end :: bool
  s_cr_sys :: u64

text \<open>The world around the pipe. \<open>allocs\<close> lists the outcomes of the coming allocation requests
  (true for success), one per request; past its end every request succeeds. \<open>junk\<close> is what a
  block holds when it comes from the buffer manager, which does not clear it. \<open>events\<close> and
  \<open>outputs\<close> collect, oldest first, what the pipe throws and what it sends downstream.\<close>

record env =
  allocs :: "bool list"
  junk :: "u8 list"
  events :: "event list"
  outputs :: "sent list"

datatype fault = Null_deref | Buffer_overrun | Type_confusion

datatype ubase_err = UBASE_ERR_NONE | UBASE_ERR_ALLOC | UBASE_ERR_INVALID

type_synonym pipe = "env \<times> upipe_ts_scte35g"

definition alloc :: "env \<Rightarrow> bool \<times> env" where
  "alloc e = (case allocs e of [] \<Rightarrow> (True, e) | b # bs \<Rightarrow> (b, e\<lparr>allocs := bs\<rparr>))"

definition throw :: "event \<Rightarrow> env \<Rightarrow> env" where
  "throw ev e = e\<lparr>events := events e @ [ev]\<rparr>"

definition ubuf_block_alloc :: "env \<Rightarrow> nat \<Rightarrow> ubuf option \<times> env" where
  "ubuf_block_alloc e n =
     (case alloc e of
        (False, e1) \<Rightarrow> (None, e1)
      | (True, e1) \<Rightarrow> (Some (take n (junk e @ replicate n 0)), e1))"

text \<open>\<^verbatim>\<open>ubuf_block_write\<close> with size -1 maps the whole block, or fails.\<close>

definition ubuf_block_write :: "env \<Rightarrow> ubuf \<Rightarrow> ubuf option \<times> env" where
  "ubuf_block_write e b = (case alloc e of (False, e1) \<Rightarrow> (None, e1) | (True, e1) \<Rightarrow> (Some b, e1))"

definition scte35_message_new :: "env \<Rightarrow> u64 \<Rightarrow> scte35_message option \<times> env" where
  "scte35_message_new e cr_sys =
     (case alloc e of
        (False, e1) \<Rightarrow> (None, e1)
      | (True, e1) \<Rightarrow> (Some \<lparr>m_ubuf = None, m_immediate = None, m_cr_sys = cr_sys\<rparr>, e1))"

definition scte35_message_set_ubuf :: "scte35_message \<Rightarrow> ubuf option \<Rightarrow> scte35_message" where
  "scte35_message_set_ubuf msg b = msg\<lparr>m_ubuf := b\<rparr>"

definition scte35_message_set_immediate :: "scte35_message \<Rightarrow> ubuf option \<Rightarrow> scte35_message" where
  "scte35_message_set_immediate msg b = msg\<lparr>m_immediate := b\<rparr>"

text \<open>\<^verbatim>\<open>upipe_ts_scte35g_alloc\<close>: the state of a new pipe.\<close>

definition upipe_ts_scte35g_alloc :: upipe_ts_scte35g where
  "upipe_ts_scte35g_alloc =
     \<lparr>flow_def = None, output_flow_def = None, urefs = [], scte35_interval = 0,
      scte35_cr_sys = 0, scte35_null_section = None, scte35_sections = []\<rparr>"

subsection \<open>Building the sections\<close>

text \<open>\<^verbatim>\<open>uint16_t insert_size\<close> of \<^verbatim>\<open>upipe_ts_scte35g_input_insert\<close>.\<close>

definition insert_size :: "bool \<Rightarrow> u64 \<Rightarrow> u64 \<Rightarrow> nat" where
  "insert_size cancel pts_prog duration =
     (if \<not> cancel then
        SCTE35_INSERT_HEADER2_SIZE + SCTE35_INSERT_FOOTER_SIZE +
        (if pts_prog \<noteq> UINT64_MAX
         then SCTE35_SPLICE_TIME_HEADER_SIZE + SCTE35_SPLICE_TIME_TIME_SIZE else 0) +
        (if duration \<noteq> UINT64_MAX then SCTE35_BREAK_DURATION_HEADER_SIZE else 0)
      else 0)"

text \<open>The second \<^verbatim>\<open>if (!cancel)\<close> block of \<^verbatim>\<open>upipe_ts_scte35g_input_insert\<close>.\<close>

definition insert_body :: "ubuf \<Rightarrow> bool \<Rightarrow> bool \<Rightarrow> u64 \<Rightarrow> u64 \<Rightarrow> u64 \<Rightarrow> ubuf" where
  "insert_body scte35 out_of_network auto_return program_id pts_prog duration =
     (let p = scte35_insert_set_out_of_network scte35 out_of_network;
          p = scte35_insert_set_program_splice p True;
          p = scte35_insert_set_duration p (duration \<noteq> UINT64_MAX);
          p = scte35_insert_set_splice_immediate p (pts_prog = UINT64_MAX);
          p = (if pts_prog \<noteq> UINT64_MAX then
                 let splice_time = scte35_insert_get_splice_time p;
                     p = scte35_splice_time_init p splice_time;
                     p = scte35_splice_time_set_time_specified p splice_time True
                 in scte35_splice_time_set_pts_time p splice_time
                      ((pts_prog div CLOCK_SCALE) mod POW2_33)
               else p);
          p = (if duration \<noteq> UINT64_MAX then
                 let break_duration = scte35_insert_get_break_duration p;
                     p = scte35_break_duration_init p break_duration;
                     p = scte35_break_duration_set_auto_return p break_duration auto_return
                 in scte35_break_duration_set_duration p break_duration
                      ((duration div CLOCK_SCALE) mod POW2_33)
               else p);
          p = scte35_insert_set_unique_program_id p (ucast program_id);
          p = scte35_insert_set_avail_num p 0
      in scte35_insert_set_avails_expected p 0)"

text \<open>One pass of the loop of \<^verbatim>\<open>upipe_ts_scte35g_input_insert\<close>, from \<^verbatim>\<open>scte35_init\<close> to
  \<^verbatim>\<open>ubuf_block_resize\<close>: the mapped block \<open>scte35\<close> becomes the section.\<close>

definition insert_section ::
  "ubuf \<Rightarrow> bool \<Rightarrow> u64 \<Rightarrow> bool \<Rightarrow> bool \<Rightarrow> u64 \<Rightarrow> u64 \<Rightarrow> u64 \<Rightarrow> ubuf" where
  "insert_section scte35 cancel event_id out_of_network auto_return program_id pts_prog duration =
     (let p = scte35_init scte35;
          p = psi_set_length p (of_nat PSI_MAX_SIZE);
          p = scte35_set_pts_adjustment p 0;
          p = scte35_insert_init p (of_nat (insert_size cancel pts_prog duration));
          p = scte35_insert_set_cancel p cancel;
          p = scte35_insert_set_event_id p (ucast event_id);
          p = (if \<not> cancel
               then insert_body p out_of_network auto_return program_id pts_prog duration else p);
          p = scte35_set_desclength p 0;
          p = psi_set_length p (of_nat (scte35_get_descl p + PSI_CRC_SIZE - PSI_HEADER_SIZE));
          p = psi_set_crc p;
          scte35_size = psi_get_length p + of_nat PSI_HEADER_SIZE
      in take (unat scte35_size) p)"

text \<open>The same part of \<^verbatim>\<open>upipe_ts_scte35g_build_null\<close>.\<close>

definition null_section :: "ubuf \<Rightarrow> ubuf" where
  "null_section scte35 =
     (let p = scte35_init scte35;
          p = psi_set_length p (of_nat PSI_MAX_SIZE);
          p = scte35_set_pts_adjustment p 0;
          p = scte35_null_init p;
          p = scte35_set_desclength p 0;
          p = psi_set_length p (of_nat (scte35_get_descl p + PSI_CRC_SIZE - PSI_HEADER_SIZE));
          p = psi_set_crc p;
          scte35_size = psi_get_length p + of_nat PSI_HEADER_SIZE
      in take (unat scte35_size) p)"

text \<open>Storing a run of bytes at an offset of the block.\<close>

definition blit :: "ubuf \<Rightarrow> nat \<Rightarrow> u8 list \<Rightarrow> ubuf" where
  "blit p off bs = take off p @ bs @ drop (off + length bs) p"

text \<open>The \<^verbatim>\<open>ulist_foreach\<close> of \<^verbatim>\<open>upipe_ts_scte35g_time_signal\<close> over the records that follow the
  first one. \<open>descl_length\<close> is a \<^verbatim>\<open>uint16_t\<close>. The C code has no bound check: a descriptor that
  does not fit the block is written behind its end, and a null pointer from \<^verbatim>\<open>descl_get_desc\<close>
  is written through; both are faults here.\<close>

fun export_descs ::
  "env \<Rightarrow> ubuf \<Rightarrow> nat \<Rightarrow> uref list \<Rightarrow> nat \<Rightarrow> nat \<Rightarrow> fault + (env \<times> ubuf \<times> nat)" where
  "export_descs e p descl [] descl_length i = Inr (e, p, descl_length)"
| "export_descs e p descl (uref # rest) descl_length i =
     (case upipe_ts_scte_export_desc uref of
        None \<Rightarrow>
          export_descs (throw (Warn ''fail to export descriptor'') e) p descl rest descl_length i
      | Some bs \<Rightarrow>
          (case descl_get_desc p descl (of_nat (descl_length + DESC_HEADER_SIZE)) i of
             None \<Rightarrow> Inl Null_deref
           | Some desc \<Rightarrow>
               if desc + length bs > length p then Inl Buffer_overrun
               else
                 let p = blit p desc bs
                 in export_descs e p descl rest
                      ((descl_length + DESC_HEADER_SIZE + scte35_splice_desc_get_length p desc)
                         mod 65536)
                      (Suc i)))"

text \<open>One pass of the loop of \<^verbatim>\<open>upipe_ts_scte35g_time_signal\<close>, from \<^verbatim>\<open>scte35_init\<close> to
  \<^verbatim>\<open>ubuf_block_resize\<close>, in three parts: the header and the command before the descriptors,
  the descriptors (\<open>export_descs\<close>), and the lengths and the CRC after them. The CRC of a
  section that does not fit the block is written behind its end.\<close>

definition time_signal_head :: "ubuf \<Rightarrow> u64 \<Rightarrow> ubuf" where
  "time_signal_head scte35 pts_orig =
     (let p = scte35_init scte35;
          p = psi_set_length p (of_nat PSI_MAX_SIZE);
          p = scte35_set_pts_adjustment p 0;
          i_size = (if pts_orig \<noteq> UINT64_MAX then SCTE35_SPLICE_TIME_TIME_SIZE else 0);
          p = scte35_time_signal_init p (of_nat i_size);
          t = scte35_time_signal_get_splice_time p;
          p = scte35_splice_time_init p t;
          p = scte35_splice_time_set_time_specified p t (pts_orig \<noteq> UINT64_MAX)
      in if pts_orig \<noteq> UINT64_MAX then scte35_splice_time_set_pts_time p t pts_orig else p)"

definition time_signal_finish :: "ubuf \<Rightarrow> nat \<Rightarrow> fault + ubuf" where
  "time_signal_finish scte35 descl_length =
     (let p = scte35_set_desclength scte35 (of_nat descl_length);
          p = psi_set_length p
                (of_nat (scte35_get_descl p + PSI_CRC_SIZE - PSI_HEADER_SIZE + descl_length))
      in if unat (psi_get_length p) + PSI_HEADER_SIZE > length p then Inl Buffer_overrun
         else
           let p = psi_set_crc p;
               scte35_size = psi_get_length p + of_nat PSI_HEADER_SIZE
           in Inr (take (unat scte35_size) p))"

definition time_signal_section ::
  "env \<Rightarrow> ubuf \<Rightarrow> u64 \<Rightarrow> uref list \<Rightarrow> fault + (env \<times> ubuf)" where
  "time_signal_section e scte35 pts_orig descs =
     (let p = time_signal_head scte35 pts_orig;
          descl = scte35_get_descl p
      in case export_descs e p descl descs 0 0 of
           Inl f \<Rightarrow> Inl f
         | Inr (e1, p, descl_length) \<Rightarrow>
             (case time_signal_finish p descl_length of
                Inl f \<Rightarrow> Inl f
              | Inr section \<Rightarrow> Inr (e1, section)))"

subsection \<open>The operations of the pipe\<close>

text \<open>The \<^verbatim>\<open>for ( ; ; )\<close> of \<^verbatim>\<open>upipe_ts_scte35g_input_insert\<close>: a first pass with the date builds
  the scheduled section, the pass without date builds the immediate one and leaves the loop.
  Without a message the allocation failed and the fatal event is thrown.\<close>

function input_insert_loop ::
  "env \<Rightarrow> scte35_message \<Rightarrow> bool \<Rightarrow> u64 \<Rightarrow> bool \<Rightarrow> bool \<Rightarrow> u64 \<Rightarrow> u64 \<Rightarrow> u64 \<Rightarrow>
   scte35_message option \<times> env" where
  "input_insert_loop e msg cancel event_id out_of_network auto_return program_id duration pts_prog =
     (case ubuf_block_alloc e (PSI_MAX_SIZE + PSI_HEADER_SIZE) of
        (None, e1) \<Rightarrow> (None, throw Fatal_alloc e1)
      | (Some ubuf, e1) \<Rightarrow>
          (case ubuf_block_write e1 ubuf of
             (None, e2) \<Rightarrow> (None, throw Fatal_alloc e2)
           | (Some scte35, e2) \<Rightarrow>
               if pts_prog = UINT64_MAX then
                 (Some (scte35_message_set_immediate msg
                    (Some (insert_section scte35 cancel event_id out_of_network auto_return
                       program_id pts_prog duration))), e2)
               else
                 input_insert_loop e2
                   (scte35_message_set_ubuf msg
                      (Some (insert_section scte35 cancel event_id out_of_network auto_return
                         program_id pts_prog duration)))
                   cancel event_id out_of_network auto_return program_id duration UINT64_MAX))"
  by pat_completeness auto
termination
  by (relation "measure (\<lambda>(e, msg, c, ev, oon, ar, pid, d, pts). if pts = UINT64_MAX then 0 else 1)")
    auto

definition upipe_ts_scte35g_input_insert :: "pipe \<Rightarrow> fault + pipe" where
  "upipe_ts_scte35g_input_insert es =
     (case es of (e, s) \<Rightarrow>
      case urefs s of
        [] \<Rightarrow> Inl Null_deref
      | uref # rest \<Rightarrow>
          let s = s\<lparr>urefs := rest\<rparr>;
              pts_prog = get_or (u_pts_prog uref) UINT64_MAX;
              duration = get_or (attr d_duration uref) UINT64_MAX;
              cr_sys = get_or (u_pts_sys uref) 0;
              event_id = get_or (attr d_event_id uref) 0;
              cancel = flag d_cancel uref;
              out_of_network = flag d_out_of_network uref;
              auto_return = flag d_auto_return uref;
              program_id = get_or (attr d_unique_program_id uref) 0
          in case scte35_message_new e cr_sys of
               (None, e1) \<Rightarrow> Inr (throw Fatal_alloc e1, s)
             | (Some msg, e1) \<Rightarrow>
                 (case input_insert_loop e1 msg cancel event_id out_of_network auto_return
                         program_id duration pts_prog of
                    (None, e2) \<Rightarrow> Inr (e2, s)
                  | (Some msg, e2) \<Rightarrow>
                      Inr (throw (Notice ''now using splice_insert command for event'') e2,
                           s\<lparr>scte35_sections := scte35_sections s @ [msg],
                             scte35_cr_sys := 0\<rparr>)))"

text \<open>The loop of \<^verbatim>\<open>upipe_ts_scte35g_time_signal\<close>. \<open>pts_orig\<close> is computed once before the
  loop and read in both passes; \<open>pts_prog\<close> only decides which pass is the last.\<close>

function time_signal_loop ::
  "env \<Rightarrow> scte35_message \<Rightarrow> u64 \<Rightarrow> uref list \<Rightarrow> u64 \<Rightarrow> fault + (scte35_message option \<times> env)"
  where
  "time_signal_loop e msg pts_orig descs pts_prog =
     (case ubuf_block_alloc e (PSI_MAX_SIZE + PSI_HEADER_SIZE) of
        (None, e1) \<Rightarrow> Inr (None, throw Fatal_alloc e1)
      | (Some ubuf, e1) \<Rightarrow>
          (case ubuf_block_write e1 ubuf of
             (None, e2) \<Rightarrow> Inr (None, throw Fatal_alloc e2)
           | (Some scte35, e2) \<Rightarrow>
               (case time_signal_section e2 scte35 pts_orig descs of
                  Inl f \<Rightarrow> Inl f
                | Inr (e3, section) \<Rightarrow>
                    if pts_prog = UINT64_MAX then
                      Inr (Some (scte35_message_set_immediate msg (Some section)), e3)
                    else
                      time_signal_loop e3 (scte35_message_set_ubuf msg (Some section))
                        pts_orig descs UINT64_MAX)))"
  by pat_completeness auto
termination
  by (relation "measure (\<lambda>(e, msg, po, ds, pts). if pts = UINT64_MAX then 0 else 1)") auto

definition upipe_ts_scte35g_time_signal :: "pipe \<Rightarrow> fault + pipe" where
  "upipe_ts_scte35g_time_signal es =
     (case es of (e, s) \<Rightarrow>
      case urefs s of
        [] \<Rightarrow> Inl Null_deref
      | uref # rest \<Rightarrow>
          let s = s\<lparr>urefs := rest\<rparr>;
              pts_prog = get_or (u_pts_prog uref) UINT64_MAX;
              cr_sys = get_or (u_pts_sys uref) 0;
              pts_orig = (if pts_prog \<noteq> UINT64_MAX
                          then (pts_prog div CLOCK_SCALE) mod POW2_33 else UINT64_MAX)
          in case scte35_message_new e cr_sys of
               (None, e1) \<Rightarrow> Inr (throw Fatal_alloc e1, s)
             | (Some msg, e1) \<Rightarrow>
                 (case time_signal_loop e1 msg pts_orig rest pts_prog of
                    Inl f \<Rightarrow> Inl f
                  | Inr (None, e2) \<Rightarrow> Inr (e2, s)
                  | Inr (Some msg, e2) \<Rightarrow>
                      Inr (throw (Notice ''now using time signal command'') e2,
                           s\<lparr>scte35_sections := scte35_sections s @ [msg],
                             scte35_cr_sys := 0\<rparr>)))"

definition upipe_ts_scte35g_build_null :: "pipe \<Rightarrow> pipe" where
  "upipe_ts_scte35g_build_null es =
     (case es of (e, s) \<Rightarrow>
      if flow_def s = None then (e, s)
      else
        case ubuf_block_alloc e (PSI_MAX_SIZE + PSI_HEADER_SIZE) of
          (None, e1) \<Rightarrow> (throw Fatal_alloc e1, s)
        | (Some ubuf, e1) \<Rightarrow>
            (case ubuf_block_write e1 ubuf of
               (None, e2) \<Rightarrow> (throw Fatal_alloc e2, s)
             | (Some scte35, e2) \<Rightarrow>
                 (e2, s\<lparr>scte35_null_section := Some (null_section scte35)\<rparr>)))"

text \<open>The final \<^verbatim>\<open>while\<close> of \<^verbatim>\<open>upipe_ts_scte35g_flush\<close> pops and frees every buffered record.\<close>

definition drain :: "pipe \<Rightarrow> pipe" where
  "drain es = (case es of (e, s) \<Rightarrow> (e, s\<lparr>urefs := []\<rparr>))"

definition upipe_ts_scte35g_flush :: "pipe \<Rightarrow> fault + pipe" where
  "upipe_ts_scte35g_flush es =
     (case es of (e, s) \<Rightarrow>
      case urefs s of
        [] \<Rightarrow> Inr (e, s)
      | uref # rest \<Rightarrow>
          (case attr d_command_type uref of
             None \<Rightarrow> Inr (drain (throw (Warn ''no command type found'') e, s))
           | Some command_type \<Rightarrow>
               if command_type = SCTE35_INSERT_COMMAND then
                 map_sum id drain (upipe_ts_scte35g_input_insert (e, s))
               else if command_type = SCTE35_NULL_COMMAND then
                 Inr (drain (upipe_ts_scte35g_build_null (e, s)))
               else if command_type = SCTE35_TIME_SIGNAL_COMMAND then
                 map_sum id drain (upipe_ts_scte35g_time_signal (e, s))
               else Inr (throw (Warn ''unimplemented command type'') e, s)))"

text \<open>\<^verbatim>\<open>upipe_ts_scte35g_input\<close>. The input is a null pointer or a record, whose dictionary may be
  missing. In the branch of the empty event the loop runs over \<^verbatim>\<open>urefs\<close>, the list of the
  buffered input records, and takes each of them for a \<^verbatim>\<open>struct scte35_message\<close>: with a record
  in the list it frees and overwrites a field of another structure, which is a fault here.\<close>

definition upipe_ts_scte35g_input :: "pipe \<Rightarrow> uref option \<Rightarrow> fault + pipe" where
  "upipe_ts_scte35g_input es input =
     (case es of (e, s) \<Rightarrow>
      case (case input of None \<Rightarrow> None
            | Some r \<Rightarrow> (case u_udict r of None \<Rightarrow> None | Some d \<Rightarrow> Some r)) of
        None \<Rightarrow>
          (let e1 = throw (Notice ''now using splice_null command due to empty event'') e
           in case urefs s of [] \<Rightarrow> Inr (e1, s) | r # rs \<Rightarrow> Inl Type_confusion)
      | Some uref \<Rightarrow>
          (case attr d_command_type uref of
             None \<Rightarrow> Inr (throw (Warn ''no command type in packet'') e, s)
           | Some command_type \<Rightarrow>
               let start = u_start uref;
                   end = u_end uref;
                   was_empty = (urefs s = [])
               in case (if start \<and> \<not> was_empty
                        then map_sum id (\<lambda>es1. (es1, True))
                               (upipe_ts_scte35g_flush (throw (Warn ''force last event flush'') e, s))
                        else Inr ((e, s), was_empty)) of
                    Inl f \<Rightarrow> Inl f
                  | Inr ((e1, s1), was_empty) \<Rightarrow>
                      let s2 = s1\<lparr>urefs := urefs s1 @ [uref]\<rparr>
                      in if (\<not> was_empty \<or> start) \<and> \<not> end
                         then Inr (throw (Verbose ''wait for next descriptor'') e1, s2)
                         else upipe_ts_scte35g_flush (e1, s2)))"

text \<open>\<^verbatim>\<open>upipe_ts_scte35g_build_flow_def\<close>. The allocation of the record and the four attribute
  setters can each fail, and the first failure ends the chain; the stored flow definition is
  announced by the helper with a new flow definition event.\<close>

fun alloc_chain :: "nat \<Rightarrow> env \<Rightarrow> bool \<times> env" where
  "alloc_chain 0 e = (True, e)"
| "alloc_chain (Suc n) e = (case alloc e of (False, e1) \<Rightarrow> (False, e1) | (True, e1) \<Rightarrow> alloc_chain n e1)"

definition upipe_ts_scte35g_build_flow_def :: "pipe \<Rightarrow> pipe" where
  "upipe_ts_scte35g_build_flow_def es =
     (case es of (e, s) \<Rightarrow>
      if scte35_interval s = 0 then (e, s)
      else
        case alloc_chain 5 e of
          (False, e1) \<Rightarrow> (throw Fatal_alloc e1, s)
        | (True, e1) \<Rightarrow>
            (throw New_flow_def e1,
             s\<lparr>output_flow_def := Some
                 \<lparr>o_def = ''block.mpegtspsi.mpegtsscte35.'',
                  o_psi_section_interval = scte35_interval s,
                  o_octetrate =
                    of_nat (TS_SIZE - TS_HEADER_SIZE - 1) * UCLOCK_FREQ div scte35_interval s,
                  o_tb_rate = TB_RATE_PSI\<rparr>\<rparr>))"

text \<open>\<^verbatim>\<open>upipe_ts_scte35g_send\<close>. The block is duplicated and the record allocated before either
  result is tested.\<close>

definition upipe_ts_scte35g_send :: "pipe \<Rightarrow> ubuf \<Rightarrow> u64 \<Rightarrow> pipe" where
  "upipe_ts_scte35g_send es section cr_sys =
     (case es of (e, s) \<Rightarrow>
      case alloc e of (dup_ok, e1) \<Rightarrow>
      case alloc e1 of (uref_ok, e2) \<Rightarrow>
        if \<not> uref_ok \<or> \<not> dup_ok then (throw Fatal_alloc e2, s)
        else
          (e2\<lparr>outputs := outputs e2 @
                 [\<lparr>s_ubuf = section, s_start = True, s_end = True, s_cr_sys = cr_sys\<rparr>]\<rparr>,
           s\<lparr>scte35_cr_sys := cr_sys\<rparr>))"

definition upipe_ts_scte35g_set_flow_def :: "pipe \<Rightarrow> uref option \<Rightarrow> ubase_err \<times> pipe" where
  "upipe_ts_scte35g_set_flow_def es fd =
     (case es of (e, s) \<Rightarrow>
      case fd of
        None \<Rightarrow> (UBASE_ERR_INVALID, (e, s))
      | Some f \<Rightarrow>
          if \<not> uref_flow_match_def f ''void.scte35.'' then (UBASE_ERR_INVALID, (e, s))
          else
            case alloc e of
              (False, e1) \<Rightarrow> (UBASE_ERR_ALLOC, (throw Fatal_alloc e1, s))
            | (True, e1) \<Rightarrow>
                let scte35_change = (flow_def s = None);
                    s1 = s\<lparr>flow_def := Some f\<rparr>
                in (UBASE_ERR_NONE,
                    if scte35_change
                    then upipe_ts_scte35g_build_flow_def (upipe_ts_scte35g_build_null (e1, s1))
                    else (e1, s1)))"

definition upipe_ts_scte35g_get_scte35_interval :: "pipe \<Rightarrow> u64" where
  "upipe_ts_scte35g_get_scte35_interval es = scte35_interval (snd es)"

definition upipe_ts_scte35g_set_scte35_interval :: "pipe \<Rightarrow> u64 \<Rightarrow> pipe" where
  "upipe_ts_scte35g_set_scte35_interval es interval =
     (case es of (e, s) \<Rightarrow> upipe_ts_scte35g_build_flow_def (e, s\<lparr>scte35_interval := interval\<rparr>))"

text \<open>The \<^verbatim>\<open>ulist_delete_foreach\<close> of \<^verbatim>\<open>upipe_ts_scte35g_prepare\<close> over the messages still to
  visit; \<open>kept\<close> are the visited messages that stay in the list, in their order.\<close>

fun prepare_loop ::
  "u64 \<Rightarrow> scte35_message list \<Rightarrow> pipe \<Rightarrow> bool \<Rightarrow> scte35_message list \<Rightarrow>
   pipe \<times> bool \<times> scte35_message list" where
  "prepare_loop cr_sys [] es handled kept = (es, handled, kept)"
| "prepare_loop cr_sys (msg # rest) es handled kept =
     (if m_cr_sys msg < cr_sys then
        (case m_immediate msg of
           Some immediate \<Rightarrow>
             prepare_loop cr_sys rest
               (upipe_ts_scte35g_send
                  (throw (Notice ''sending an immediate event'') (fst es), snd es) immediate cr_sys)
               True kept
         | None \<Rightarrow>
             prepare_loop cr_sys rest (throw (Notice ''event expired'') (fst es), snd es)
               handled kept)
      else
        (let es1 = (throw (Dbg ''sending an event'') (fst es), snd es);
             msg1 = scte35_message_set_immediate msg None
         in case m_ubuf msg1 of
              Some ubuf \<Rightarrow>
                prepare_loop cr_sys rest (upipe_ts_scte35g_send es1 ubuf cr_sys) True
                  (kept @ [msg1])
            | None \<Rightarrow> prepare_loop cr_sys rest es1 handled (kept @ [msg1])))"

text \<open>\<^verbatim>\<open>upipe_ts_scte35g_prepare\<close>; it always returns \<^verbatim>\<open>UBASE_ERR_NONE\<close>. The sum of the last
  date and the interval is a 64-bit sum.\<close>

definition upipe_ts_scte35g_prepare :: "pipe \<Rightarrow> u64 \<Rightarrow> u64 \<Rightarrow> pipe" where
  "upipe_ts_scte35g_prepare es cr_sys latency =
     (case es of (e, s) \<Rightarrow>
      case scte35_null_section s of
        None \<Rightarrow> (e, s)
      | Some null \<Rightarrow>
          if flow_def s = None \<or> scte35_interval s = 0 \<or>
             scte35_cr_sys s + scte35_interval s > cr_sys
          then (e, s)
          else
            case prepare_loop cr_sys (scte35_sections s) (e, s) False [] of
              ((e1, s1), handled, kept) \<Rightarrow>
                let es2 = (e1, s1\<lparr>scte35_sections := kept\<rparr>)
                in if \<not> handled then upipe_ts_scte35g_send es2 null cr_sys else es2)"

subsection \<open>Notions used in the statements\<close>

text \<open>No allocation request fails.\<close>

definition no_alloc_failure :: "env \<Rightarrow> bool" where
  "no_alloc_failure e = (\<forall>b \<in> set (allocs e). b)"

text \<open>The block that \<^verbatim>\<open>ubuf_block_alloc\<close> hands out in the environment \<open>e\<close>.\<close>

definition fresh_block :: "env \<Rightarrow> ubuf" where
  "fresh_block e =
     take (PSI_MAX_SIZE + PSI_HEADER_SIZE) (junk e @ replicate (PSI_MAX_SIZE + PSI_HEADER_SIZE) 0)"

text \<open>The record that \<^verbatim>\<open>upipe_ts_scte35g_send\<close> outputs for a section.\<close>

definition mk_sent :: "u64 \<Rightarrow> ubuf \<Rightarrow> sent" where
  "mk_sent cr_sys b = \<lparr>s_ubuf = b, s_start = True, s_end = True, s_cr_sys = cr_sys\<rparr>"

text \<open>The preconditions for activity of a tick, section 4.4 of the specification, with the
  64-bit sum of the code.\<close>

definition qualifies :: "upipe_ts_scte35g \<Rightarrow> u64 \<Rightarrow> bool" where
  "qualifies s cr_sys \<longleftrightarrow>
     flow_def s \<noteq> None \<and> scte35_null_section s \<noteq> None \<and> scte35_interval s \<noteq> 0 \<and>
     scte35_cr_sys s + scte35_interval s \<le> cr_sys"

text \<open>The decision algorithm of section 4.4 in the words of the specification. For a message
  \<open>M\<close>: past its deadline the immediate form is the one to emit, otherwise the scheduled one;
  the messages that stay are those whose deadline has not passed, without their immediate form;
  the null section is emitted when no message gave a form.\<close>

definition tick_form :: "u64 \<Rightarrow> scte35_message \<Rightarrow> ubuf option" where
  "tick_form cr_sys M = (if m_cr_sys M < cr_sys then m_immediate M else m_ubuf M)"

definition tick_forms :: "u64 \<Rightarrow> scte35_message list \<Rightarrow> ubuf list" where
  "tick_forms cr_sys Ms = List.map_filter (tick_form cr_sys) Ms"

definition tick_kept :: "u64 \<Rightarrow> scte35_message list \<Rightarrow> scte35_message list" where
  "tick_kept cr_sys Ms =
     map (\<lambda>M. M\<lparr>m_immediate := None\<rparr>) (filter (\<lambda>M. \<not> m_cr_sys M < cr_sys) Ms)"

definition tick_emitted :: "u64 \<Rightarrow> ubuf \<Rightarrow> scte35_message list \<Rightarrow> ubuf list" where
  "tick_emitted cr_sys null Ms =
     (if tick_forms cr_sys Ms = [] then [null] else tick_forms cr_sys Ms)"

subsection \<open>Example inputs\<close>

definition env0 :: env where
  "env0 = \<lparr>allocs = [], junk = [], events = [], outputs = []\<rparr>"

definition udict0 :: udict where
  "udict0 = \<lparr>d_def = None, d_command_type = None, d_event_id = None, d_cancel = False,
     d_out_of_network = False, d_auto_return = False, d_unique_program_id = None,
     d_duration = None, d_desc = None\<rparr>"

text \<open>An input record that carries only a command type and the start and end flags.\<close>

definition fragment :: "u8 \<Rightarrow> bool \<Rightarrow> bool \<Rightarrow> uref" where
  "fragment c st en =
     \<lparr>u_udict = Some (udict0\<lparr>d_command_type := Some c\<rparr>), u_start = st, u_end = en,
      u_pts_prog = None, u_pts_sys = None\<rparr>"

text \<open>A flow definition record.\<close>

definition flow_def_uref :: "string \<Rightarrow> uref" where
  "flow_def_uref str =
     \<lparr>u_udict = Some (udict0\<lparr>d_def := Some str\<rparr>), u_start = False, u_end = False,
      u_pts_prog = None, u_pts_sys = None\<rparr>"

text \<open>A pipe with one pending message that has both forms, and a configured pipe with two
  pending messages whose deadlines are ahead.\<close>

definition pending1 :: upipe_ts_scte35g where
  "pending1 = upipe_ts_scte35g_alloc
     \<lparr>scte35_sections :=
        [\<lparr>m_ubuf = Some [0xFC, 0x30, 0x25], m_immediate = Some [0xFC, 0x30, 0x20],
          m_cr_sys = 5000000\<rparr>]\<rparr>"

definition pending2 :: upipe_ts_scte35g where
  "pending2 =
     \<lparr>flow_def = Some (flow_def_uref ''void.scte35.''), output_flow_def = None, urefs = [],
      scte35_interval = 1350000, scte35_cr_sys = 0, scte35_null_section = Some [0xFC, 0x30, 0x11],
      scte35_sections =
        [\<lparr>m_ubuf = Some [0xFC, 0x30, 0x25], m_immediate = Some [0xFC, 0x30, 0x20],
          m_cr_sys = 5000000\<rparr>,
         \<lparr>m_ubuf = Some [0xFC, 0x30, 0x22], m_immediate = None, m_cr_sys = 6000000\<rparr>]\<rparr>"

subsection \<open>The length fields of a section\<close>

text \<open>The number of bytes of the command body of a section, read from the section as a decoder
  reads it, after section 4.2 of the specification: splice\_null has no body; splice\_insert has
  the event id and the byte of the cancel indicator and, when not cancelled, the flag byte, a
  \<^verbatim>\<open>splice_time()\<close> unless splice immediate is set, a \<^verbatim>\<open>break_duration()\<close> of five bytes when
  the duration flag is set, the unique program id, avail num and avails expected; time\_signal
  has one \<^verbatim>\<open>splice_time()\<close>.\<close>

definition command_body_size :: "ubuf \<Rightarrow> nat" where
  "command_body_size sec =
     (if scte35_get_command_type sec = SCTE35_INSERT_COMMAND then
        4 + 1 +
        (if scte35_insert_has_cancel sec then 0
         else 1 +
           (if scte35_insert_has_splice_immediate sec then 0
            else scte35_splice_time_size sec (scte35_insert_get_splice_time sec)) +
           (if scte35_insert_has_duration sec then 5 else 0) + 2 + 1 + 1)
      else if scte35_get_command_type sec = SCTE35_TIME_SIGNAL_COMMAND then
        scte35_splice_time_size sec (scte35_time_signal_get_splice_time sec)
      else 0)"

text \<open>The three length fields of the section \<open>sec\<close> are exact, for the concatenated exported
  descriptors \<open>descs\<close>: the section length counts the bytes from byte 3 through the end of the
  CRC, the command length is the size of the command body, the descriptor loop length is the
  size of \<open>descs\<close>, which are the bytes of the descriptor loop; and the section is made of the
  header, the body, the loop length, the loop and the CRC, with nothing else.\<close>

definition lengths_exact :: "ubuf \<Rightarrow> u8 list \<Rightarrow> bool" where
  "lengths_exact sec descs \<longleftrightarrow>
     PSI_HEADER_SIZE \<le> length sec \<and>
     unat (psi_get_length sec) = length sec - PSI_HEADER_SIZE \<and>
     unat (scte35_get_command_length sec) = command_body_size sec \<and>
     unat (scte35_get_desclength sec) = length descs \<and>
     take (length descs) (drop (scte35_get_descl sec) sec) = descs \<and>
     length sec =
       SCTE35_HEADER_SIZE + command_body_size sec + SCTE35_HEADER2_SIZE + length descs +
       PSI_CRC_SIZE"

text \<open>The runs of bytes that the descriptors of the records \<open>us\<close> export, in order, without the
  records whose export fails.\<close>

definition exported :: "uref list \<Rightarrow> u8 list list" where
  "exported us = List.map_filter upipe_ts_scte_export_desc us"

subsection \<open>Reading a section back\<close>

text \<open>The 33-bit \<open>pts_time\<close> that a decoder finds in a section: in a splice\_insert that is not
  cancelled, has the program splice flag and not the splice immediate flag, and whose
  \<^verbatim>\<open>splice_time()\<close> has the time specified flag; in a time\_signal whose \<^verbatim>\<open>splice_time()\<close> has
  the time specified flag; in no other section.\<close>

definition decode_pts_time :: "ubuf \<Rightarrow> u64 option" where
  "decode_pts_time sec =
     (if scte35_get_command_type sec = SCTE35_INSERT_COMMAND then
        (if \<not> scte35_insert_has_cancel sec \<and> scte35_insert_has_program_splice sec \<and>
            \<not> scte35_insert_has_splice_immediate sec \<and>
            scte35_splice_time_has_time_specified sec (scte35_insert_get_splice_time sec)
         then Some (scte35_splice_time_get_pts_time sec (scte35_insert_get_splice_time sec))
         else None)
      else if scte35_get_command_type sec = SCTE35_TIME_SIGNAL_COMMAND then
        (if scte35_splice_time_has_time_specified sec (scte35_time_signal_get_splice_time sec)
         then Some (scte35_splice_time_get_pts_time sec (scte35_time_signal_get_splice_time sec))
         else None)
      else None)"

text \<open>The \<^verbatim>\<open>break_duration()\<close> that a decoder finds in a section, as the auto return flag and
  the 33-bit duration: in a splice\_insert that is not cancelled and has the duration flag.\<close>

definition decode_break_duration :: "ubuf \<Rightarrow> (bool \<times> u64) option" where
  "decode_break_duration sec =
     (if scte35_get_command_type sec = SCTE35_INSERT_COMMAND \<and>
         \<not> scte35_insert_has_cancel sec \<and> scte35_insert_has_duration sec
      then Some (scte35_break_duration_has_auto_return sec (scte35_insert_get_break_duration sec),
                 scte35_break_duration_get_duration sec (scte35_insert_get_break_duration sec))
      else None)"

text \<open>The environment after the export of the descriptors of \<open>us\<close>: one warning for each
  record whose export fails.\<close>

definition export_warned :: "uref list \<Rightarrow> env \<Rightarrow> env" where
  "export_warned us e =
     e\<lparr>events := events e @
          replicate (length (filter (\<lambda>u. upipe_ts_scte_export_desc u = None) us))
            (Warn ''fail to export descriptor'')\<rparr>"

text \<open>A well-formed descriptor: the tag, the length byte, and as many bytes as it says.\<close>

definition wf_desc :: "u8 list \<Rightarrow> bool" where
  "wf_desc r \<longleftrightarrow> 2 \<le> length r \<and> length r \<le> 257 \<and> unat (r ! 1) = length r - 2"


text \<open>The section that one pass of the loop of \<^verbatim>\<open>upipe_ts_scte35g_time_signal\<close> builds in the
  block \<open>scte35\<close>, when it builds one.\<close>

definition time_signal_bytes :: "ubuf \<Rightarrow> u64 \<Rightarrow> uref list \<Rightarrow> ubuf" where
  "time_signal_bytes scte35 pts_orig descs =
     (case time_signal_section env0 scte35 pts_orig descs of
        Inl f \<Rightarrow> []
      | Inr (e, section) \<Rightarrow> section)"

text \<open>The size of the section of a time\_signal with the descriptors of \<open>descs\<close>: the header,
  the \<^verbatim>\<open>splice_time()\<close>, the loop length, the exported descriptors and the CRC.\<close>

definition time_signal_size :: "u64 \<Rightarrow> uref list \<Rightarrow> nat" where
  "time_signal_size pts_orig descs =
     SCTE35_HEADER_SIZE + (if pts_orig \<noteq> UINT64_MAX then 5 else 1) + SCTE35_HEADER2_SIZE +
     length (concat (exported descs)) + PSI_CRC_SIZE"

text \<open>Records of events: a splice\_insert of event 0x12345678 at the program date 9000000
  with a break of 2700000 ticks, the same event cancelled, the same event with the program date
  \<open>2^64 - 1\<close>; a time\_signal at the program date 90000000 that starts an event, the same with
  the program date \<open>2^64 - 1\<close>, and a record that carries a descriptor of ten bytes and ends
  the event.\<close>

definition ex_insert :: uref where
  "ex_insert =
     \<lparr>u_udict = Some (udict0\<lparr>d_command_type := Some SCTE35_INSERT_COMMAND,
        d_event_id := Some 0x12345678, d_out_of_network := True, d_auto_return := True,
        d_unique_program_id := Some 0x42, d_duration := Some 2700000\<rparr>),
      u_start = True, u_end = True, u_pts_prog = Some 9000000, u_pts_sys = Some 5000000\<rparr>"

definition ex_insert_cancel :: uref where
  "ex_insert_cancel =
     \<lparr>u_udict = Some (udict0\<lparr>d_command_type := Some SCTE35_INSERT_COMMAND,
        d_event_id := Some 0x12345678, d_cancel := True\<rparr>),
      u_start = True, u_end = True, u_pts_prog = Some 9000000, u_pts_sys = Some 5000000\<rparr>"

definition ex_insert_max :: uref where
  "ex_insert_max = ex_insert\<lparr>u_pts_prog := Some UINT64_MAX\<rparr>"

definition ex_time_signal :: uref where
  "ex_time_signal =
     \<lparr>u_udict = Some (udict0\<lparr>d_command_type := Some SCTE35_TIME_SIGNAL_COMMAND\<rparr>),
      u_start = True, u_end = False, u_pts_prog = Some 90000000, u_pts_sys = Some 5000000\<rparr>"

definition ex_time_signal_max :: uref where
  "ex_time_signal_max = ex_time_signal\<lparr>u_pts_prog := Some UINT64_MAX\<rparr>"

definition ex_desc :: uref where
  "ex_desc =
     \<lparr>u_udict = Some (udict0\<lparr>d_command_type := Some SCTE35_TIME_SIGNAL_COMMAND,
        d_desc := Some (0x02, [0x43, 0x55, 0x45, 0x49, 1, 2, 3, 4, 5, 6])\<rparr>),
      u_start = False, u_end = True, u_pts_prog = None, u_pts_sys = None\<rparr>"

text \<open>The command of the section \<open>sec\<close> is a splice\_insert with the cancel indicator
  \<open>cancel\<close> and, when not cancelled, the program splice flag and the splice immediate and
  duration flags \<open>immediate\<close> and \<open>duration\<close>; and its body has the size of section 4.2: the
  event id and the byte of the cancel indicator and, when not cancelled, the byte of the flags,
  five bytes of \<^verbatim>\<open>splice_time()\<close> unless immediate, five bytes of \<^verbatim>\<open>break_duration()\<close> with a
  duration, and four bytes of program id and avails.\<close>

definition insert_shape :: "ubuf \<Rightarrow> bool \<Rightarrow> bool \<Rightarrow> bool \<Rightarrow> bool" where
  "insert_shape sec cancel immediate duration \<longleftrightarrow>
     scte35_get_command_type sec = SCTE35_INSERT_COMMAND \<and>
     scte35_insert_has_cancel sec = cancel \<and>
     (cancel \<or>
      scte35_insert_has_program_splice sec \<and>
      scte35_insert_has_splice_immediate sec = immediate \<and>
      scte35_insert_has_duration sec = duration) \<and>
     command_body_size sec =
       5 + (if cancel then 0
            else 1 + (if immediate then 0 else 5) + (if duration then 5 else 0) + 4)"

text \<open>A record that carries a descriptor of 257 bytes.\<close>

definition ex_big_desc :: uref where
  "ex_big_desc =
     \<lparr>u_udict = Some (udict0\<lparr>d_command_type := Some SCTE35_TIME_SIGNAL_COMMAND,
        d_desc := Some (0x02, replicate 255 0)\<rparr>),
      u_start = False, u_end = False, u_pts_prog = None, u_pts_sys = None\<rparr>"

text \<open>The same record as the last one of its event, and a pipe that holds an input flow
  definition and has the interval set.\<close>

definition ex_big_desc_end :: uref where
  "ex_big_desc_end = ex_big_desc\<lparr>u_end := True\<rparr>"

definition configured :: upipe_ts_scte35g where
  "configured = upipe_ts_scte35g_alloc
     \<lparr>flow_def := Some (flow_def_uref ''void.scte35.''), scte35_interval := 1350000\<rparr>"

text \<open>The splice\_insert of \<open>ex_insert\<close> without a program date.\<close>

definition ex_insert_now :: uref where
  "ex_insert_now = ex_insert\<lparr>u_pts_prog := None\<rparr>"

section \<open>Properties\<close>

subsection \<open>Bytes and bits\<close>

lemma m_FE: "(0xFE::u8) = NOT 1" by simp
lemma m_0F: "(0x0F::u8) = mask 4" by (simp add: mask_eq_exp_minus_1)
lemma m_F0: "(0xF0::u8) = NOT (mask 4)" by (simp add: mask_eq_exp_minus_1)

lemma bit_128_int: "bit (128::int) n \<longleftrightarrow> n = 7"
proof -
  have "(128::int) = 2 ^ 7" by simp
  then show ?thesis by (simp only: bit_exp_iff) auto
qed

lemma keep_top_bit: "((x AND 0xFE) OR (y AND 0x01)) AND (0x80::u8) = x AND 0x80"
  unfolding m_FE
  by (rule bit_word_eqI) (auto simp: bit_simps bit_128_int)

lemma field12:
  "push_bit 8 (ucast (((x::u8) AND 0xF0 OR (ucast (drop_bit 8 (l::u16)) AND 0x0F)) AND 0x0F)) OR
   ucast (ucast l :: u8) = take_bit 12 l"
  unfolding m_0F m_F0
  by (rule bit_word_eqI) (auto simp: bit_simps)

lemma field16: "push_bit 8 (ucast (ucast (drop_bit 8 (l::u16)) :: u8)) OR ucast (ucast l :: u8) = l"
  by (rule bit_word_eqI) (auto simp: bit_simps)

lemma field33:
  "push_bit 32 (ucast ((((x::u8) AND 0xFE) OR (ucast (drop_bit 32 (v::u64)) AND 0x01)) AND 0x01)) OR
   push_bit 24 (ucast (ucast (drop_bit 24 v) :: u8)) OR
   push_bit 16 (ucast (ucast (drop_bit 16 v) :: u8)) OR
   push_bit 8 (ucast (ucast (drop_bit 8 v) :: u8)) OR
   ucast (ucast v :: u8) = take_bit 33 v" (is "?L = ?R")
proof (rule bit_word_eqI)
  fix n assume "n < LENGTH(64)"
  consider "n < 8" | "8 \<le> n" "n < 16" | "16 \<le> n" "n < 24" | "24 \<le> n" "n < 32" | "n = 32"
    | "33 \<le> n" by linarith
  then show "bit ?L n = bit ?R n"
    by cases (auto simp: bit_simps m_FE)
qed

lemma unat_take_bit_12: "unat (take_bit 12 (of_nat n :: u16)) = n mod 4096"
proof -
  have "unat (take_bit 12 (of_nat n :: u16)) = take_bit 12 (unat (of_nat n :: u16))"
    by (rule unsigned_take_bit_eq)
  also have "\<dots> = take_bit 12 (n mod 65536)" by (simp add: unat_of_nat)
  also have "\<dots> = n mod 4096" by (simp add: take_bit_eq_mod mod_mod_cancel)
  finally show ?thesis .
qed

lemma unat_of_nat_u16: "n < 65536 \<Longrightarrow> unat (of_nat n :: u16) = n"
  by (simp add: unat_of_nat)

subsection \<open>Flags\<close>

lemma has_flag_update:
  "has_flag (p[i := v]) j m = (if i = j \<and> i < length p then v AND m \<noteq> 0 else has_flag p j m)"
proof (cases "i < length p")
  case True
  then show ?thesis by (simp add: has_flag_def nth_list_update)
next
  case False
  then have "p[i := v] = p" by (simp add: list_update_beyond)
  with False show ?thesis by simp
qed

lemma has_flag_take: "j < n \<Longrightarrow> has_flag (take n p) j m = has_flag p j m"
  by (simp add: has_flag_def)

subsection \<open>The 33-bit fields\<close>

lemma pts_time_length [simp]: "length (scte35_splice_time_set_pts_time p t v) = length p"
  by (simp add: scte35_splice_time_set_pts_time_def)

lemma pts_time_nth:
  "j < t \<or> t + 4 < j \<Longrightarrow> scte35_splice_time_set_pts_time p t v ! j = p ! j"
  by (auto simp: scte35_splice_time_set_pts_time_def)

lemma pts_time_flag:
  "t + 4 < length p \<Longrightarrow>
   has_flag (scte35_splice_time_set_pts_time p t v) t 0x80 = has_flag p t 0x80"
  by (simp add: scte35_splice_time_set_pts_time_def has_flag_def keep_top_bit)

lemma pts_time_flag_other:
  "j < t \<or> t + 4 < j \<Longrightarrow>
   has_flag (scte35_splice_time_set_pts_time p t v) j m = has_flag p j m"
  by (simp add: has_flag_def pts_time_nth)

lemma pts_time_get:
  "t + 4 < length p \<Longrightarrow>
   scte35_splice_time_get_pts_time (scte35_splice_time_set_pts_time p t v) t = take_bit 33 v"
  by (simp add: scte35_splice_time_set_pts_time_def scte35_splice_time_get_pts_time_def field33)

lemma duration_length [simp]: "length (scte35_break_duration_set_duration p b d) = length p"
  by (simp add: scte35_break_duration_set_duration_def)

lemma duration_nth:
  "j < b \<or> b + 4 < j \<Longrightarrow> scte35_break_duration_set_duration p b d ! j = p ! j"
  by (auto simp: scte35_break_duration_set_duration_def)

lemma duration_flag:
  "b + 4 < length p \<Longrightarrow>
   has_flag (scte35_break_duration_set_duration p b d) b 0x80 = has_flag p b 0x80"
  by (simp add: scte35_break_duration_set_duration_def has_flag_def keep_top_bit)

lemma duration_flag_other:
  "j < b \<or> b + 4 < j \<Longrightarrow>
   has_flag (scte35_break_duration_set_duration p b d) j m = has_flag p j m"
  by (simp add: has_flag_def duration_nth)

lemma duration_get:
  "b + 4 < length p \<Longrightarrow>
   scte35_break_duration_get_duration (scte35_break_duration_set_duration p b d) b = take_bit 33 d"
  by (simp add: scte35_break_duration_set_duration_def scte35_break_duration_get_duration_def
      field33)

subsection \<open>The CRC\<close>

lemma psi_set_crc_length [simp]: "length (psi_set_crc p) = length p"
  by (simp add: psi_set_crc_def Let_def)

lemma psi_set_crc_nth:
  "i < unat (psi_get_length p) + PSI_HEADER_SIZE - PSI_CRC_SIZE \<Longrightarrow> psi_set_crc p ! i = p ! i"
  by (simp add: psi_set_crc_def Let_def)

lemma psi_set_crc_flag:
  "i < unat (psi_get_length p) + PSI_HEADER_SIZE - PSI_CRC_SIZE \<Longrightarrow>
   has_flag (psi_set_crc p) i m = has_flag p i m"
  by (simp add: has_flag_def psi_set_crc_nth)

lemma pts_time_get_update:
  "i < t \<or> t + 4 < i \<Longrightarrow>
   scte35_splice_time_get_pts_time (p[i := x]) t = scte35_splice_time_get_pts_time p t"
  by (auto simp: scte35_splice_time_get_pts_time_def)

lemma pts_time_get_take:
  "t + 4 < n \<Longrightarrow>
   scte35_splice_time_get_pts_time (take n p) t = scte35_splice_time_get_pts_time p t"
  by (simp add: scte35_splice_time_get_pts_time_def)

lemma pts_time_get_crc:
  "t + 4 < unat (psi_get_length p) + PSI_HEADER_SIZE - PSI_CRC_SIZE \<Longrightarrow>
   scte35_splice_time_get_pts_time (psi_set_crc p) t = scte35_splice_time_get_pts_time p t"
  by (simp add: scte35_splice_time_get_pts_time_def psi_set_crc_nth)

lemma pts_time_get_duration:
  "t + 4 < b \<or> b + 4 < t \<Longrightarrow>
   scte35_splice_time_get_pts_time (scte35_break_duration_set_duration p b d) t =
     scte35_splice_time_get_pts_time p t"
  by (auto simp: scte35_splice_time_get_pts_time_def duration_nth)

lemma duration_get_update:
  "i < b \<or> b + 4 < i \<Longrightarrow>
   scte35_break_duration_get_duration (p[i := x]) b = scte35_break_duration_get_duration p b"
  by (auto simp: scte35_break_duration_get_duration_def)

lemma duration_get_take:
  "b + 4 < n \<Longrightarrow>
   scte35_break_duration_get_duration (take n p) b = scte35_break_duration_get_duration p b"
  by (simp add: scte35_break_duration_get_duration_def)

lemma duration_get_crc:
  "b + 4 < unat (psi_get_length p) + PSI_HEADER_SIZE - PSI_CRC_SIZE \<Longrightarrow>
   scte35_break_duration_get_duration (psi_set_crc p) b = scte35_break_duration_get_duration p b"
  by (simp add: scte35_break_duration_get_duration_def psi_set_crc_nth)

lemmas writer_defs = scte35_init_def psi_set_length_def scte35_set_pts_adjustment_def
  scte35_insert_init_def scte35_set_command_type_def scte35_set_command_length_def
  scte35_insert_set_cancel_def scte35_insert_set_event_id_def scte35_set_desclength_def
  scte35_get_command_length_def scte35_get_descl_def psi_get_length_def
  scte35_get_desclength_def scte35_get_command_type_def
  insert_size_def SCTE35_HEADER_SIZE_def PSI_HEADER_SIZE_def PSI_CRC_SIZE_def PSI_MAX_SIZE_def
  SCTE35_INSERT_HEADER_SIZE_def SCTE35_INSERT_HEADER2_SIZE_def SCTE35_INSERT_FOOTER_SIZE_def
  SCTE35_SPLICE_TIME_HEADER_SIZE_def SCTE35_SPLICE_TIME_TIME_SIZE_def
  SCTE35_BREAK_DURATION_HEADER_SIZE_def SCTE35_HEADER2_SIZE_def SCTE35_INSERT_COMMAND_def
  SCTE35_TIME_SIGNAL_COMMAND_def SCTE35_NULL_COMMAND_def
  insert_flags_def scte35_null_init_def

lemmas insert_defs = scte35_insert_set_out_of_network_def
  scte35_insert_set_program_splice_def scte35_insert_set_duration_def
  scte35_insert_set_splice_immediate_def set_flag_def
  scte35_insert_has_cancel_def scte35_insert_has_out_of_network_def
  scte35_insert_has_program_splice_def scte35_insert_has_duration_def
  scte35_insert_has_splice_immediate_def scte35_insert_get_splice_time_def
  scte35_insert_get_break_duration_def scte35_insert_get_footer_def
  scte35_splice_time_init_def scte35_splice_time_set_time_specified_def
  scte35_splice_time_has_time_specified_def
  scte35_splice_time_size_def scte35_break_duration_init_def
  scte35_break_duration_set_auto_return_def
  scte35_insert_set_unique_program_id_def scte35_insert_set_avail_num_def
  scte35_insert_set_avails_expected_def

lemmas exec_simps = has_flag_update has_flag_take pts_time_nth pts_time_flag pts_time_flag_other
  duration_nth duration_flag duration_flag_other psi_set_crc_nth psi_set_crc_flag
  pts_time_get pts_time_get_update pts_time_get_take pts_time_get_crc pts_time_get_duration
  duration_get duration_get_update duration_get_take duration_get_crc

subsection \<open>Runs of bytes in a block\<close>

lemma blit_length: "off + length bs \<le> length p \<Longrightarrow> length (blit p off bs) = length p"
  by (simp add: blit_def)

lemma blit_nth_before: "i < off \<Longrightarrow> off \<le> length p \<Longrightarrow> blit p off bs ! i = p ! i"
  by (simp add: blit_def nth_append)

lemma blit_nth_in:
  "i < length bs \<Longrightarrow> off \<le> length p \<Longrightarrow> blit p off bs ! (off + i) = bs ! i"
  by (simp add: blit_def nth_append)

lemma blit_region:
  "off \<le> length p \<Longrightarrow> take (length bs) (drop off (blit p off bs)) = bs"
  by (simp add: blit_def)

lemma blit_prefix:
  "n \<le> off \<Longrightarrow> off \<le> length p \<Longrightarrow> take n (blit p off bs) = take n p"
  by (simp add: blit_def)

lemma blit_blit:
  "off + length xs \<le> length p \<Longrightarrow>
   blit (blit p off xs) (off + length xs) ys = blit p off (xs @ ys)"
  by (simp add: blit_def ac_simps)

lemma blit_nil: "off \<le> length p \<Longrightarrow> blit p off [] = p"
  by (simp add: blit_def)

lemma export_wf: "upipe_ts_scte_export_desc u = Some r \<Longrightarrow> wf_desc r"
  by (auto simp: upipe_ts_scte_export_desc_def wf_desc_def unat_of_nat
      split: option.splits prod.splits if_splits)

lemma descl_walk_runs:
  assumes "\<forall>r \<in> set rs. wf_desc r"
    and "take (length (concat rs)) (drop (descl + off) p) = concat rs"
    and "descl + off + length (concat rs) \<le> length p"
    and "off + length (concat rs) < len"
  shows "descl_walk p descl len (length rs) off = Some (descl + off + length (concat rs))"
  using assms
proof (induction rs arbitrary: off)
  case Nil
  then show ?case by simp
next
  case (Cons r rs)
  from Cons.prems(1) have wf: "wf_desc r" and wfs: "\<forall>r \<in> set rs. wf_desc r" by simp_all
  then have lr: "2 \<le> length r" "unat (r ! 1) = length r - 2" by (simp_all add: wf_desc_def)
  let ?n = "length (concat rs)"
  have reg: "take (length r + ?n) (drop (descl + off) p) = r @ concat rs"
    using Cons.prems(2) by simp
  have bound: "descl + off + length r + ?n \<le> length p"
    using Cons.prems(3) by simp
  have "(take (length r + ?n) (drop (descl + off) p)) ! 1 = p ! (descl + off + 1)"
    using lr bound by simp
  with reg lr have b1: "p ! (descl + off + 1) = r ! 1"
    by (simp add: nth_append)
  have "drop (length r) (take (length r + ?n) (drop (descl + off) p)) = concat rs"
    using reg by simp
  then have reg': "take ?n (drop (descl + (off + length r)) p) = concat rs"
    by (simp add: drop_take add.commute add.left_commute)
  have next_off: "off + DESC_HEADER_SIZE + scte35_splice_desc_get_length p (descl + off) =
      off + length r"
    using lr b1 by (simp add: DESC_HEADER_SIZE_def scte35_splice_desc_get_length_def)
  have "\<not> (off + DESC_HEADER_SIZE > len \<or> descl + off + 1 \<ge> length p)"
    using lr bound Cons.prems(4) by (simp add: DESC_HEADER_SIZE_def)
  then have step: "descl_walk p descl len (Suc (length rs)) off =
      descl_walk p descl len (length rs) (off + length r)"
    by (simp only: descl_walk.simps next_off if_False)
  from Cons.IH [OF wfs reg'] bound Cons.prems(4)
  have "descl_walk p descl len (length rs) (off + length r) =
      Some (descl + (off + length r) + ?n)"
    by (simp add: add.assoc)
  with step show ?case by (simp add: add.assoc)
qed

lemma wrap33: "take_bit 33 ((x::u64) mod POW2_33) = x mod POW2_33"
proof -
  have e: "(y::u64) mod 8589934592 = take_bit 33 y" for y
    by (simp add: take_bit_eq_mod)
  show ?thesis unfolding POW2_33_def e by simp
qed

subsection \<open>The export of the descriptors\<close>

lemma exported_Cons:
  "exported (u # us) =
     (case upipe_ts_scte_export_desc u of None \<Rightarrow> exported us | Some r \<Rightarrow> r # exported us)"
  by (simp add: exported_def map_filter_simps split: option.splits)

lemma exported_Nil [simp]: "exported [] = []"
  by (simp add: exported_def map_filter_simps)

lemma export_warned_Nil [simp]: "export_warned [] e = e"
  by (simp add: export_warned_def)

lemma export_warned_Cons:
  "export_warned (u # us) e =
     (case upipe_ts_scte_export_desc u of
        None \<Rightarrow> export_warned us (throw (Warn ''fail to export descriptor'') e)
      | Some r \<Rightarrow> export_warned us e)"
  by (simp add: export_warned_def throw_def replicate_append_same split: option.splits)

lemma export_descs_run:
  assumes "\<forall>r \<in> set rs. wf_desc r"
    and "take (length (concat rs)) (drop descl p) = concat rs"
    and "dl = length (concat rs)" and "i = length rs"
    and "descl + dl \<le> length p" and "length p \<le> 65000"
  shows "export_descs e p descl us dl i =
     (if descl + dl + length (concat (exported us)) \<le> length p
      then Inr (export_warned us e, blit p (descl + dl) (concat (exported us)),
                dl + length (concat (exported us)))
      else Inl Buffer_overrun)"
  using assms
proof (induction us arbitrary: e p dl i rs)
  case Nil
  then show ?case by (simp add: blit_nil)
next
  case (Cons u us)
  show ?case
  proof (cases "upipe_ts_scte_export_desc u")
    case None
    from Cons.IH [OF Cons.prems, of "throw (Warn ''fail to export descriptor'') e"] None
    show ?thesis by (simp add: exported_Cons export_warned_Cons)
  next
    case (Some bs)
    then have wf: "wf_desc bs" by (rule export_wf)
    then have lb: "2 \<le> length bs" "unat (bs ! 1) = length bs - 2"
      by (simp_all add: wf_desc_def)
    have "unat (of_nat (dl + DESC_HEADER_SIZE) :: u16) = (dl + DESC_HEADER_SIZE) mod 2 ^ LENGTH(16)"
      by (rule unat_of_nat)
    then have len: "unat (of_nat (dl + DESC_HEADER_SIZE) :: u16) = dl + 2"
      using Cons.prems(5,6) by (simp add: DESC_HEADER_SIZE_def)
    have walk: "descl_get_desc p descl (of_nat (dl + DESC_HEADER_SIZE)) i = Some (descl + dl)"
      unfolding descl_get_desc_def len
      using descl_walk_runs [of rs descl 0 p "dl + 2"] Cons.prems by simp
    show ?thesis
    proof (cases "descl + dl + length bs > length p")
      case True
      with Some walk show ?thesis by (simp add: exported_Cons)
    next
      case False
      let ?p = "blit p (descl + dl) bs"
      have lp: "length ?p = length p" using False by (simp add: blit_length)
      have b1: "?p ! (descl + dl + 1) = bs ! 1"
        using blit_nth_in [of 1 bs "descl + dl" p] lb False by simp
      have dl': "(dl + DESC_HEADER_SIZE + scte35_splice_desc_get_length ?p (descl + dl)) mod 65536 =
          dl + length bs"
        using lb b1 False Cons.prems(6)
        by (simp add: DESC_HEADER_SIZE_def scte35_splice_desc_get_length_def)
      have reg1: "take dl (drop descl ?p) = concat rs"
      proof -
        have "take dl (drop descl ?p) = drop descl (take (descl + dl) ?p)"
          by (simp add: drop_take)
        also have "\<dots> = drop descl (take (descl + dl) p)"
          using False by (simp add: blit_prefix)
        also have "\<dots> = take dl (drop descl p)" by (simp add: drop_take)
        finally show ?thesis using Cons.prems(2,3) by simp
      qed
      have reg2: "take (length bs) (drop (descl + dl) ?p) = bs"
        using False by (simp add: blit_region)
      have "take (dl + length bs) (drop descl ?p) =
          take dl (drop descl ?p) @ take (length bs) (drop dl (drop descl ?p))"
        by (simp add: take_add)
      with reg1 reg2 have reg: "take (length (concat (rs @ [bs]))) (drop descl ?p) =
          concat (rs @ [bs])"
        using Cons.prems(3) by (simp add: add.commute)
      have ih: "export_descs e ?p descl us (dl + length bs) (Suc i) =
         (if descl + (dl + length bs) + length (concat (exported us)) \<le> length ?p
          then Inr (export_warned us e, blit ?p (descl + (dl + length bs)) (concat (exported us)),
                (dl + length bs) + length (concat (exported us)))
          else Inl Buffer_overrun)"
        using Cons.IH [of "rs @ [bs]" ?p "dl + length bs" "Suc i" e] reg wf Cons.prems False lp
        by simp
      have bb: "blit ?p (descl + (dl + length bs)) (concat (exported us)) =
          blit p (descl + dl) (bs @ concat (exported us))"
        using blit_blit [of "descl + dl" bs p "concat (exported us)"] False
        by (simp add: add.assoc)
      from Some walk False ih bb dl' lp show ?thesis
        by (simp add: exported_Cons export_warned_Cons Let_def add.assoc)
    qed
  qed
qed

subsection \<open>The section of time\_signal\<close>

lemmas time_signal_defs = scte35_time_signal_init_def scte35_time_signal_get_splice_time_def
  scte35_splice_time_init_def scte35_splice_time_set_time_specified_def set_flag_def

lemma time_signal_head_length [simp]:
  "length (time_signal_head blk pts_orig) = length blk"
  unfolding time_signal_head_def Let_def
  by (simp add: writer_defs time_signal_defs)

lemma time_signal_head_facts:
  assumes "length blk = 1024"
  shows "scte35_get_command_length (time_signal_head blk pts_orig) =
           (if pts_orig \<noteq> UINT64_MAX then 5 else 1) \<and>
         scte35_get_command_type (time_signal_head blk pts_orig) = SCTE35_TIME_SIGNAL_COMMAND \<and>
         has_flag (time_signal_head blk pts_orig) 14 0x80 = (pts_orig \<noteq> UINT64_MAX) \<and>
         (pts_orig \<noteq> UINT64_MAX \<longrightarrow>
            scte35_splice_time_get_pts_time (time_signal_head blk pts_orig) 14 =
              take_bit 33 pts_orig)"
  using assms unfolding time_signal_head_def Let_def
  by (cases "pts_orig = UINT64_MAX")
    (simp_all add: writer_defs time_signal_defs exec_simps)

text \<open>Two blocks agree on the bytes from 3 up to \<open>k\<close>: all of the header and the command but
  the section length.\<close>

lemma agree_command:
  assumes "\<forall>i. 3 \<le> i \<and> i < 14 \<longrightarrow> q ! i = p ! i"
  shows "scte35_get_command_length q = scte35_get_command_length p"
    and "scte35_get_command_type q = scte35_get_command_type p"
  using assms by (simp_all add: scte35_get_command_length_def scte35_get_command_type_def)

lemma agree_flag:
  assumes "\<forall>i. 3 \<le> i \<and> i < k \<longrightarrow> q ! i = p ! i" and "3 \<le> j" and "j < k"
  shows "has_flag q j m = has_flag p j m"
  using assms by (simp add: has_flag_def)

lemma agree_pts_time:
  assumes "\<forall>i. 3 \<le> i \<and> i < k \<longrightarrow> q ! i = p ! i" and "3 \<le> t" and "t + 4 < k"
  shows "scte35_splice_time_get_pts_time q t = scte35_splice_time_get_pts_time p t"
  using assms by (simp add: scte35_splice_time_get_pts_time_def)

lemma psi_get_set_length:
  "2 < length p \<Longrightarrow> psi_get_length (psi_set_length p l) = take_bit 12 l"
  by (simp add: psi_get_length_def psi_set_length_def field12)

lemma psi_set_length_length [simp]: "length (psi_set_length p l) = length p"
  by (simp add: psi_set_length_def)

lemma psi_set_length_nth: "3 \<le> i \<Longrightarrow> psi_set_length p l ! i = p ! i"
  by (simp add: psi_set_length_def)

lemma psi_get_length_crc:
  "PSI_CRC_SIZE \<le> unat (psi_get_length p) \<Longrightarrow> psi_get_length (psi_set_crc p) = psi_get_length p"
  by (simp add: psi_get_length_def [of "psi_set_crc p"] psi_set_crc_nth PSI_CRC_SIZE_def
      PSI_HEADER_SIZE_def) (simp add: psi_get_length_def)

lemma psi_set_crc_drop_take:
  "a + n \<le> unat (psi_get_length p) + PSI_HEADER_SIZE - PSI_CRC_SIZE \<Longrightarrow>
   take n (drop a (psi_set_crc p)) = take n (drop a p)"
proof -
  assume b: "a + n \<le> unat (psi_get_length p) + PSI_HEADER_SIZE - PSI_CRC_SIZE"
  have "take n (drop a (psi_set_crc p)) = drop a (take (a + n) (psi_set_crc p))"
    by (simp add: drop_take)
  also have "take (a + n) (psi_set_crc p) = take (a + n) p"
    using b by (simp add: psi_set_crc_def Let_def)
  also have "drop a (take (a + n) p) = take n (drop a p)"
    by (simp add: drop_take)
  finally show ?thesis .
qed

lemma time_signal_finish_run:
  assumes len: "length p = 1024" and c: "unat (scte35_get_command_length p) = c"
    and c5: "c \<le> 5" and n: "n \<le> 1024"
  shows "(20 + c + n \<le> 1024 \<longrightarrow>
           (\<exists>sec. time_signal_finish p n = Inr sec \<and> length sec = 20 + c + n \<and>
              unat (psi_get_length sec) = 17 + c + n \<and>
              scte35_get_command_length sec = scte35_get_command_length p \<and>
              unat (scte35_get_desclength sec) = n \<and>
              (\<forall>i. 3 \<le> i \<and> i < 14 + c \<longrightarrow> sec ! i = p ! i) \<and>
              take n (drop (16 + c) sec) = take n (drop (16 + c) p))) \<and>
         (1024 < 20 + c + n \<longrightarrow> time_signal_finish p n = Inl Buffer_overrun)"
proof -
  define p2 where "p2 = scte35_set_desclength p (of_nat n)"
  have p2: "p2 = p[14 + c := ucast (drop_bit 8 (of_nat n :: u16)), 15 + c := ucast (of_nat n :: u16)]"
    by (simp add: p2_def scte35_set_desclength_def Let_def SCTE35_HEADER_SIZE_def
        PSI_HEADER_SIZE_def c)
  have l2: "length p2 = 1024" by (simp add: p2 len)
  have c2: "scte35_get_command_length p2 = scte35_get_command_length p"
    by (simp add: p2 scte35_get_command_length_def)
  have d2: "scte35_get_descl p2 + PSI_CRC_SIZE - PSI_HEADER_SIZE + n = 17 + c + n"
    by (simp add: scte35_get_descl_def c2 c SCTE35_HEADER_SIZE_def SCTE35_HEADER2_SIZE_def
        PSI_HEADER_SIZE_def PSI_CRC_SIZE_def)
  define p3 where "p3 = psi_set_length p2 (of_nat (17 + c + n))"
  have l3: "length p3 = 1024" by (simp add: p3_def l2)
  have "psi_get_length p3 = take_bit 12 (of_nat (17 + c + n))"
    unfolding p3_def by (rule psi_get_set_length) (simp add: l2)
  then have "unat (psi_get_length p3) = (17 + c + n) mod 4096"
    by (simp only: unat_take_bit_12)
  then have g3: "unat (psi_get_length p3) = 17 + c + n"
    using c5 n by simp
  have fin: "time_signal_finish p n =
      (if unat (psi_get_length p3) + PSI_HEADER_SIZE > length p3 then Inl Buffer_overrun
       else Inr (take (unat (psi_get_length (psi_set_crc p3) + of_nat PSI_HEADER_SIZE))
                   (psi_set_crc p3)))"
    unfolding time_signal_finish_def Let_def p2_def [symmetric] d2 p3_def [symmetric] ..
  show ?thesis
  proof (intro conjI impI)
    assume big: "1024 < 20 + c + n"
    then show "time_signal_finish p n = Inl Buffer_overrun"
      by (simp add: fin g3 l3 PSI_HEADER_SIZE_def)
  next
    assume fit: "20 + c + n \<le> 1024"
    define p4 where "p4 = psi_set_crc p3"
    have g4: "psi_get_length p4 = psi_get_length p3"
      unfolding p4_def by (rule psi_get_length_crc) (simp add: g3 PSI_CRC_SIZE_def)
    have "unat (psi_get_length p4 + 3) = unat (psi_get_length p4) + 3"
      using g3 g4 fit by (simp add: unat_word_ariths)
    then have sz: "unat (psi_get_length p4 + 3) = 20 + c + n"
      using g3 g4 by simp
    define sec where "sec = take (20 + c + n) p4"
    have run: "time_signal_finish p n = Inr sec"
      using fit by (simp add: fin g3 l3 PSI_HEADER_SIZE_def sec_def p4_def [symmetric] sz)
    have l4: "length p4 = 1024" by (simp add: p4_def l3)
    have ls: "length sec = 20 + c + n" using fit by (simp add: sec_def l4)
    have iend: "unat (psi_get_length p3) + PSI_HEADER_SIZE - PSI_CRC_SIZE = 16 + c + n"
      by (simp add: g3 PSI_HEADER_SIZE_def PSI_CRC_SIZE_def)
    have nth4: "p4 ! i = p3 ! i" if "i < 16 + c + n" for i
      unfolding p4_def using that by (simp add: psi_set_crc_nth iend)
    have nths: "sec ! i = p3 ! i" if "i < 16 + c + n" for i
      using that nth4 [of i] by (simp add: sec_def)
    have gs: "psi_get_length sec = psi_get_length p3"
      using nths [of 1] nths [of 2] by (simp add: psi_get_length_def)
    have agree: "sec ! i = p ! i" if "3 \<le> i" "i < 14 + c" for i
      using that nths [of i] by (simp add: p3_def psi_set_length_nth p2 len)
    have cs: "scte35_get_command_length sec = scte35_get_command_length p"
      using agree [of 11] agree [of 12] by (simp add: scte35_get_command_length_def)
    have b14: "sec ! (14 + c) = ucast (drop_bit 8 (of_nat n :: u16))"
      using nths [of "14 + c"] c5 by (simp add: p3_def psi_set_length_nth p2 len)
    have b15: "sec ! (15 + c) = ucast (of_nat n :: u16)"
      using nths [of "15 + c"] c5 by (simp add: p3_def psi_set_length_nth p2 len)
    have b15': "sec ! (14 + c + 1) = ucast (of_nat n :: u16)"
      using b15 by (simp add: add.commute)
    have off: "SCTE35_HEADER_SIZE + unat (scte35_get_command_length sec) = 14 + c"
      by (simp add: cs c SCTE35_HEADER_SIZE_def PSI_HEADER_SIZE_def)
    have ds: "scte35_get_desclength sec = of_nat n"
      by (simp only: scte35_get_desclength_def Let_def off b14 b15' field16)
    have "unat (of_nat n :: u16) = n mod 2 ^ LENGTH(16)" by (rule unat_of_nat)
    with n have un: "unat (of_nat n :: u16) = n" by simp
    have "take n (drop (16 + c) sec) = take n (drop (16 + c) p4)"
      by (simp add: sec_def drop_take)
    also have "\<dots> = take n (drop (16 + c) p3)"
      unfolding p4_def by (rule psi_set_crc_drop_take) (simp add: iend)
    also have "\<dots> = take n (drop (16 + c) p)"
      by (simp add: p3_def psi_set_length_def p2 drop_update_cancel)
    finally have reg: "take n (drop (16 + c) sec) = take n (drop (16 + c) p)" .
    show "\<exists>sec. time_signal_finish p n = Inr sec \<and> length sec = 20 + c + n \<and>
              unat (psi_get_length sec) = 17 + c + n \<and>
              scte35_get_command_length sec = scte35_get_command_length p \<and>
              unat (scte35_get_desclength sec) = n \<and>
              (\<forall>i. 3 \<le> i \<and> i < 14 + c \<longrightarrow> sec ! i = p ! i) \<and>
              take n (drop (16 + c) sec) = take n (drop (16 + c) p)"
      using run ls gs g3 cs ds un agree reg by (intro exI [of _ sec]) simp
  qed
qed

lemma time_signal_section_full:
  assumes len: "length blk = 1024"
  shows "time_signal_section e blk pts_orig descs =
           (if time_signal_size pts_orig descs \<le> 1024
            then Inr (export_warned descs e, time_signal_bytes blk pts_orig descs)
            else Inl Buffer_overrun) \<and>
         (time_signal_size pts_orig descs \<le> 1024 \<longrightarrow>
            lengths_exact (time_signal_bytes blk pts_orig descs) (concat (exported descs)) \<and>
            decode_pts_time (time_signal_bytes blk pts_orig descs) =
              (if pts_orig \<noteq> UINT64_MAX then Some (take_bit 33 pts_orig) else None) \<and>
            scte35_get_command_type (time_signal_bytes blk pts_orig descs) =
              SCTE35_TIME_SIGNAL_COMMAND \<and>
            command_body_size (time_signal_bytes blk pts_orig descs) =
              (if pts_orig \<noteq> UINT64_MAX then 5 else 1) \<and>
            length (time_signal_bytes blk pts_orig descs) = time_signal_size pts_orig descs)"
proof -
  define P0 where "P0 = time_signal_head blk pts_orig"
  define c :: nat where "c = (if pts_orig \<noteq> UINT64_MAX then 5 else 1)"
  define D where "D = concat (exported descs)"
  have l0: "length P0 = 1024" by (simp add: P0_def len)
  from time_signal_head_facts [OF len, of pts_orig]
  have c0: "unat (scte35_get_command_length P0) = c"
    and t0: "scte35_get_command_type P0 = SCTE35_TIME_SIGNAL_COMMAND"
    and f0: "has_flag P0 14 0x80 = (pts_orig \<noteq> UINT64_MAX)"
    and v0: "pts_orig \<noteq> UINT64_MAX \<Longrightarrow>
             scte35_splice_time_get_pts_time P0 14 = take_bit 33 pts_orig"
    by (simp_all add: P0_def c_def)
  have c5: "c \<le> 5" "1 \<le> c" by (simp_all add: c_def)
  have descl: "scte35_get_descl P0 = 16 + c"
    by (simp add: scte35_get_descl_def c0 SCTE35_HEADER_SIZE_def SCTE35_HEADER2_SIZE_def
        PSI_HEADER_SIZE_def)
  have size: "time_signal_size pts_orig descs = 20 + c + length D"
    by (simp add: time_signal_size_def c_def D_def SCTE35_HEADER_SIZE_def
        SCTE35_HEADER2_SIZE_def PSI_HEADER_SIZE_def PSI_CRC_SIZE_def)
  have export: "export_descs e' P0 (16 + c) descs 0 0 =
     (if 16 + c + length D \<le> 1024
      then Inr (export_warned descs e', blit P0 (16 + c) D, length D)
      else Inl Buffer_overrun)" for e'
    using export_descs_run [of "[]" "16 + c" P0 0 0 e' descs] c5 l0 by (simp add: D_def)
  have sect: "time_signal_section e' blk pts_orig descs =
      (case export_descs e' P0 (16 + c) descs 0 0 of
         Inl f \<Rightarrow> Inl f
       | Inr (e1, p, descl_length) \<Rightarrow>
           (case time_signal_finish p descl_length of
              Inl f \<Rightarrow> Inl f
            | Inr section \<Rightarrow> Inr (e1, section)))" for e'
    unfolding time_signal_section_def Let_def P0_def [symmetric] descl ..
  show ?thesis
  proof (cases "20 + c + length D \<le> 1024")
    case False
    have "time_signal_section e blk pts_orig descs = Inl Buffer_overrun"
    proof (cases "16 + c + length D \<le> 1024")
      case True
      define p where "p = blit P0 (16 + c) D"
      have lp: "length p = 1024" using True by (simp add: p_def blit_length l0)
      have "scte35_get_command_length p = scte35_get_command_length P0"
        using l0 c5 by (simp add: p_def scte35_get_command_length_def blit_nth_before)
      then have cp: "unat (scte35_get_command_length p) = c" by (simp add: c0)
      from time_signal_finish_run [OF lp cp c5(1), of "length D"] True False
      have "time_signal_finish p (length D) = Inl Buffer_overrun" by simp
      with True show ?thesis by (simp add: sect export p_def)
    next
      case False
      then show ?thesis by (simp add: sect export)
    qed
    with False show ?thesis by (simp add: size)
  next
    case True
    define p where "p = blit P0 (16 + c) D"
    have lp: "length p = 1024" using True by (simp add: p_def blit_length l0)
    have pre: "p ! i = P0 ! i" if "i < 16 + c" for i
      using that l0 c5 by (simp add: p_def blit_nth_before)
    have "scte35_get_command_length p = scte35_get_command_length P0"
      using pre [of 11] pre [of 12] by (simp add: scte35_get_command_length_def)
    then have cp: "unat (scte35_get_command_length p) = c" by (simp add: c0)
    from time_signal_finish_run [OF lp cp c5(1), of "length D"] True
    obtain sec where fin: "time_signal_finish p (length D) = Inr sec"
      and ls: "length sec = 20 + c + length D"
      and gs: "unat (psi_get_length sec) = 17 + c + length D"
      and cs: "scte35_get_command_length sec = scte35_get_command_length p"
      and ds: "unat (scte35_get_desclength sec) = length D"
      and ag: "\<forall>i. 3 \<le> i \<and> i < 14 + c \<longrightarrow> sec ! i = p ! i"
      and reg: "take (length D) (drop (16 + c) sec) = take (length D) (drop (16 + c) p)"
      by auto
    have run: "time_signal_section e' blk pts_orig descs = Inr (export_warned descs e', sec)"
      for e'
      using True fin by (simp add: sect export p_def)
    then have bytes: "time_signal_bytes blk pts_orig descs = sec"
      by (simp add: time_signal_bytes_def)
    have ag0: "\<forall>i. 3 \<le> i \<and> i < 14 + c \<longrightarrow> sec ! i = P0 ! i"
      using ag pre by simp
    have ag14: "\<forall>i. 3 \<le> i \<and> i < 14 \<longrightarrow> sec ! i = P0 ! i" using ag0 by simp
    have cs0: "unat (scte35_get_command_length sec) = c"
      using agree_command(1) [OF ag14] c0 by simp
    have ts: "scte35_get_command_type sec = SCTE35_TIME_SIGNAL_COMMAND"
      using agree_command(2) [OF ag14] t0 by simp
    have fs: "has_flag sec 14 0x80 = (pts_orig \<noteq> UINT64_MAX)"
      using agree_flag [OF ag0, of 14 "0x80"] c5 f0 by simp
    have body: "command_body_size sec = c"
      using ts fs
      by (simp add: command_body_size_def scte35_splice_time_size_def
          scte35_splice_time_has_time_specified_def scte35_time_signal_get_splice_time_def
          SCTE35_HEADER_SIZE_def PSI_HEADER_SIZE_def SCTE35_SPLICE_TIME_HEADER_SIZE_def
          SCTE35_SPLICE_TIME_TIME_SIZE_def SCTE35_TIME_SIGNAL_COMMAND_def
          SCTE35_INSERT_COMMAND_def c_def)
    have dl: "scte35_get_descl sec = 16 + c"
      by (simp add: scte35_get_descl_def cs0 SCTE35_HEADER_SIZE_def SCTE35_HEADER2_SIZE_def
          PSI_HEADER_SIZE_def)
    have "take (length D) (drop (16 + c) p) = D"
      using True l0 by (simp add: p_def blit_region)
    with reg have regD: "take (length D) (drop (16 + c) sec) = D" by simp
    have exact: "lengths_exact sec D"
      by (simp add: lengths_exact_def ls gs cs0 body ds dl regD SCTE35_HEADER_SIZE_def
          SCTE35_HEADER2_SIZE_def PSI_HEADER_SIZE_def PSI_CRC_SIZE_def)
    have pts: "decode_pts_time sec =
        (if pts_orig \<noteq> UINT64_MAX then Some (take_bit 33 pts_orig) else None)"
    proof (cases "pts_orig = UINT64_MAX")
      case True
      with ts fs show ?thesis
        by (simp add: decode_pts_time_def scte35_splice_time_has_time_specified_def
            scte35_time_signal_get_splice_time_def SCTE35_HEADER_SIZE_def PSI_HEADER_SIZE_def
            SCTE35_TIME_SIGNAL_COMMAND_def SCTE35_INSERT_COMMAND_def)
    next
      case False
      then have "c = 5" by (simp add: c_def)
      with ag0 have "\<forall>i. 3 \<le> i \<and> i < 19 \<longrightarrow> sec ! i = P0 ! i" by simp
      from agree_pts_time [OF this, of 14] v0 [OF False]
      have "scte35_splice_time_get_pts_time sec 14 = take_bit 33 pts_orig" by simp
      with False ts fs show ?thesis
        by (simp add: decode_pts_time_def scte35_splice_time_has_time_specified_def
            scte35_time_signal_get_splice_time_def SCTE35_HEADER_SIZE_def PSI_HEADER_SIZE_def
            SCTE35_TIME_SIGNAL_COMMAND_def SCTE35_INSERT_COMMAND_def)
    qed
    from True run [of e] bytes exact pts ts body ls show ?thesis
      by (simp add: size D_def c_def)
  qed
qed

lemma time_signal_section_any_env:
  assumes len: "length blk = 1024"
  shows "time_signal_section e blk pts_orig descs =
           (if time_signal_size pts_orig descs \<le> 1024
            then Inr (export_warned descs e, time_signal_bytes blk pts_orig descs)
            else Inl Buffer_overrun) \<and>
         (time_signal_size pts_orig descs \<le> 1024 \<longrightarrow>
            lengths_exact (time_signal_bytes blk pts_orig descs) (concat (exported descs)) \<and>
            decode_pts_time (time_signal_bytes blk pts_orig descs) =
              (if pts_orig \<noteq> UINT64_MAX then Some (take_bit 33 pts_orig) else None))"
  using time_signal_section_full [OF len, of e pts_orig descs] by blast

subsection \<open>The sections of splice\_null and splice\_insert\<close>

lemma null_lengths:
  assumes "length blk = 1024"
  shows "lengths_exact (null_section blk) []"
  using assms unfolding null_section_def Let_def
  by (simp add: lengths_exact_def command_body_size_def Let_def writer_defs exec_simps)

lemma insert_lengths:
  assumes "length blk = 1024"
  shows "lengths_exact (insert_section blk cancel ev oon ar pid pts dur) []"
  using assms unfolding insert_section_def insert_body_def Let_def
  by (cases cancel; cases "pts = UINT64_MAX"; cases "dur = UINT64_MAX"; cases oon)
   (simp_all add: lengths_exact_def command_body_size_def Let_def writer_defs
      exec_simps insert_defs)

lemma insert_decode_pts_time:
  assumes "length blk = 1024"
  shows "decode_pts_time (insert_section blk cancel ev oon ar pid pts dur) =
           (if cancel \<or> pts = UINT64_MAX then None
            else Some ((pts div CLOCK_SCALE) mod POW2_33))"
  using assms unfolding insert_section_def insert_body_def Let_def
  by (cases cancel; cases "pts = UINT64_MAX"; cases "dur = UINT64_MAX"; cases oon)
   (simp_all add: decode_pts_time_def Let_def writer_defs exec_simps insert_defs wrap33)

lemma insert_decode_break_duration:
  assumes "length blk = 1024"
  shows "decode_break_duration (insert_section blk cancel ev oon ar pid pts dur) =
           (if cancel \<or> dur = UINT64_MAX then None
            else Some (ar, (dur div CLOCK_SCALE) mod POW2_33))"
  using assms unfolding insert_section_def insert_body_def Let_def
  by (cases cancel; cases "pts = UINT64_MAX"; cases "dur = UINT64_MAX"; cases oon; cases ar)
   (simp_all add: decode_break_duration_def Let_def writer_defs exec_simps insert_defs wrap33
      scte35_break_duration_has_auto_return_def)
subsection \<open>The bytes of the splice\_null section\<close>

lemma crc32_null:
  "crc32_mpeg [0xFC, 0x30, 0x11, 0, 0, 0, 0, 0, 0, 0, 0xFF, 0xF0, 0, 0, 0, 0] = 0x7A4FBFFF"
  by code_simp

lemma upt_16: "[0..<16] = [0, 1, 2, 3, 4, 5, 6, 7, 8, 9, 10, 11, 12, 13, 14, 15]"
  by code_simp

lemma upt_20:
  "[0..<20] = [0, 1, 2, 3, 4, 5, 6, 7, 8, 9, 10, 11, 12, 13, 14, 15, 16, 17, 18, 19]"
  by code_simp

lemma take_map_nth: "n \<le> length xs \<Longrightarrow> take n xs = map ((!) xs) [0..<n]"
  by (simp add: list_eq_iff_nth_eq)

lemma null_section_bytes:
  assumes "length blk = 1024"
  shows "null_section blk =
     [0xFC, 0x30, 0x11, 0, 0, 0, 0, 0, 0, 0, 0xFF, 0xF0, 0, 0, 0, 0, 0x7A, 0x4F, 0xBF, 0xFF]"
proof -
  define p0 where "p0 = scte35_set_desclength (scte35_null_init (scte35_set_pts_adjustment
        (psi_set_length (scte35_init blk) (of_nat PSI_MAX_SIZE)) 0)) 0"
  define p where "p = psi_set_length p0 17"
  have d: "scte35_get_descl p0 = 16"
    by (simp add: p0_def writer_defs assms)
  have lp: "length p = 1024" by (simp add: p_def p0_def writer_defs assms)
  have t: "take 16 p = [0xFC, 0x30, 0x11, 0, 0, 0, 0, 0, 0, 0, 0xFF, 0xF0, 0, 0, 0, 0]"
    by (simp add: take_map_nth lp upt_16) (simp add: p_def p0_def writer_defs assms)
  have g: "psi_get_length p = 17"
    by (simp add: p_def p0_def writer_defs assms)
  have b: "ucast (drop_bit 24 (0x7A4FBFFF :: u32)) = (0x7A :: u8)"
    "ucast (drop_bit 16 (0x7A4FBFFF :: u32)) = (0x4F :: u8)"
    "ucast (drop_bit 8 (0x7A4FBFFF :: u32)) = (0xBF :: u8)"
    "ucast (0x7A4FBFFF :: u32) = (0xFF :: u8)"
    by simp_all
  have i: "unat (psi_get_length p) + PSI_HEADER_SIZE - PSI_CRC_SIZE = 16"
    by (simp add: g PSI_HEADER_SIZE_def PSI_CRC_SIZE_def)
  have c: "psi_set_crc p = p[16 := 0x7A, 17 := 0x4F, 18 := 0xBF, 19 := 0xFF]"
    unfolding psi_set_crc_def Let_def i t crc32_null b by simp
  have g4: "psi_get_length (psi_set_crc p) = 17"
    using psi_get_length_crc [of p] by (simp add: g PSI_CRC_SIZE_def)
  have n: "null_section blk = take 20 (psi_set_crc p)"
    unfolding null_section_def Let_def p0_def [symmetric] d
    by (simp add: PSI_CRC_SIZE_def PSI_HEADER_SIZE_def p_def [symmetric] g4)
  show ?thesis
    unfolding n c
    by (simp add: take_map_nth lp upt_20) (simp add: p_def p0_def writer_defs assms)
qed

subsection \<open>The shape of the splice\_insert section\<close>

lemma insert_shape_ok:
  assumes "length blk = 1024"
  shows "insert_shape (insert_section blk cancel ev oon ar pid pts dur) cancel
           (pts = UINT64_MAX) (dur \<noteq> UINT64_MAX)"
  using assms unfolding insert_section_def insert_body_def Let_def
  by (cases cancel; cases "pts = UINT64_MAX"; cases "dur = UINT64_MAX"; cases oon)
   (simp_all add: insert_shape_def command_body_size_def Let_def writer_defs
      exec_simps insert_defs)

section \<open>Properties of the pipe\<close>

subsection \<open>Allocation and sending\<close>

lemma alloc_ok: "no_alloc_failure e \<Longrightarrow> alloc e = (True, e\<lparr>allocs := tl (allocs e)\<rparr>)"
  by (cases "allocs e") (auto simp: alloc_def no_alloc_failure_def)

lemma no_alloc_failure_tl:
  "no_alloc_failure e \<Longrightarrow> no_alloc_failure (e\<lparr>allocs := tl (allocs e)\<rparr>)"
  by (cases "allocs e") (auto simp: no_alloc_failure_def)

lemma no_alloc_failure_tl2:
  "no_alloc_failure e \<Longrightarrow> no_alloc_failure (e\<lparr>allocs := tl (tl (allocs e))\<rparr>)"
  using no_alloc_failure_tl [of e] no_alloc_failure_tl [of "e\<lparr>allocs := tl (allocs e)\<rparr>"]
  by simp

lemma no_alloc_failure_upd [simp]:
  "no_alloc_failure (e\<lparr>events := ev\<rparr>) = no_alloc_failure e"
  "no_alloc_failure (e\<lparr>outputs := ou\<rparr>) = no_alloc_failure e"
  "no_alloc_failure (throw x e) = no_alloc_failure e"
  by (simp_all add: no_alloc_failure_def throw_def)

lemma no_alloc_failure_env0 [simp]: "no_alloc_failure env0"
  by (simp add: no_alloc_failure_def env0_def)

lemma send_ok:
  "no_alloc_failure e \<Longrightarrow>
   upipe_ts_scte35g_send (e, s) b cr =
     (e\<lparr>allocs := tl (tl (allocs e)), outputs := outputs e @ [mk_sent cr b]\<rparr>,
      s\<lparr>scte35_cr_sys := cr\<rparr>)"
  by (simp add: upipe_ts_scte35g_send_def alloc_ok no_alloc_failure_tl mk_sent_def)

subsection \<open>The tick\<close>

lemma tick_forms_Cons:
  "tick_forms cr (M # Ms) =
     (case tick_form cr M of None \<Rightarrow> [] | Some b \<Rightarrow> [b]) @ tick_forms cr Ms"
  by (simp add: tick_forms_def map_filter_simps split: option.splits)

text \<open>The traversal, when no allocation fails: the forms of the messages are sent in the order
  of the list, the date of the last emission moves with the first of them, and the messages
  whose deadline is not passed are kept.\<close>

lemma prepare_loop_ok:
  "no_alloc_failure (fst es) \<Longrightarrow>
   \<exists>e'. prepare_loop cr Ms es h kept =
          ((e', if tick_forms cr Ms = [] then snd es else (snd es)\<lparr>scte35_cr_sys := cr\<rparr>),
           h \<or> tick_forms cr Ms \<noteq> [], kept @ tick_kept cr Ms) \<and>
        no_alloc_failure e' \<and>
        outputs e' = outputs (fst es) @ map (mk_sent cr) (tick_forms cr Ms)"
proof (induction Ms arbitrary: es h kept)
  case Nil
  then show ?case
    by (cases es) (simp add: tick_forms_def map_filter_simps tick_kept_def)
next
  case (Cons M Ms)
  obtain e s where es: "es = (e, s)" by (cases es)
  with Cons.prems have ok: "no_alloc_failure e" by simp
  show ?case
  proof (cases "tick_form cr M")
    case None
    let ?ev = "if m_cr_sys M < cr then Notice ''event expired'' else Dbg ''sending an event''"
    from Cons.IH [of "(throw ?ev e, s)" h "kept @ tick_kept cr [M]"] ok
    obtain e' where
      "prepare_loop cr Ms (throw ?ev e, s) h (kept @ tick_kept cr [M]) =
          ((e', if tick_forms cr Ms = [] then s else s\<lparr>scte35_cr_sys := cr\<rparr>),
           h \<or> tick_forms cr Ms \<noteq> [], (kept @ tick_kept cr [M]) @ tick_kept cr Ms)"
      "no_alloc_failure e'" "outputs e' = outputs e @ map (mk_sent cr) (tick_forms cr Ms)"
      by (auto simp: throw_def)
    with None es show ?thesis
      by (auto simp: tick_forms_Cons tick_kept_def tick_form_def scte35_message_set_immediate_def
          split: if_splits)
  next
    case (Some b)
    let ?ev = "if m_cr_sys M < cr then Notice ''sending an immediate event''
               else Dbg ''sending an event''"
    let ?es1 = "upipe_ts_scte35g_send (throw ?ev e, s) b cr"
    have s1: "?es1 = ((throw ?ev e)\<lparr>allocs := tl (tl (allocs (throw ?ev e))),
                 outputs := outputs (throw ?ev e) @ [mk_sent cr b]\<rparr>, s\<lparr>scte35_cr_sys := cr\<rparr>)"
      using ok by (simp add: send_ok)
    have ok1: "no_alloc_failure (fst ?es1)"
      using ok no_alloc_failure_tl2 [of "throw ?ev e"] by (simp add: s1)
    from Cons.IH [OF ok1, of True "kept @ tick_kept cr [M]"]
    obtain e' where
      "prepare_loop cr Ms ?es1 True (kept @ tick_kept cr [M]) =
          ((e', if tick_forms cr Ms = [] then snd ?es1 else (snd ?es1)\<lparr>scte35_cr_sys := cr\<rparr>),
           True \<or> tick_forms cr Ms \<noteq> [], (kept @ tick_kept cr [M]) @ tick_kept cr Ms)"
      "no_alloc_failure e'" "outputs e' = outputs (fst ?es1) @ map (mk_sent cr) (tick_forms cr Ms)"
      by blast
    with Some es s1 show ?thesis
      by (auto simp: tick_forms_Cons tick_kept_def tick_form_def scte35_message_set_immediate_def
          throw_def split: if_splits)
  qed
qed

lemma prepare_ok:
  assumes "qualifies s cr_sys" and "scte35_null_section s = Some null" and "no_alloc_failure e"
  shows "\<exists>e'. upipe_ts_scte35g_prepare (e, s) cr_sys latency =
           (e', s\<lparr>scte35_sections := tick_kept cr_sys (scte35_sections s),
                  scte35_cr_sys := cr_sys\<rparr>) \<and>
         outputs e' = outputs e @
           map (mk_sent cr_sys) (tick_emitted cr_sys null (scte35_sections s))"
proof -
  from prepare_loop_ok [of "(e, s)" cr_sys "scte35_sections s" False "[]"] assms(3)
  obtain e1 where l:
    "prepare_loop cr_sys (scte35_sections s) (e, s) False [] =
       ((e1, if tick_forms cr_sys (scte35_sections s) = [] then s
             else s\<lparr>scte35_cr_sys := cr_sys\<rparr>),
        tick_forms cr_sys (scte35_sections s) \<noteq> [], tick_kept cr_sys (scte35_sections s))"
    "no_alloc_failure e1"
    "outputs e1 = outputs e @ map (mk_sent cr_sys) (tick_forms cr_sys (scte35_sections s))"
    by auto
  have g: "\<not> (flow_def s = None \<or> scte35_interval s = 0 \<or>
              cr_sys < scte35_cr_sys s + scte35_interval s)"
    using assms(1) by (auto simp: qualifies_def)
  show ?thesis
  proof (cases "tick_forms cr_sys (scte35_sections s) = []")
    case True
    with l g assms(2) show ?thesis
      by (simp add: upipe_ts_scte35g_prepare_def tick_emitted_def send_ok)
  next
    case False
    with l g assms(2) show ?thesis
      by (simp add: upipe_ts_scte35g_prepare_def tick_emitted_def)
  qed
qed

lemma prepare_idle:
  "\<not> qualifies s cr_sys \<Longrightarrow> upipe_ts_scte35g_prepare (e, s) cr_sys latency = (e, s)"
  by (auto simp: upipe_ts_scte35g_prepare_def qualifies_def not_le split: option.splits)

text \<open>Claim C1. On a qualifying tick during which no allocation fails, the pending messages are
  visited in insertion order. A message whose deadline is passed (\<open>m_cr_sys M < cr_sys\<close>) has
  its immediate form emitted when it has one and leaves the queue in either case; any other
  message loses its immediate form, has its scheduled form emitted when it has one and stays in
  the queue; when no message gave a form, a copy of the null section is emitted. \<open>tick_emitted\<close>
  and \<open>tick_kept\<close> say this in the words of the specification; the theorem states that the
  loop of the code outputs exactly these sections, in this order, each stamped with \<open>cr_sys\<close>
  and flagged start and end, and leaves exactly these messages.\<close>

theorem prepare_traversal:
  assumes "qualifies s cr_sys" and "scte35_null_section s = Some null" and "no_alloc_failure e"
  shows "\<exists>e'. upipe_ts_scte35g_prepare (e, s) cr_sys latency =
           (e', s\<lparr>scte35_sections := tick_kept cr_sys (scte35_sections s),
                  scte35_cr_sys := cr_sys\<rparr>) \<and>
         outputs e' = outputs e @
           map (mk_sent cr_sys) (tick_emitted cr_sys null (scte35_sections s)) \<and>
         tick_emitted cr_sys null (scte35_sections s) =
           (if \<forall>M \<in> set (scte35_sections s). tick_form cr_sys M = None then [null]
            else concat (map (\<lambda>M. case tick_form cr_sys M of None \<Rightarrow> [] | Some b \<Rightarrow> [b])
                           (scte35_sections s)))"
proof -
  have forms: "tick_forms cr_sys Ms =
      concat (map (\<lambda>M. case tick_form cr_sys M of None \<Rightarrow> [] | Some b \<Rightarrow> [b]) Ms)" for Ms
    by (induction Ms) (simp_all add: tick_forms_Cons, simp add: tick_forms_def map_filter_simps)
  have none: "(tick_forms cr_sys Ms = []) = (\<forall>M \<in> set Ms. tick_form cr_sys M = None)" for Ms
    by (induction Ms) (auto simp: tick_forms_Cons tick_forms_def map_filter_simps
        split: option.splits)
  from prepare_ok [OF assms, of latency] forms [of "scte35_sections s"]
    none [of "scte35_sections s"]
  show ?thesis by (auto simp: tick_emitted_def)
qed

theorem prepare_traversal_witness:
  "qualifies pending2 5500000 \<and> scte35_null_section pending2 = Some [0xFC, 0x30, 0x11] \<and>
   no_alloc_failure env0 \<and>
   (\<exists>e'. upipe_ts_scte35g_prepare (env0, pending2) 5500000 0 =
           (e', pending2\<lparr>scte35_sections :=
                   [\<lparr>m_ubuf = Some [0xFC, 0x30, 0x22], m_immediate = None, m_cr_sys = 6000000\<rparr>],
                 scte35_cr_sys := 5500000\<rparr>) \<and>
         outputs e' = [mk_sent 5500000 [0xFC, 0x30, 0x20], mk_sent 5500000 [0xFC, 0x30, 0x22]])"
proof -
  have q: "qualifies pending2 5500000"
    by (simp add: qualifies_def pending2_def)
  have n: "scte35_null_section pending2 = Some [0xFC, 0x30, 0x11]"
    by (simp add: pending2_def)
  have k: "tick_kept 5500000 (scte35_sections pending2) =
      [\<lparr>m_ubuf = Some [0xFC, 0x30, 0x22], m_immediate = None, m_cr_sys = 6000000\<rparr>]"
    by (simp add: tick_kept_def pending2_def)
  have f: "tick_emitted 5500000 [0xFC, 0x30, 0x11] (scte35_sections pending2) =
      [[0xFC, 0x30, 0x20], [0xFC, 0x30, 0x22]]"
    by (simp add: tick_emitted_def tick_forms_def tick_form_def map_filter_simps pending2_def)
  from prepare_traversal [OF q n no_alloc_failure_env0, of 0] k f q n
  show ?thesis by (auto simp: env0_def no_alloc_failure_def)
qed

text \<open>Claim C2, as stated, has every tick either output nothing or output exactly one section.
  The loop sends one section for every pending message that has a form to send: with two
  pending messages, one past its deadline with an immediate form and one ahead of it with a
  scheduled form, a single qualifying tick of a pipe with a non-zero interval outputs two
  sections.\<close>

lemma prepare_pending2:
  "upipe_ts_scte35g_prepare (env0, pending2) 5500000 0 =
     (env0\<lparr>events := [Notice ''sending an immediate event'', Dbg ''sending an event''],
           outputs := [mk_sent 5500000 [0xFC, 0x30, 0x20], mk_sent 5500000 [0xFC, 0x30, 0x22]]\<rparr>,
      pending2\<lparr>scte35_sections :=
                 [\<lparr>m_ubuf = Some [0xFC, 0x30, 0x22], m_immediate = None, m_cr_sys = 6000000\<rparr>],
               scte35_cr_sys := 5500000\<rparr>)"
  by (simp add: upipe_ts_scte35g_prepare_def pending2_def env0_def upipe_ts_scte35g_send_def
      alloc_def throw_def mk_sent_def scte35_message_set_immediate_def)

theorem prepare_two_sections:
  "scte35_interval pending2 = 1350000 \<and> qualifies pending2 5500000 \<and> outputs env0 = [] \<and>
   outputs (fst (upipe_ts_scte35g_prepare (env0, pending2) 5500000 0)) =
     [mk_sent 5500000 [0xFC, 0x30, 0x20], mk_sent 5500000 [0xFC, 0x30, 0x22]] \<and>
   length (outputs (fst (upipe_ts_scte35g_prepare (env0, pending2) 5500000 0))) = 2"
  by (simp add: prepare_pending2) (simp add: qualifies_def pending2_def env0_def)

lemma length_tick_forms: "length (tick_forms cr Ms) \<le> length Ms"
  by (induction Ms)
    (auto simp: tick_forms_Cons split: option.splits, simp add: tick_forms_def map_filter_simps)

text \<open>Claim C2, amended. If a precondition for activity fails (no flow definition, no null
  section, interval 0, or \<open>cr_sys\<close> below the 64-bit sum of the last emission date and the
  interval) the tick outputs nothing and changes nothing. Otherwise, when no allocation fails,
  it outputs at least one section: one for every pending message that has a form to send at
  this tick, or the null section when there is none, hence exactly one when at most one message
  is pending; every output carries \<open>cr_sys\<close>, and the last emission date becomes \<open>cr_sys\<close>.\<close>

theorem prepare_emits:
  "(\<not> qualifies s cr_sys \<longrightarrow> upipe_ts_scte35g_prepare (e, s) cr_sys latency = (e, s)) \<and>
   (qualifies s cr_sys \<and> no_alloc_failure e \<longrightarrow>
      (\<exists>e' s' new. upipe_ts_scte35g_prepare (e, s) cr_sys latency = (e', s') \<and>
         outputs e' = outputs e @ new \<and> new \<noteq> [] \<and>
         (\<forall>r \<in> set new. s_cr_sys r = cr_sys) \<and>
         length new = max 1 (length (tick_forms cr_sys (scte35_sections s))) \<and>
         (length (scte35_sections s) \<le> 1 \<longrightarrow> length new = 1) \<and>
         scte35_cr_sys s' = cr_sys))"
proof (intro conjI impI)
  show "upipe_ts_scte35g_prepare (e, s) cr_sys latency = (e, s)" if "\<not> qualifies s cr_sys"
    using that by (rule prepare_idle)
next
  assume a: "qualifies s cr_sys \<and> no_alloc_failure e"
  then obtain null where n: "scte35_null_section s = Some null"
    by (auto simp: qualifies_def)
  from prepare_ok [of s cr_sys null e latency] a n
  obtain e' where p: "upipe_ts_scte35g_prepare (e, s) cr_sys latency =
           (e', s\<lparr>scte35_sections := tick_kept cr_sys (scte35_sections s),
                  scte35_cr_sys := cr_sys\<rparr>)"
       "outputs e' = outputs e @
           map (mk_sent cr_sys) (tick_emitted cr_sys null (scte35_sections s))"
    by blast
  let ?new = "map (mk_sent cr_sys) (tick_emitted cr_sys null (scte35_sections s))"
  have l: "length ?new = max 1 (length (tick_forms cr_sys (scte35_sections s)))"
    by (cases "tick_forms cr_sys (scte35_sections s)") (simp_all add: tick_emitted_def)
  have "?new \<noteq> []" by (simp add: tick_emitted_def)
  moreover have "\<forall>r \<in> set ?new. s_cr_sys r = cr_sys" by (auto simp: mk_sent_def)
  moreover have "length (scte35_sections s) \<le> 1 \<longrightarrow> length ?new = 1"
    using l length_tick_forms [of cr_sys "scte35_sections s"] by auto
  ultimately show "\<exists>e' s' new. upipe_ts_scte35g_prepare (e, s) cr_sys latency = (e', s') \<and>
         outputs e' = outputs e @ new \<and> new \<noteq> [] \<and>
         (\<forall>r \<in> set new. s_cr_sys r = cr_sys) \<and>
         length new = max 1 (length (tick_forms cr_sys (scte35_sections s))) \<and>
         (length (scte35_sections s) \<le> 1 \<longrightarrow> length new = 1) \<and>
         scte35_cr_sys s' = cr_sys"
    using p l
    by (intro exI [of _ e']
        exI [of _ "s\<lparr>scte35_sections := tick_kept cr_sys (scte35_sections s),
                     scte35_cr_sys := cr_sys\<rparr>"] exI [of _ ?new]) simp
qed

theorem prepare_emits_witness:
  "qualifies pending2 5500000 \<and> no_alloc_failure env0 \<and> \<not> qualifies pending2 1000 \<and>
   upipe_ts_scte35g_prepare (env0, pending2) 1000 0 = (env0, pending2) \<and>
   (\<exists>e' s' new. upipe_ts_scte35g_prepare (env0, pending2) 5500000 0 = (e', s') \<and>
         outputs e' = outputs env0 @ new \<and> length new = 2 \<and> scte35_cr_sys s' = 5500000)"
proof -
  have q: "qualifies pending2 5500000" "\<not> qualifies pending2 1000"
    by (simp_all add: qualifies_def pending2_def)
  have f: "length (tick_forms 5500000 (scte35_sections pending2)) = 2"
    by (simp add: tick_forms_def tick_form_def map_filter_simps pending2_def)
  from prepare_emits [of pending2 5500000 env0 0] prepare_emits [of pending2 1000 env0 0] q f
  show ?thesis by auto
qed

subsection \<open>The empty event\<close>

text \<open>Claim C6. The claim has every pending message lose its scheduled form when an empty input
  is pushed. The loop of the code runs over the list of the buffered input records, not over the
  list of the messages: with no record buffered, the pending message below keeps its scheduled
  form, and nothing but the notice happens.\<close>

theorem input_null_keeps_scheduled:
  "upipe_ts_scte35g_input (env0, pending1) None =
     Inr (env0\<lparr>events := [Notice ''now using splice_null command due to empty event'']\<rparr>,
          pending1)"
  by (simp add: upipe_ts_scte35g_input_def pending1_def upipe_ts_scte35g_alloc_def env0_def
      throw_def)

theorem input_null_keeps_scheduled_witness:
  "(case upipe_ts_scte35g_input (env0, pending1) None of
      Inl f \<Rightarrow> False
    | Inr (e, s) \<Rightarrow> map m_ubuf (scte35_sections s) = [Some [0xFC, 0x30, 0x25]] \<and> urefs s = [])"
  using input_null_keeps_scheduled by (simp add: pending1_def upipe_ts_scte35g_alloc_def)

subsection \<open>Flushing\<close>

text \<open>Claim C8. The claim has the accumulator drained when the command type of the first
  fragment is unknown. The \<^verbatim>\<open>default\<close> branch of \<^verbatim>\<open>upipe_ts_scte35g_flush\<close> returns before the
  final loop: a complete event of command type 4 pushed into a new pipe is still in the
  accumulator afterwards.\<close>

theorem flush_unknown_command_keeps_urefs:
  "upipe_ts_scte35g_input (env0, upipe_ts_scte35g_alloc) (Some (fragment 0x04 True True)) =
     Inr (env0\<lparr>events := [Warn ''unimplemented command type'']\<rparr>,
          upipe_ts_scte35g_alloc\<lparr>urefs := [fragment 0x04 True True]\<rparr>)"
  by (simp add: upipe_ts_scte35g_input_def upipe_ts_scte35g_flush_def fragment_def attr_def
      upipe_ts_scte35g_alloc_def env0_def throw_def SCTE35_INSERT_COMMAND_def
      SCTE35_NULL_COMMAND_def SCTE35_TIME_SIGNAL_COMMAND_def)

theorem flush_unknown_command_keeps_urefs_witness:
  "(case upipe_ts_scte35g_input (env0, upipe_ts_scte35g_alloc) (Some (fragment 0x04 True True)) of
      Inl f \<Rightarrow> False
    | Inr (e, s) \<Rightarrow> urefs s = [fragment 0x04 True True] \<and> scte35_sections s = [])"
  using flush_unknown_command_keeps_urefs by (simp add: upipe_ts_scte35g_alloc_def)

lemma build_null_no_flow_def:
  "flow_def s = None \<Longrightarrow> upipe_ts_scte35g_build_null (e, s) = (e, s)"
  by (simp add: upipe_ts_scte35g_build_null_def)

lemma build_null_frame:
  "scte35_sections (snd (upipe_ts_scte35g_build_null (e, s))) = scte35_sections s \<and>
   scte35_cr_sys (snd (upipe_ts_scte35g_build_null (e, s))) = scte35_cr_sys s \<and>
   urefs (snd (upipe_ts_scte35g_build_null (e, s))) = urefs s \<and>
   flow_def (snd (upipe_ts_scte35g_build_null (e, s))) = flow_def s \<and>
   scte35_interval (snd (upipe_ts_scte35g_build_null (e, s))) = scte35_interval s \<and>
   output_flow_def (snd (upipe_ts_scte35g_build_null (e, s))) = output_flow_def s"
  by (simp add: upipe_ts_scte35g_build_null_def ubuf_block_alloc_def ubuf_block_write_def
      split: prod.splits option.splits bool.splits)

lemma build_null_built:
  "flow_def s \<noteq> None \<Longrightarrow> no_alloc_failure e \<Longrightarrow>
   upipe_ts_scte35g_build_null (e, s) =
     (e\<lparr>allocs := tl (tl (allocs e))\<rparr>,
      s\<lparr>scte35_null_section := Some (null_section (fresh_block e))\<rparr>)"
  by (auto simp: upipe_ts_scte35g_build_null_def ubuf_block_alloc_def ubuf_block_write_def
      alloc_ok no_alloc_failure_tl fresh_block_def)

subsection \<open>The flow definitions\<close>

lemma alloc_chain_ok:
  "no_alloc_failure e \<Longrightarrow> alloc_chain n e = (True, e\<lparr>allocs := drop n (allocs e)\<rparr>)"
proof (induction n arbitrary: e)
  case 0 then show ?case by simp
next
  case (Suc n)
  from Suc.IH [OF no_alloc_failure_tl [OF Suc.prems]] Suc.prems
  show ?case by (simp add: alloc_ok drop_Suc)
qed

lemma build_flow_def_frame:
  "scte35_sections (snd (upipe_ts_scte35g_build_flow_def (e, s))) = scte35_sections s \<and>
   scte35_cr_sys (snd (upipe_ts_scte35g_build_flow_def (e, s))) = scte35_cr_sys s \<and>
   urefs (snd (upipe_ts_scte35g_build_flow_def (e, s))) = urefs s \<and>
   flow_def (snd (upipe_ts_scte35g_build_flow_def (e, s))) = flow_def s \<and>
   scte35_interval (snd (upipe_ts_scte35g_build_flow_def (e, s))) = scte35_interval s \<and>
   scte35_null_section (snd (upipe_ts_scte35g_build_flow_def (e, s))) = scte35_null_section s"
  by (simp add: upipe_ts_scte35g_build_flow_def_def split: prod.splits bool.splits)

lemma build_flow_def_ok:
  "no_alloc_failure e \<Longrightarrow> scte35_interval s \<noteq> 0 \<Longrightarrow>
   upipe_ts_scte35g_build_flow_def (e, s) =
     (e\<lparr>allocs := drop 5 (allocs e), events := events e @ [New_flow_def]\<rparr>,
      s\<lparr>output_flow_def := Some
           \<lparr>o_def = ''block.mpegtspsi.mpegtsscte35.'',
            o_psi_section_interval = scte35_interval s,
            o_octetrate = of_nat (TS_SIZE - TS_HEADER_SIZE - 1) * UCLOCK_FREQ div scte35_interval s,
            o_tb_rate = TB_RATE_PSI\<rparr>\<rparr>)"
  by (simp add: upipe_ts_scte35g_build_flow_def_def alloc_chain_ok throw_def)

subsection \<open>Synthesis\<close>

declare input_insert_loop.simps [simp del] time_signal_loop.simps [simp del]

lemma fresh_block_length [simp]: "length (fresh_block e) = 1024"
  by (simp add: fresh_block_def PSI_MAX_SIZE_def PSI_HEADER_SIZE_def)

lemma map_block_ok:
  "no_alloc_failure e \<Longrightarrow>
   (case ubuf_block_alloc e (PSI_MAX_SIZE + PSI_HEADER_SIZE) of
      (None, e1) \<Rightarrow> f1 e1
    | (Some ubuf, e1) \<Rightarrow>
        (case ubuf_block_write e1 ubuf of (None, e2) \<Rightarrow> f2 e2 | (Some scte35, e2) \<Rightarrow> g scte35 e2)) =
   g (fresh_block e) (e\<lparr>allocs := tl (tl (allocs e))\<rparr>)"
  by (simp add: ubuf_block_alloc_def ubuf_block_write_def alloc_ok no_alloc_failure_tl
      fresh_block_def)

lemma fresh_block_allocs [simp]: "fresh_block (e\<lparr>allocs := a\<rparr>) = fresh_block e"
  by (simp add: fresh_block_def)

lemma fresh_block_throw [simp]: "fresh_block (throw x e) = fresh_block e"
  by (simp add: fresh_block_def throw_def)

lemma input_insert_loop_immediate:
  "no_alloc_failure e \<Longrightarrow>
   input_insert_loop e msg cancel ev oon ar pid dur UINT64_MAX =
     (Some (msg\<lparr>m_immediate :=
               Some (insert_section (fresh_block e) cancel ev oon ar pid UINT64_MAX dur)\<rparr>),
      e\<lparr>allocs := tl (tl (allocs e))\<rparr>)"
  by (subst input_insert_loop.simps)
    (simp add: map_block_ok scte35_message_set_immediate_def)

lemma input_insert_loop_ok:
  assumes "no_alloc_failure e"
  shows "input_insert_loop e msg cancel ev oon ar pid dur pts =
     (Some (msg\<lparr>m_ubuf := (if pts \<noteq> UINT64_MAX
                       then Some (insert_section (fresh_block e) cancel ev oon ar pid pts dur)
                       else m_ubuf msg),
               m_immediate :=
                 Some (insert_section (fresh_block e) cancel ev oon ar pid UINT64_MAX dur)\<rparr>),
      e\<lparr>allocs := (if pts \<noteq> UINT64_MAX then tl (tl (tl (tl (allocs e))))
                    else tl (tl (allocs e)))\<rparr>)"
proof (cases "pts = UINT64_MAX")
  case True
  with assms show ?thesis by (simp add: input_insert_loop_immediate)
next
  case False
  have ok2: "no_alloc_failure (e\<lparr>allocs := tl (tl (allocs e))\<rparr>)"
    using assms by (rule no_alloc_failure_tl2)
  from False assms show ?thesis
    by (subst input_insert_loop.simps)
      (simp add: map_block_ok input_insert_loop_immediate [OF ok2] scte35_message_set_ubuf_def)
qed

lemma time_signal_loop_last:
  assumes "no_alloc_failure e" and "time_signal_size pts_orig descs \<le> 1024"
  shows "time_signal_loop e msg pts_orig descs UINT64_MAX =
     Inr (Some (msg\<lparr>m_immediate := Some (time_signal_bytes (fresh_block e) pts_orig descs)\<rparr>),
          export_warned descs (e\<lparr>allocs := tl (tl (allocs e))\<rparr>))"
  using assms time_signal_section_any_env [of "fresh_block e" "e\<lparr>allocs := tl (tl (allocs e))\<rparr>"
      pts_orig descs]
  by (subst time_signal_loop.simps)
    (simp add: map_block_ok scte35_message_set_immediate_def)

lemma no_alloc_failure_export_warned [simp]:
  "no_alloc_failure (export_warned us e) = no_alloc_failure e"
  by (simp add: export_warned_def)

lemma fresh_block_export_warned [simp]: "fresh_block (export_warned us e) = fresh_block e"
  by (simp add: fresh_block_def export_warned_def)

lemma time_signal_loop_ok:
  assumes "no_alloc_failure e" and "time_signal_size pts_orig descs \<le> 1024"
  shows "\<exists>e'. time_signal_loop e msg pts_orig descs pts =
     Inr (Some (msg\<lparr>m_ubuf := (if pts \<noteq> UINT64_MAX
                       then Some (time_signal_bytes (fresh_block e) pts_orig descs)
                       else m_ubuf msg),
               m_immediate := Some (time_signal_bytes (fresh_block e) pts_orig descs)\<rparr>), e')"
proof (cases "pts = UINT64_MAX")
  case True
  with assms show ?thesis by (simp add: time_signal_loop_last)
next
  case False
  let ?e1 = "export_warned descs (e\<lparr>allocs := tl (tl (allocs e))\<rparr>)"
  have ok2: "no_alloc_failure ?e1"
    using assms(1) by (simp add: no_alloc_failure_tl2)
  from False assms time_signal_section_any_env [of "fresh_block e"
      "e\<lparr>allocs := tl (tl (allocs e))\<rparr>" pts_orig descs]
  show ?thesis
    by (subst time_signal_loop.simps)
      (simp add: map_block_ok time_signal_loop_last [OF ok2 assms(2)]
        scte35_message_set_ubuf_def)
qed

lemma pts_orig_not_max: "((p::u64) div CLOCK_SCALE) mod POW2_33 \<noteq> UINT64_MAX"
proof -
  have "(p div CLOCK_SCALE) mod POW2_33 < POW2_33"
    by (rule word_mod_less_divisor) (simp add: POW2_33_def)
  then show ?thesis by (auto simp: POW2_33_def UINT64_MAX_def)
qed

lemma clock_scale_300: "CLOCK_SCALE = 300"
  by (simp add: CLOCK_SCALE_def UCLOCK_FREQ_def)

lemma time_signal_size_pts:
  "time_signal_size (if pts \<noteq> UINT64_MAX then (pts div CLOCK_SCALE) mod POW2_33 else UINT64_MAX)
     descs = time_signal_size pts descs"
  by (simp add: time_signal_size_def pts_orig_not_max)

lemma input_insert_ok:
  assumes ok: "no_alloc_failure e" and u: "urefs s = uref # rest"
  shows "upipe_ts_scte35g_input_insert (e, s) =
    Inr ((e\<lparr>allocs := (if get_or (u_pts_prog uref) UINT64_MAX \<noteq> UINT64_MAX
                          then tl (tl (tl (tl (tl (allocs e))))) else tl (tl (tl (allocs e))))\<rparr>)
           \<lparr>events := events e @ [Notice ''now using splice_insert command for event'']\<rparr>,
         s\<lparr>urefs := rest,
           scte35_sections := scte35_sections s @
             [\<lparr>m_ubuf =
                 (if get_or (u_pts_prog uref) UINT64_MAX \<noteq> UINT64_MAX
                  then Some (insert_section (fresh_block e) (flag d_cancel uref)
                         (get_or (attr d_event_id uref) 0) (flag d_out_of_network uref)
                         (flag d_auto_return uref) (get_or (attr d_unique_program_id uref) 0)
                         (get_or (u_pts_prog uref) UINT64_MAX)
                         (get_or (attr d_duration uref) UINT64_MAX))
                  else None),
               m_immediate =
                 Some (insert_section (fresh_block e) (flag d_cancel uref)
                         (get_or (attr d_event_id uref) 0) (flag d_out_of_network uref)
                         (flag d_auto_return uref) (get_or (attr d_unique_program_id uref) 0)
                         UINT64_MAX (get_or (attr d_duration uref) UINT64_MAX)),
               m_cr_sys = get_or (u_pts_sys uref) 0\<rparr>],
           scte35_cr_sys := 0\<rparr>)"
proof -
  have ok1: "no_alloc_failure (e\<lparr>allocs := tl (allocs e)\<rparr>)"
    using ok by (rule no_alloc_failure_tl)
  show ?thesis
    using u ok
    by (simp add: upipe_ts_scte35g_input_insert_def Let_def scte35_message_new_def alloc_ok
        input_insert_loop_ok [OF ok1] throw_def)
qed

lemma time_signal_ok:
  assumes ok: "no_alloc_failure e" and u: "urefs s = uref # rest"
    and fit: "time_signal_size (get_or (u_pts_prog uref) UINT64_MAX) rest \<le> 1024"
  shows "\<exists>e'. upipe_ts_scte35g_time_signal (e, s) =
    Inr (e',
         s\<lparr>urefs := rest,
           scte35_sections := scte35_sections s @
             [\<lparr>m_ubuf =
                 (if get_or (u_pts_prog uref) UINT64_MAX \<noteq> UINT64_MAX
                  then Some (time_signal_bytes (fresh_block e)
                         ((get_or (u_pts_prog uref) UINT64_MAX div CLOCK_SCALE) mod POW2_33) rest)
                  else None),
               m_immediate =
                 Some (time_signal_bytes (fresh_block e)
                   (if get_or (u_pts_prog uref) UINT64_MAX \<noteq> UINT64_MAX
                    then (get_or (u_pts_prog uref) UINT64_MAX div CLOCK_SCALE) mod POW2_33
                    else UINT64_MAX) rest),
               m_cr_sys = get_or (u_pts_sys uref) 0\<rparr>],
           scte35_cr_sys := 0\<rparr>)"
proof -
  let ?pts = "get_or (u_pts_prog uref) UINT64_MAX"
  let ?po = "if ?pts \<noteq> UINT64_MAX then (?pts div CLOCK_SCALE) mod POW2_33 else UINT64_MAX"
  let ?msg = "\<lparr>m_ubuf = None, m_immediate = None, m_cr_sys = get_or (u_pts_sys uref) 0\<rparr>"
  have ok1: "no_alloc_failure (e\<lparr>allocs := tl (allocs e)\<rparr>)"
    using ok by (rule no_alloc_failure_tl)
  have fit': "time_signal_size ?po rest \<le> 1024"
    using fit by (simp only: time_signal_size_pts)
  from time_signal_loop_ok [OF ok1 fit', of ?msg ?pts]
  obtain e' where l: "time_signal_loop (e\<lparr>allocs := tl (allocs e)\<rparr>) ?msg ?po rest ?pts =
     Inr (Some (?msg\<lparr>m_ubuf := (if ?pts \<noteq> UINT64_MAX
                       then Some (time_signal_bytes (fresh_block e) ?po rest)
                       else m_ubuf ?msg),
               m_immediate := Some (time_signal_bytes (fresh_block e) ?po rest)\<rparr>), e')"
    by auto
  show ?thesis
    using u ok l
    by (auto simp: upipe_ts_scte35g_time_signal_def Let_def scte35_message_new_def alloc_ok)
qed

lemma lengths_exact_nonempty: "lengths_exact sec descs \<Longrightarrow> sec \<noteq> []"
  by (auto simp: lengths_exact_def PSI_HEADER_SIZE_def)

lemma time_signal_bytes_facts:
  assumes "time_signal_size pts descs \<le> 1024"
  shows "time_signal_bytes (fresh_block e)
           (if pts \<noteq> UINT64_MAX then (pts div CLOCK_SCALE) mod POW2_33 else UINT64_MAX) descs \<noteq> []"
    and "decode_pts_time (time_signal_bytes (fresh_block e)
           (if pts \<noteq> UINT64_MAX then (pts div CLOCK_SCALE) mod POW2_33 else UINT64_MAX) descs) =
         (if pts \<noteq> UINT64_MAX then Some ((pts div CLOCK_SCALE) mod POW2_33) else None)"
proof -
  let ?po = "if pts \<noteq> UINT64_MAX then (pts div CLOCK_SCALE) mod POW2_33 else UINT64_MAX"
  have l: "length (fresh_block e) = 1024" by simp
  have fit: "time_signal_size ?po descs \<le> 1024"
    using assms by (simp only: time_signal_size_pts)
  from time_signal_section_any_env [OF l, of e ?po descs] fit
  have le: "lengths_exact (time_signal_bytes (fresh_block e) ?po descs) (concat (exported descs))"
    and d: "decode_pts_time (time_signal_bytes (fresh_block e) ?po descs) =
              (if ?po \<noteq> UINT64_MAX then Some (take_bit 33 ?po) else None)"
    by simp_all
  from le show "time_signal_bytes (fresh_block e) ?po descs \<noteq> []"
    by (rule lengths_exact_nonempty)
  from d show "decode_pts_time (time_signal_bytes (fresh_block e) ?po descs) =
         (if pts \<noteq> UINT64_MAX then Some ((pts div CLOCK_SCALE) mod POW2_33) else None)"
    by (simp add: wrap33 pts_orig_not_max)
qed

text \<open>Claim C5. With no allocation failure, the synthesis of a splice\_insert, and of a
  time\_signal whose section fits the block, takes the first record off the accumulator, appends
  one message to the pending queue and resets the date of the last emission to 0. The message
  has the date of the record (0 without one) as its deadline and always has an immediate form,
  which is not empty; it has a scheduled form exactly when the program date of the record is
  present and is not \<open>2^64 - 1\<close>. The immediate form of a splice\_insert has no date. The
  immediate form of a time\_signal is the scheduled form, byte for byte, when there is one: it
  carries the 33-bit date \<open>(p div CLOCK_SCALE) mod 2^33\<close>, where the claim has a form without a
  date, because the second pass of the loop reads \<^verbatim>\<open>pts_orig\<close>, which the first pass does not
  reset.\<close>

theorem synthesis_message:
  assumes "no_alloc_failure e" and "urefs s = uref # rest"
  shows
    "(\<exists>e1 msg imm.
        upipe_ts_scte35g_input_insert (e, s) =
          Inr (e1, s\<lparr>urefs := rest, scte35_sections := scte35_sections s @ [msg],
                      scte35_cr_sys := 0\<rparr>) \<and>
        m_cr_sys msg = get_or (u_pts_sys uref) 0 \<and>
        m_immediate msg = Some imm \<and> imm \<noteq> [] \<and> decode_pts_time imm = None \<and>
        (m_ubuf msg \<noteq> None) = (get_or (u_pts_prog uref) UINT64_MAX \<noteq> UINT64_MAX)) \<and>
     (time_signal_size (get_or (u_pts_prog uref) UINT64_MAX) rest \<le> 1024 \<longrightarrow>
        (\<exists>e1 msg imm.
           upipe_ts_scte35g_time_signal (e, s) =
             Inr (e1, s\<lparr>urefs := rest, scte35_sections := scte35_sections s @ [msg],
                         scte35_cr_sys := 0\<rparr>) \<and>
           m_cr_sys msg = get_or (u_pts_sys uref) 0 \<and>
           m_immediate msg = Some imm \<and> imm \<noteq> [] \<and>
           m_ubuf msg =
             (if get_or (u_pts_prog uref) UINT64_MAX \<noteq> UINT64_MAX then Some imm else None) \<and>
           decode_pts_time imm =
             (if get_or (u_pts_prog uref) UINT64_MAX \<noteq> UINT64_MAX
              then Some ((get_or (u_pts_prog uref) UINT64_MAX div CLOCK_SCALE) mod POW2_33)
              else None)))"
proof -
  let ?p = "get_or (u_pts_prog uref) UINT64_MAX"
  have l: "length (fresh_block e) = 1024" by simp
  have n: "insert_section (fresh_block e) c ev oon ar pid pts dur \<noteq> []" for c ev oon ar pid pts dur
    using insert_lengths [OF l] by (rule lengths_exact_nonempty)
  let ?imm = "insert_section (fresh_block e) (flag d_cancel uref)
      (get_or (attr d_event_id uref) 0) (flag d_out_of_network uref) (flag d_auto_return uref)
      (get_or (attr d_unique_program_id uref) 0) UINT64_MAX
      (get_or (attr d_duration uref) UINT64_MAX)"
  let ?msg = "\<lparr>m_ubuf =
      (if ?p \<noteq> UINT64_MAX
       then Some (insert_section (fresh_block e) (flag d_cancel uref)
              (get_or (attr d_event_id uref) 0) (flag d_out_of_network uref)
              (flag d_auto_return uref) (get_or (attr d_unique_program_id uref) 0) ?p
              (get_or (attr d_duration uref) UINT64_MAX))
       else None),
      m_immediate = Some ?imm, m_cr_sys = get_or (u_pts_sys uref) 0\<rparr>"
  have "\<exists>e1. upipe_ts_scte35g_input_insert (e, s) =
          Inr (e1, s\<lparr>urefs := rest, scte35_sections := scte35_sections s @ [?msg],
                      scte35_cr_sys := 0\<rparr>) \<and>
        m_cr_sys ?msg = get_or (u_pts_sys uref) 0 \<and>
        m_immediate ?msg = Some ?imm \<and> ?imm \<noteq> [] \<and> decode_pts_time ?imm = None \<and>
        (m_ubuf ?msg \<noteq> None) = (?p \<noteq> UINT64_MAX)"
    by (simp add: input_insert_ok [OF assms] insert_decode_pts_time [OF l] n)
  then have i: "\<exists>e1 msg imm.
        upipe_ts_scte35g_input_insert (e, s) =
          Inr (e1, s\<lparr>urefs := rest, scte35_sections := scte35_sections s @ [msg],
                      scte35_cr_sys := 0\<rparr>) \<and>
        m_cr_sys msg = get_or (u_pts_sys uref) 0 \<and>
        m_immediate msg = Some imm \<and> imm \<noteq> [] \<and> decode_pts_time imm = None \<and>
        (m_ubuf msg \<noteq> None) = (?p \<noteq> UINT64_MAX)"
    by blast
  have t: "\<exists>e1 msg imm.
           upipe_ts_scte35g_time_signal (e, s) =
             Inr (e1, s\<lparr>urefs := rest, scte35_sections := scte35_sections s @ [msg],
                         scte35_cr_sys := 0\<rparr>) \<and>
           m_cr_sys msg = get_or (u_pts_sys uref) 0 \<and>
           m_immediate msg = Some imm \<and> imm \<noteq> [] \<and>
           m_ubuf msg = (if ?p \<noteq> UINT64_MAX then Some imm else None) \<and>
           decode_pts_time imm =
             (if ?p \<noteq> UINT64_MAX then Some ((?p div CLOCK_SCALE) mod POW2_33) else None)"
    if fit: "time_signal_size ?p rest \<le> 1024"
  proof -
    from time_signal_ok [OF assms fit] obtain e1 where
      r: "upipe_ts_scte35g_time_signal (e, s) =
        Inr (e1,
         s\<lparr>urefs := rest,
           scte35_sections := scte35_sections s @
             [\<lparr>m_ubuf =
                 (if ?p \<noteq> UINT64_MAX
                  then Some (time_signal_bytes (fresh_block e)
                         ((?p div CLOCK_SCALE) mod POW2_33) rest)
                  else None),
               m_immediate =
                 Some (time_signal_bytes (fresh_block e)
                   (if ?p \<noteq> UINT64_MAX then (?p div CLOCK_SCALE) mod POW2_33
                    else UINT64_MAX) rest),
               m_cr_sys = get_or (u_pts_sys uref) 0\<rparr>],
           scte35_cr_sys := 0\<rparr>)"
      by blast
    let ?b = "time_signal_bytes (fresh_block e)
        (if ?p \<noteq> UINT64_MAX then (?p div CLOCK_SCALE) mod POW2_33 else UINT64_MAX) rest"
    let ?m = "\<lparr>m_ubuf = (if ?p \<noteq> UINT64_MAX then Some ?b else None),
               m_immediate = Some ?b, m_cr_sys = get_or (u_pts_sys uref) 0\<rparr>"
    have m: "\<lparr>m_ubuf =
                 (if ?p \<noteq> UINT64_MAX
                  then Some (time_signal_bytes (fresh_block e)
                         ((?p div CLOCK_SCALE) mod POW2_33) rest)
                  else None),
               m_immediate = Some ?b, m_cr_sys = get_or (u_pts_sys uref) 0\<rparr> = ?m"
      by simp
    from r have r': "upipe_ts_scte35g_time_signal (e, s) =
        Inr (e1, s\<lparr>urefs := rest, scte35_sections := scte35_sections s @ [?m],
                    scte35_cr_sys := 0\<rparr>)"
      by (simp only: m)
    have "upipe_ts_scte35g_time_signal (e, s) =
             Inr (e1, s\<lparr>urefs := rest, scte35_sections := scte35_sections s @ [?m],
                         scte35_cr_sys := 0\<rparr>) \<and>
           m_cr_sys ?m = get_or (u_pts_sys uref) 0 \<and>
           m_immediate ?m = Some ?b \<and> ?b \<noteq> [] \<and>
           m_ubuf ?m = (if ?p \<noteq> UINT64_MAX then Some ?b else None) \<and>
           decode_pts_time ?b =
             (if ?p \<noteq> UINT64_MAX then Some ((?p div CLOCK_SCALE) mod POW2_33) else None)"
      using r' time_signal_bytes_facts [OF fit, of e] by simp
    then show ?thesis by blast
  qed
  from i t show ?thesis by blast
qed

theorem synthesis_message_witness:
  "(case upipe_ts_scte35g_time_signal
           (env0, upipe_ts_scte35g_alloc\<lparr>urefs := [ex_time_signal]\<rparr>) of
      Inl f \<Rightarrow> False
    | Inr (e, s) \<Rightarrow>
        urefs s = [] \<and> scte35_cr_sys s = 0 \<and> map m_cr_sys (scte35_sections s) = [5000000] \<and>
        map m_immediate (scte35_sections s) = map m_ubuf (scte35_sections s) \<and>
        map (map_option decode_pts_time \<circ> m_immediate) (scte35_sections s) =
          [Some (Some 300000)]) \<and>
   (case upipe_ts_scte35g_time_signal
           (env0, upipe_ts_scte35g_alloc\<lparr>urefs := [ex_time_signal_max]\<rparr>) of
      Inl f \<Rightarrow> False
    | Inr (e, s) \<Rightarrow>
        map m_ubuf (scte35_sections s) = [None] \<and>
        map (map_option decode_pts_time \<circ> m_immediate) (scte35_sections s) = [Some None]) \<and>
   (case upipe_ts_scte35g_input_insert (env0, upipe_ts_scte35g_alloc\<lparr>urefs := [ex_insert]\<rparr>) of
      Inl f \<Rightarrow> False
    | Inr (e, s) \<Rightarrow>
        urefs s = [] \<and> scte35_cr_sys s = 0 \<and> map m_cr_sys (scte35_sections s) = [5000000] \<and>
        map (\<lambda>m. m_ubuf m \<noteq> None) (scte35_sections s) = [True] \<and>
        map (map_option decode_pts_time \<circ> m_immediate) (scte35_sections s) = [Some None])"
proof -
  have a: "urefs (upipe_ts_scte35g_alloc\<lparr>urefs := [u]\<rparr>) = u # []" for u by simp
  have g: "get_or (u_pts_prog ex_time_signal) UINT64_MAX = 90000000"
    "get_or (u_pts_prog ex_time_signal_max) UINT64_MAX = UINT64_MAX"
    "get_or (u_pts_prog ex_insert) UINT64_MAX = 9000000"
    "get_or (u_pts_sys ex_time_signal) 0 = 5000000"
    "get_or (u_pts_sys ex_insert) 0 = 5000000"
    by (simp_all add: ex_time_signal_def ex_time_signal_max_def ex_insert_def get_or_def)
  have sz: "time_signal_size x [] \<le> 1024" for x
    by (simp add: time_signal_size_def exported_Nil SCTE35_HEADER_SIZE_def
        SCTE35_HEADER2_SIZE_def PSI_HEADER_SIZE_def PSI_CRC_SIZE_def)
  have c: "(90000000 div CLOCK_SCALE) mod POW2_33 = (300000::u64)"
    "(90000000::u64) \<noteq> UINT64_MAX" "(9000000::u64) \<noteq> UINT64_MAX"
    by (simp_all add: CLOCK_SCALE_def UCLOCK_FREQ_def POW2_33_def UINT64_MAX_def)
  from synthesis_message [OF no_alloc_failure_env0 a [of ex_time_signal]] sz
  obtain e1 msg imm where
    "upipe_ts_scte35g_time_signal (env0, upipe_ts_scte35g_alloc\<lparr>urefs := [ex_time_signal]\<rparr>) =
       Inr (e1, upipe_ts_scte35g_alloc\<lparr>urefs := [ex_time_signal]\<rparr>
                  \<lparr>urefs := [],
                   scte35_sections :=
                     scte35_sections (upipe_ts_scte35g_alloc\<lparr>urefs := [ex_time_signal]\<rparr>) @ [msg],
                   scte35_cr_sys := 0\<rparr>)"
    "m_cr_sys msg = 5000000" "m_immediate msg = Some imm" "m_ubuf msg = Some imm"
    "decode_pts_time imm = Some 300000"
    unfolding g c by (auto simp: c)
  then have A:
    "case upipe_ts_scte35g_time_signal
           (env0, upipe_ts_scte35g_alloc\<lparr>urefs := [ex_time_signal]\<rparr>) of
      Inl f \<Rightarrow> False
    | Inr (e, s) \<Rightarrow>
        urefs s = [] \<and> scte35_cr_sys s = 0 \<and> map m_cr_sys (scte35_sections s) = [5000000] \<and>
        map m_immediate (scte35_sections s) = map m_ubuf (scte35_sections s) \<and>
        map (map_option decode_pts_time \<circ> m_immediate) (scte35_sections s) =
          [Some (Some 300000)]"
    by (simp add: upipe_ts_scte35g_alloc_def)
  from synthesis_message [OF no_alloc_failure_env0 a [of ex_time_signal_max]] sz
  obtain e2 msg2 imm2 where
    "upipe_ts_scte35g_time_signal
        (env0, upipe_ts_scte35g_alloc\<lparr>urefs := [ex_time_signal_max]\<rparr>) =
       Inr (e2, upipe_ts_scte35g_alloc\<lparr>urefs := [ex_time_signal_max]\<rparr>
                  \<lparr>urefs := [],
                   scte35_sections :=
                     scte35_sections (upipe_ts_scte35g_alloc\<lparr>urefs := [ex_time_signal_max]\<rparr>) @
                       [msg2],
                   scte35_cr_sys := 0\<rparr>)"
    "m_immediate msg2 = Some imm2" "m_ubuf msg2 = None" "decode_pts_time imm2 = None"
    unfolding g by auto
  then have B:
    "case upipe_ts_scte35g_time_signal
           (env0, upipe_ts_scte35g_alloc\<lparr>urefs := [ex_time_signal_max]\<rparr>) of
      Inl f \<Rightarrow> False
    | Inr (e, s) \<Rightarrow>
        map m_ubuf (scte35_sections s) = [None] \<and>
        map (map_option decode_pts_time \<circ> m_immediate) (scte35_sections s) = [Some None]"
    by (simp add: upipe_ts_scte35g_alloc_def)
  from synthesis_message [OF no_alloc_failure_env0 a [of ex_insert]]
  obtain e3 msg3 imm3 where
    "upipe_ts_scte35g_input_insert (env0, upipe_ts_scte35g_alloc\<lparr>urefs := [ex_insert]\<rparr>) =
       Inr (e3, upipe_ts_scte35g_alloc\<lparr>urefs := [ex_insert]\<rparr>
                  \<lparr>urefs := [],
                   scte35_sections :=
                     scte35_sections (upipe_ts_scte35g_alloc\<lparr>urefs := [ex_insert]\<rparr>) @ [msg3],
                   scte35_cr_sys := 0\<rparr>)"
    "m_cr_sys msg3 = 5000000" "m_immediate msg3 = Some imm3" "m_ubuf msg3 \<noteq> None"
    "decode_pts_time imm3 = None"
    unfolding g using c(3) by auto
  then have C:
    "case upipe_ts_scte35g_input_insert (env0, upipe_ts_scte35g_alloc\<lparr>urefs := [ex_insert]\<rparr>) of
      Inl f \<Rightarrow> False
    | Inr (e, s) \<Rightarrow>
        urefs s = [] \<and> scte35_cr_sys s = 0 \<and> map m_cr_sys (scte35_sections s) = [5000000] \<and>
        map (\<lambda>m. m_ubuf m \<noteq> None) (scte35_sections s) = [True] \<and>
        map (map_option decode_pts_time \<circ> m_immediate) (scte35_sections s) = [Some None]"
    by (simp add: upipe_ts_scte35g_alloc_def)
  from A B C show ?thesis by blast
qed

lemma block_any_env:
  "(case ubuf_block_alloc e (PSI_MAX_SIZE + PSI_HEADER_SIZE) of
      (None, e1) \<Rightarrow> f1 e1
    | (Some ubuf, e1) \<Rightarrow>
        (case ubuf_block_write e1 ubuf of (None, e2) \<Rightarrow> f2 e2 | (Some scte35, e2) \<Rightarrow> g scte35 e2)) =
   (case alloc e of
      (False, e1) \<Rightarrow> f1 e1
    | (True, e1) \<Rightarrow> (case alloc e1 of (False, e2) \<Rightarrow> f2 e2 | (True, e2) \<Rightarrow> g (fresh_block e) e2))"
  by (simp add: ubuf_block_alloc_def ubuf_block_write_def fresh_block_def alloc_def
      split: prod.splits bool.splits list.splits)

lemma time_signal_size_Nil: "time_signal_size x [] \<le> 1024"
  by (simp add: time_signal_size_def exported_Nil SCTE35_HEADER_SIZE_def
      SCTE35_HEADER2_SIZE_def PSI_HEADER_SIZE_def PSI_CRC_SIZE_def)

lemma time_signal_loop_Nil_last: "\<exists>r. time_signal_loop e msg po [] UINT64_MAX = Inr r"
proof -
  have l: "length (fresh_block e) = 1024" by simp
  show ?thesis
    using time_signal_section_any_env [OF l, of _ po "[]"] time_signal_size_Nil [of po]
    by (subst time_signal_loop.simps)
      (simp add: block_any_env split: prod.splits bool.splits)
qed

lemma time_signal_loop_Nil: "\<exists>r. time_signal_loop e msg po [] pts = Inr r"
proof -
  have l: "length (fresh_block e) = 1024" by simp
  show ?thesis
    using time_signal_section_any_env [OF l, of _ po "[]"] time_signal_size_Nil [of po]
      time_signal_loop_Nil_last
    by (subst time_signal_loop.simps)
      (simp add: block_any_env split: prod.splits bool.splits)
qed

lemma input_insert_drains:
  "urefs s = [uref] \<Longrightarrow>
   \<exists>e1 s1. upipe_ts_scte35g_input_insert (e, s) = Inr (e1, s1) \<and> urefs s1 = []"
  by (simp add: upipe_ts_scte35g_input_insert_def Let_def split: prod.splits option.splits)

lemma time_signal_single:
  assumes "urefs s = [uref]"
  shows "\<exists>e1 s1. upipe_ts_scte35g_time_signal (e, s) = Inr (e1, s1) \<and> urefs s1 = []"
proof -
  let ?pts = "get_or (u_pts_prog uref) UINT64_MAX"
  let ?po = "if ?pts \<noteq> UINT64_MAX then (?pts div CLOCK_SCALE) mod POW2_33 else UINT64_MAX"
  obtain m e1 where n: "scte35_message_new e (get_or (u_pts_sys uref) 0) = (m, e1)"
    by (cases "scte35_message_new e (get_or (u_pts_sys uref) 0)")
  show ?thesis
  proof (cases m)
    case None
    with n assms show ?thesis
      by (simp add: upipe_ts_scte35g_time_signal_def Let_def)
  next
    case (Some msg)
    from time_signal_loop_Nil [of e1 msg ?po ?pts] obtain r e2 where
      "time_signal_loop e1 msg ?po [] ?pts = Inr (r, e2)" by (metis surj_pair)
    with n Some assms show ?thesis
      by (cases r) (simp_all add: upipe_ts_scte35g_time_signal_def Let_def)
  qed
qed

lemma time_signal_loop_overrun:
  assumes "no_alloc_failure e" and "1024 < time_signal_size pts_orig descs"
  shows "time_signal_loop e msg pts_orig descs pts = Inl Buffer_overrun"
  using assms time_signal_section_any_env [of "fresh_block e" "e\<lparr>allocs := tl (tl (allocs e))\<rparr>"
      pts_orig descs]
  by (subst time_signal_loop.simps) (simp add: map_block_ok)

lemma time_signal_overrun:
  assumes ok: "no_alloc_failure e" and u: "urefs s = uref # rest"
    and big: "1024 < time_signal_size (get_or (u_pts_prog uref) UINT64_MAX) rest"
  shows "upipe_ts_scte35g_time_signal (e, s) = Inl Buffer_overrun"
proof -
  let ?pts = "get_or (u_pts_prog uref) UINT64_MAX"
  let ?po = "if ?pts \<noteq> UINT64_MAX then (?pts div CLOCK_SCALE) mod POW2_33 else UINT64_MAX"
  have ok1: "no_alloc_failure (e\<lparr>allocs := tl (allocs e)\<rparr>)"
    using ok by (rule no_alloc_failure_tl)
  have big': "1024 < time_signal_size ?po rest"
    using big by (simp only: time_signal_size_pts)
  show ?thesis
    using u ok time_signal_loop_overrun [OF ok1 big']
    by (simp add: upipe_ts_scte35g_time_signal_def Let_def scte35_message_new_def alloc_ok)
qed

text \<open>Claim C3. The claim has the three length fields exact for every section, with any set of
  descriptors. They are exact in the cached splice\_null section, whose twenty bytes are
  these; in both forms of a splice\_insert, whatever the event, whose command is the
  splice\_insert of the event with the body size of section 4.2; and in the section of a
  time\_signal that fits the block of 1024 bytes, whose command body has five bytes with a date
  and one without, whose descriptor loop holds the exported descriptors one after the other, and
  whose size is the sum of the header, the body, the loop length, the loop and the CRC. The
  code has no bound on the descriptors: when that sum is over 1024 the section is written past
  the end of the block, which is a fault here, and no section with exact lengths is built.\<close>

theorem section_lengths_exact:
  "null_section (fresh_block e) =
     [0xFC, 0x30, 0x11, 0, 0, 0, 0, 0, 0, 0, 0xFF, 0xF0, 0, 0, 0, 0, 0x7A, 0x4F, 0xBF, 0xFF] \<and>
   lengths_exact (null_section (fresh_block e)) [] \<and>
   lengths_exact (insert_section (fresh_block e) cancel event_id out_of_network auto_return
      program_id pts_prog duration) [] \<and>
   insert_shape (insert_section (fresh_block e) cancel event_id out_of_network auto_return
      program_id pts_prog duration) cancel (pts_prog = UINT64_MAX) (duration \<noteq> UINT64_MAX) \<and>
   (time_signal_size pts_orig descs \<le> 1024 \<longrightarrow>
      time_signal_section e (fresh_block e) pts_orig descs =
        Inr (export_warned descs e, time_signal_bytes (fresh_block e) pts_orig descs) \<and>
      scte35_get_command_type (time_signal_bytes (fresh_block e) pts_orig descs) =
        SCTE35_TIME_SIGNAL_COMMAND \<and>
      command_body_size (time_signal_bytes (fresh_block e) pts_orig descs) =
        (if pts_orig \<noteq> UINT64_MAX then 5 else 1) \<and>
      length (time_signal_bytes (fresh_block e) pts_orig descs) =
        time_signal_size pts_orig descs) \<and>
   (\<forall>e1 section. time_signal_section e (fresh_block e) pts_orig descs = Inr (e1, section) \<longrightarrow>
      lengths_exact section (concat (exported descs))) \<and>
   (1024 < time_signal_size pts_orig descs \<longrightarrow>
      time_signal_section e (fresh_block e) pts_orig descs = Inl Buffer_overrun) \<and>
   (no_alloc_failure e \<and> urefs s = uref # rest \<and>
    1024 < time_signal_size (get_or (u_pts_prog uref) UINT64_MAX) rest \<longrightarrow>
      upipe_ts_scte35g_time_signal (e, s) = Inl Buffer_overrun)"
proof -
  have l: "length (fresh_block e) = 1024" by simp
  note f = time_signal_section_full [OF l, of e pts_orig descs]
  from f have a: "time_signal_size pts_orig descs \<le> 1024 \<longrightarrow>
      time_signal_section e (fresh_block e) pts_orig descs =
        Inr (export_warned descs e, time_signal_bytes (fresh_block e) pts_orig descs) \<and>
      scte35_get_command_type (time_signal_bytes (fresh_block e) pts_orig descs) =
        SCTE35_TIME_SIGNAL_COMMAND \<and>
      command_body_size (time_signal_bytes (fresh_block e) pts_orig descs) =
        (if pts_orig \<noteq> UINT64_MAX then 5 else 1) \<and>
      length (time_signal_bytes (fresh_block e) pts_orig descs) =
        time_signal_size pts_orig descs"
    by simp
  from f have b: "\<forall>e1 section.
      time_signal_section e (fresh_block e) pts_orig descs = Inr (e1, section) \<longrightarrow>
      lengths_exact section (concat (exported descs))"
    by (auto split: if_splits)
  from f have c: "1024 < time_signal_size pts_orig descs \<longrightarrow>
      time_signal_section e (fresh_block e) pts_orig descs = Inl Buffer_overrun"
    by simp
  have d: "no_alloc_failure e \<and> urefs s = uref # rest \<and>
    1024 < time_signal_size (get_or (u_pts_prog uref) UINT64_MAX) rest \<longrightarrow>
      upipe_ts_scte35g_time_signal (e, s) = Inl Buffer_overrun"
    using time_signal_overrun [of e s uref rest] by blast
  from null_section_bytes [OF l] null_lengths [OF l] insert_lengths [OF l] insert_shape_ok [OF l]
    a b c d
  show ?thesis by blast
qed

theorem section_lengths_exact_witness:
  "upipe_ts_scte35g_time_signal
     (env0, upipe_ts_scte35g_alloc
        \<lparr>urefs := [ex_time_signal, ex_big_desc, ex_big_desc, ex_big_desc, ex_big_desc_end]\<rparr>) =
     Inl Buffer_overrun \<and>
   upipe_ts_scte35g_input
     (env0, upipe_ts_scte35g_alloc
        \<lparr>urefs := [ex_time_signal, ex_big_desc, ex_big_desc, ex_big_desc]\<rparr>)
     (Some ex_big_desc_end) = Inl Buffer_overrun \<and>
   time_signal_size 300000 [ex_desc] = 37 \<and>
   time_signal_section env0 (fresh_block env0) 300000 [ex_desc] =
     Inr (env0, time_signal_bytes (fresh_block env0) 300000 [ex_desc]) \<and>
   length (time_signal_bytes (fresh_block env0) 300000 [ex_desc]) = 37 \<and>
   lengths_exact (time_signal_bytes (fresh_block env0) 300000 [ex_desc])
     [0x02, 0x0A, 0x43, 0x55, 0x45, 0x49, 1, 2, 3, 4, 5, 6]"
proof -
  let ?s = "upipe_ts_scte35g_alloc
        \<lparr>urefs := [ex_time_signal, ex_big_desc, ex_big_desc, ex_big_desc, ex_big_desc_end]\<rparr>"
  have x: "exported [ex_desc] = [[0x02, 0x0A, 0x43, 0x55, 0x45, 0x49, 1, 2, 3, 4, 5, 6]]"
    by (simp add: exported_Cons upipe_ts_scte_export_desc_def attr_def ex_desc_def udict0_def)
  have sz: "time_signal_size 300000 [ex_desc] = 37"
    by (simp add: time_signal_size_def x UINT64_MAX_def SCTE35_HEADER_SIZE_def
        SCTE35_HEADER2_SIZE_def PSI_HEADER_SIZE_def PSI_CRC_SIZE_def)
  have w: "export_warned [ex_desc] env0 = env0"
    by (simp add: export_warned_def upipe_ts_scte_export_desc_def attr_def ex_desc_def
        udict0_def env0_def)
  have big: "1024 < time_signal_size (get_or (u_pts_prog ex_time_signal) UINT64_MAX)
      [ex_big_desc, ex_big_desc, ex_big_desc, ex_big_desc_end]"
    by (simp add: time_signal_size_def exported_Cons upipe_ts_scte_export_desc_def attr_def
      ex_big_desc_def ex_big_desc_end_def udict0_def exported_Nil SCTE35_HEADER_SIZE_def
      SCTE35_HEADER2_SIZE_def PSI_HEADER_SIZE_def PSI_CRC_SIZE_def)
  have u: "urefs ?s =
      ex_time_signal # [ex_big_desc, ex_big_desc, ex_big_desc, ex_big_desc_end]"
    by simp
  note t = section_lengths_exact [of env0 False 0 False False 0 0 0 300000 "[ex_desc]" ?s
      ex_time_signal "[ex_big_desc, ex_big_desc, ex_big_desc, ex_big_desc_end]"]
  from t big u have A: "upipe_ts_scte35g_time_signal (env0, ?s) = Inl Buffer_overrun"
    by simp
  obtain d where dd: "u_udict ex_big_desc_end = Some d"
    by (simp add: ex_big_desc_end_def ex_big_desc_def)
  have fl: "\<not> u_start ex_big_desc_end" "u_end ex_big_desc_end"
    "attr d_command_type ex_big_desc_end = Some SCTE35_TIME_SIGNAL_COMMAND"
    "attr d_command_type ex_time_signal = Some SCTE35_TIME_SIGNAL_COMMAND"
    by (simp_all add: ex_big_desc_end_def ex_big_desc_def ex_time_signal_def attr_def)
  have ne: "SCTE35_TIME_SIGNAL_COMMAND \<noteq> SCTE35_INSERT_COMMAND"
    "SCTE35_TIME_SIGNAL_COMMAND \<noteq> SCTE35_NULL_COMMAND"
    by (simp_all add: SCTE35_TIME_SIGNAL_COMMAND_def SCTE35_INSERT_COMMAND_def
        SCTE35_NULL_COMMAND_def)
  have B: "upipe_ts_scte35g_input
     (env0, upipe_ts_scte35g_alloc
        \<lparr>urefs := [ex_time_signal, ex_big_desc, ex_big_desc, ex_big_desc]\<rparr>)
     (Some ex_big_desc_end) = map_sum id drain (upipe_ts_scte35g_time_signal (env0, ?s))"
    by (simp add: upipe_ts_scte35g_input_def upipe_ts_scte35g_flush_def Let_def dd fl ne)
  from t sz w x have C: "time_signal_size 300000 [ex_desc] = 37 \<and>
   time_signal_section env0 (fresh_block env0) 300000 [ex_desc] =
     Inr (env0, time_signal_bytes (fresh_block env0) 300000 [ex_desc]) \<and>
   length (time_signal_bytes (fresh_block env0) 300000 [ex_desc]) = 37 \<and>
   lengths_exact (time_signal_bytes (fresh_block env0) 300000 [ex_desc])
     [0x02, 0x0A, 0x43, 0x55, 0x45, 0x49, 1, 2, 3, 4, 5, 6]"
    by simp
  from A B C show ?thesis by simp
qed

lemma build_null_bytes:
  "flow_def s \<noteq> None \<Longrightarrow> no_alloc_failure e \<Longrightarrow>
   upipe_ts_scte35g_build_null (e, s) =
     (e\<lparr>allocs := tl (tl (allocs e))\<rparr>,
      s\<lparr>scte35_null_section := Some
          [0xFC, 0x30, 0x11, 0, 0, 0, 0, 0, 0, 0, 0xFF, 0xF0, 0, 0, 0, 0, 0x7A, 0x4F, 0xBF, 0xFF]\<rparr>)"
  using null_section_bytes [of "fresh_block e"] by (simp add: build_null_built)

lemma build_null_any:
  "\<exists>e1 ns. upipe_ts_scte35g_build_null (e, s) = (e1, s\<lparr>scte35_null_section := ns\<rparr>) \<and>
     (ns = scte35_null_section s \<or>
      ns = Some [0xFC, 0x30, 0x11, 0, 0, 0, 0, 0, 0, 0, 0xFF, 0xF0, 0, 0, 0, 0,
                 0x7A, 0x4F, 0xBF, 0xFF])"
proof (cases "flow_def s = None")
  case True
  have "upipe_ts_scte35g_build_null (e, s) = (e, s\<lparr>scte35_null_section := scte35_null_section s\<rparr>)"
    using True by (simp add: upipe_ts_scte35g_build_null_def)
  then show ?thesis by blast
next
  case False
  have b: "null_section (fresh_block e) =
      [0xFC, 0x30, 0x11, 0, 0, 0, 0, 0, 0, 0, 0xFF, 0xF0, 0, 0, 0, 0, 0x7A, 0x4F, 0xBF, 0xFF]"
    by (rule null_section_bytes) simp
  have "upipe_ts_scte35g_build_null (e, s) =
      (case alloc e of
         (False, e1) \<Rightarrow> (throw Fatal_alloc e1, s)
       | (True, e1) \<Rightarrow>
           (case alloc e1 of
              (False, e2) \<Rightarrow> (throw Fatal_alloc e2, s)
            | (True, e2) \<Rightarrow>
                (e2, s\<lparr>scte35_null_section := Some (null_section (fresh_block e))\<rparr>)))"
    using False
    by (auto simp: upipe_ts_scte35g_build_null_def block_any_env)
  then consider x where "upipe_ts_scte35g_build_null (e, s) = (x, s)"
    | x where "upipe_ts_scte35g_build_null (e, s) =
        (x, s\<lparr>scte35_null_section := Some (null_section (fresh_block e))\<rparr>)"
    by (auto split: prod.splits bool.splits)
  then show ?thesis
  proof cases
    case 1
    then have "upipe_ts_scte35g_build_null (e, s) =
        (x, s\<lparr>scte35_null_section := scte35_null_section s\<rparr>)"
      by simp
    then show ?thesis by blast
  next
    case 2
    then show ?thesis unfolding b by blast
  qed
qed

text \<open>Claim C10. Flushing an accumulator whose first record has the command type NULL is
  \<^verbatim>\<open>upipe_ts_scte35g_build_null\<close> followed by the draining of the accumulator: no message is
  appended and the date of the last emission is not reset; whatever the allocations do, the
  flush changes nothing in the state but the accumulator, which it empties, and the cached null
  section, which it leaves as it was or replaces by the twenty bytes of the splice\_null
  section. Without an input flow definition the rebuild changes nothing, neither the state nor
  the environment (no event, no allocation). With one, and no allocation failure, the cached
  null section becomes the splice\_null section written into a new block: table id 0xFC, section
  length 17, command length 0, command type 0, descriptor loop length 0 and the CRC.\<close>

theorem flush_null_command:
  assumes "urefs s = uref # rest" and "attr d_command_type uref = Some SCTE35_NULL_COMMAND"
  shows "upipe_ts_scte35g_flush (e, s) = Inr (drain (upipe_ts_scte35g_build_null (e, s))) \<and>
         scte35_sections (snd (drain (upipe_ts_scte35g_build_null (e, s)))) = scte35_sections s \<and>
         scte35_cr_sys (snd (drain (upipe_ts_scte35g_build_null (e, s)))) = scte35_cr_sys s \<and>
         (flow_def s = None \<longrightarrow> upipe_ts_scte35g_build_null (e, s) = (e, s)) \<and>
         (flow_def s \<noteq> None \<and> no_alloc_failure e \<longrightarrow>
            scte35_null_section (snd (upipe_ts_scte35g_build_null (e, s))) =
              Some (null_section (fresh_block e))) \<and>
         (flow_def s = None \<longrightarrow> upipe_ts_scte35g_flush (e, s) = Inr (e, s\<lparr>urefs := []\<rparr>)) \<and>
         (flow_def s \<noteq> None \<and> no_alloc_failure e \<longrightarrow>
            upipe_ts_scte35g_flush (e, s) =
              Inr (e\<lparr>allocs := tl (tl (allocs e))\<rparr>,
                   s\<lparr>urefs := [],
                     scte35_null_section := Some
                       [0xFC, 0x30, 0x11, 0, 0, 0, 0, 0, 0, 0, 0xFF, 0xF0, 0, 0, 0, 0,
                        0x7A, 0x4F, 0xBF, 0xFF]\<rparr>)) \<and>
         (\<exists>e1 ns. upipe_ts_scte35g_flush (e, s) =
                     Inr (e1, s\<lparr>urefs := [], scte35_null_section := ns\<rparr>) \<and>
            (ns = scte35_null_section s \<or>
             ns = Some [0xFC, 0x30, 0x11, 0, 0, 0, 0, 0, 0, 0, 0xFF, 0xF0, 0, 0, 0, 0,
                        0x7A, 0x4F, 0xBF, 0xFF]))"
proof -
  have ne: "SCTE35_NULL_COMMAND \<noteq> SCTE35_INSERT_COMMAND"
    by (simp add: SCTE35_NULL_COMMAND_def SCTE35_INSERT_COMMAND_def)
  have fl: "upipe_ts_scte35g_flush (e, s) = Inr (drain (upipe_ts_scte35g_build_null (e, s)))"
    using assms ne by (simp add: upipe_ts_scte35g_flush_def)
  have fr: "scte35_sections (snd (drain (upipe_ts_scte35g_build_null (e, s)))) =
              scte35_sections s \<and>
            scte35_cr_sys (snd (drain (upipe_ts_scte35g_build_null (e, s)))) = scte35_cr_sys s"
    using build_null_frame [of e s]
    by (cases "upipe_ts_scte35g_build_null (e, s)") (simp add: drain_def)
  have old: "(flow_def s = None \<longrightarrow> upipe_ts_scte35g_build_null (e, s) = (e, s)) \<and>
         (flow_def s \<noteq> None \<and> no_alloc_failure e \<longrightarrow>
            scte35_null_section (snd (upipe_ts_scte35g_build_null (e, s))) =
              Some (null_section (fresh_block e)))"
    using build_null_no_flow_def [of s e] build_null_built [of s e] by simp
  have n: "flow_def s = None \<longrightarrow> upipe_ts_scte35g_flush (e, s) = Inr (e, s\<lparr>urefs := []\<rparr>)"
    using build_null_no_flow_def [of s e] by (simp add: fl drain_def)
  have b: "flow_def s \<noteq> None \<and> no_alloc_failure e \<longrightarrow>
            upipe_ts_scte35g_flush (e, s) =
              Inr (e\<lparr>allocs := tl (tl (allocs e))\<rparr>,
                   s\<lparr>urefs := [],
                     scte35_null_section := Some
                       [0xFC, 0x30, 0x11, 0, 0, 0, 0, 0, 0, 0, 0xFF, 0xF0, 0, 0, 0, 0,
                        0x7A, 0x4F, 0xBF, 0xFF]\<rparr>)"
    using build_null_bytes [of s e] by (auto simp: fl drain_def)
  from build_null_any [of e s] obtain e1 ns where
    bn: "upipe_ts_scte35g_build_null (e, s) = (e1, s\<lparr>scte35_null_section := ns\<rparr>)" and
    ns: "ns = scte35_null_section s \<or>
      ns = Some [0xFC, 0x30, 0x11, 0, 0, 0, 0, 0, 0, 0, 0xFF, 0xF0, 0, 0, 0, 0,
                 0x7A, 0x4F, 0xBF, 0xFF]"
    by blast
  have "upipe_ts_scte35g_flush (e, s) = Inr (e1, s\<lparr>urefs := [], scte35_null_section := ns\<rparr>)"
    by (simp add: fl bn drain_def)
  with ns have a: "\<exists>e1 ns. upipe_ts_scte35g_flush (e, s) =
                     Inr (e1, s\<lparr>urefs := [], scte35_null_section := ns\<rparr>) \<and>
            (ns = scte35_null_section s \<or>
             ns = Some [0xFC, 0x30, 0x11, 0, 0, 0, 0, 0, 0, 0, 0xFF, 0xF0, 0, 0, 0, 0,
                        0x7A, 0x4F, 0xBF, 0xFF])"
    by blast
  from fl fr old n b a show ?thesis by (simp only:) blast
qed

theorem flush_null_command_witness:
  "upipe_ts_scte35g_flush (env0, configured\<lparr>urefs := [fragment 0x00 True True]\<rparr>) =
     Inr (env0, configured\<lparr>scte35_null_section := Some
        [0xFC, 0x30, 0x11, 0, 0, 0, 0, 0, 0, 0, 0xFF, 0xF0, 0, 0, 0, 0, 0x7A, 0x4F, 0xBF, 0xFF]\<rparr>) \<and>
   upipe_ts_scte35g_input (env0, configured) (Some (fragment 0x00 True True)) =
     Inr (env0, configured\<lparr>scte35_null_section := Some
        [0xFC, 0x30, 0x11, 0, 0, 0, 0, 0, 0, 0, 0xFF, 0xF0, 0, 0, 0, 0, 0x7A, 0x4F, 0xBF, 0xFF]\<rparr>) \<and>
   upipe_ts_scte35g_flush (env0, pending1\<lparr>urefs := [fragment 0x00 True True]\<rparr>) =
     Inr (env0, pending1)"
proof -
  have u: "urefs (x\<lparr>urefs := [fragment 0x00 True True]\<rparr>) = fragment 0x00 True True # []" for x
    by simp
  have a: "attr d_command_type (fragment 0x00 True True) = Some SCTE35_NULL_COMMAND"
    by (simp add: attr_def fragment_def SCTE35_NULL_COMMAND_def)
  have f: "flow_def (pending1\<lparr>urefs := [fragment 0x00 True True]\<rparr>) = None"
    "flow_def (configured\<lparr>urefs := [fragment 0x00 True True]\<rparr>) \<noteq> None"
    by (simp_all add: pending1_def configured_def upipe_ts_scte35g_alloc_def)
  have p: "urefs pending1 = []" "urefs configured = []"
    by (simp_all add: pending1_def configured_def upipe_ts_scte35g_alloc_def)
  let ?c = "configured\<lparr>urefs := [fragment 0x00 True True]\<rparr>"
  from flush_null_command [OF u [of configured] a, of env0]
  have "flow_def ?c \<noteq> None \<and> no_alloc_failure env0 \<longrightarrow>
      upipe_ts_scte35g_flush (env0, ?c) =
        Inr (env0\<lparr>allocs := tl (tl (allocs env0))\<rparr>,
             ?c\<lparr>urefs := [],
                scte35_null_section := Some
                  [0xFC, 0x30, 0x11, 0, 0, 0, 0, 0, 0, 0, 0xFF, 0xF0, 0, 0, 0, 0,
                   0x7A, 0x4F, 0xBF, 0xFF]\<rparr>)"
    by blast
  with f(2) no_alloc_failure_env0
  have "upipe_ts_scte35g_flush (env0, ?c) =
        Inr (env0\<lparr>allocs := tl (tl (allocs env0))\<rparr>,
             ?c\<lparr>urefs := [],
                scte35_null_section := Some
                  [0xFC, 0x30, 0x11, 0, 0, 0, 0, 0, 0, 0, 0xFF, 0xF0, 0, 0, 0, 0,
                   0x7A, 0x4F, 0xBF, 0xFF]\<rparr>)"
    by blast
  then have A: "upipe_ts_scte35g_flush (env0, configured\<lparr>urefs := [fragment 0x00 True True]\<rparr>) =
     Inr (env0, configured\<lparr>scte35_null_section := Some
        [0xFC, 0x30, 0x11, 0, 0, 0, 0, 0, 0, 0, 0xFF, 0xF0, 0, 0, 0, 0, 0x7A, 0x4F, 0xBF, 0xFF]\<rparr>)"
    by (simp add: env0_def configured_def upipe_ts_scte35g_alloc_def)
  obtain d where dd: "u_udict (fragment 0x00 True True) = Some d"
    by (simp add: fragment_def)
  have st: "u_start (fragment 0x00 True True)" "u_end (fragment 0x00 True True)"
    by (simp_all add: fragment_def)
  have B: "upipe_ts_scte35g_input (env0, configured) (Some (fragment 0x00 True True)) =
      upipe_ts_scte35g_flush (env0, configured\<lparr>urefs := [fragment 0x00 True True]\<rparr>)"
    by (simp add: upipe_ts_scte35g_input_def Let_def dd a st p)
  from flush_null_command [OF u [of pending1] a, of env0]
  have "flow_def (pending1\<lparr>urefs := [fragment 0x00 True True]\<rparr>) = None \<longrightarrow>
      upipe_ts_scte35g_flush (env0, pending1\<lparr>urefs := [fragment 0x00 True True]\<rparr>) =
        Inr (env0, pending1\<lparr>urefs := [fragment 0x00 True True]\<rparr>\<lparr>urefs := []\<rparr>)"
    by blast
  with f(1) p(1)
  have C: "upipe_ts_scte35g_flush (env0, pending1\<lparr>urefs := [fragment 0x00 True True]\<rparr>) =
     Inr (env0, pending1)"
    by simp
  from A B C show ?thesis by simp
qed

lemma alloc_chain_events: "events (snd (alloc_chain n e)) = events e"
proof (induction n arbitrary: e)
  case 0
  then show ?case by simp
next
  case (Suc n)
  show ?case
  proof (cases "allocs e")
    case Nil
    with Suc [of e] show ?thesis by (simp add: alloc_def)
  next
    case (Cons b bs)
    with Suc [of "e\<lparr>allocs := bs\<rparr>"] show ?thesis by (cases b) (simp_all add: alloc_def)
  qed
qed

lemma build_null_cases:
  "(\<exists>e1. upipe_ts_scte35g_build_null (e, s) =
           (e1, s\<lparr>scte35_null_section := Some
              [0xFC, 0x30, 0x11, 0, 0, 0, 0, 0, 0, 0, 0xFF, 0xF0, 0, 0, 0, 0,
               0x7A, 0x4F, 0xBF, 0xFF]\<rparr>) \<and>
         events e1 = events e) \<or>
   (\<exists>e1. upipe_ts_scte35g_build_null (e, s) = (e1, s) \<and>
         (flow_def s \<noteq> None \<longrightarrow> events e1 = events e @ [Fatal_alloc]))"
proof (cases "flow_def s = None")
  case True
  then show ?thesis by (simp add: upipe_ts_scte35g_build_null_def)
next
  case False
  have nb: "null_section (fresh_block e) =
      [0xFC, 0x30, 0x11, 0, 0, 0, 0, 0, 0, 0, 0xFF, 0xF0, 0, 0, 0, 0, 0x7A, 0x4F, 0xBF, 0xFF]"
    by (rule null_section_bytes) simp
  have "upipe_ts_scte35g_build_null (e, s) =
      (case alloc e of
         (False, x) \<Rightarrow> (throw Fatal_alloc x, s)
       | (True, x) \<Rightarrow>
           (case alloc x of
              (False, y) \<Rightarrow> (throw Fatal_alloc y, s)
            | (True, y) \<Rightarrow>
                (y, s\<lparr>scte35_null_section := Some (null_section (fresh_block e))\<rparr>)))"
    using False by (auto simp: upipe_ts_scte35g_build_null_def block_any_env)
  then show ?thesis
    unfolding nb using False
    by (auto simp: alloc_def throw_def split: list.splits bool.splits)
qed

text \<open>Claim C7, amended. A \<^verbatim>\<open>SET_FLOW_DEF\<close> with a flow definition that matches
  \<^verbatim>\<open>void.scte35.\<close> builds the null section, and republishes the output flow definition when the
  interval is not zero, only when the pipe holds no input flow definition yet (the first set),
  and does so when no allocation fails: the null section is then the twenty bytes of the
  splice\_null section. With an allocation that fails during the first set, the null section
  is either built or left as it was with a fatal error thrown. When the pipe already holds a
  flow definition, the new one replaces it, and the null section and the output flow definition
  are left as they are: no new flow definition is announced.\<close>

theorem set_flow_def_first_only:
  assumes "uref_flow_match_def f ''void.scte35.''"
  shows "(flow_def s = None \<and> no_alloc_failure e \<longrightarrow>
           (\<exists>e' s'. upipe_ts_scte35g_set_flow_def (e, s) (Some f) = (UBASE_ERR_NONE, (e', s')) \<and>
              flow_def s' = Some f \<and>
              scte35_null_section s' = Some (null_section (fresh_block e)) \<and>
              scte35_null_section s' = Some
                [0xFC, 0x30, 0x11, 0, 0, 0, 0, 0, 0, 0, 0xFF, 0xF0, 0, 0, 0, 0,
                 0x7A, 0x4F, 0xBF, 0xFF] \<and>
              (scte35_interval s \<noteq> 0 \<longrightarrow>
                 events e' = events e @ [New_flow_def] \<and>
                 map_option o_psi_section_interval (output_flow_def s') = Some (scte35_interval s)))) \<and>
         (flow_def s = None \<longrightarrow>
           (\<exists>r e' s'. upipe_ts_scte35g_set_flow_def (e, s) (Some f) = (r, (e', s')) \<and>
              (r = UBASE_ERR_NONE \<longrightarrow> flow_def s' = Some f) \<and>
              (scte35_null_section s' = Some
                 [0xFC, 0x30, 0x11, 0, 0, 0, 0, 0, 0, 0, 0xFF, 0xF0, 0, 0, 0, 0,
                  0x7A, 0x4F, 0xBF, 0xFF] \<or>
               scte35_null_section s' = scte35_null_section s \<and>
               Fatal_alloc \<in> set (drop (length (events e)) (events e'))))) \<and>
         (flow_def s \<noteq> None \<longrightarrow>
           (\<exists>r e' s'. upipe_ts_scte35g_set_flow_def (e, s) (Some f) = (r, (e', s')) \<and>
              scte35_null_section s' = scte35_null_section s \<and>
              output_flow_def s' = output_flow_def s \<and>
              New_flow_def \<notin> set (drop (length (events e)) (events e')) \<and>
              (no_alloc_failure e \<longrightarrow> r = UBASE_ERR_NONE \<and> flow_def s' = Some f \<and> events e' = events e)))"
proof (intro conjI impI)
  assume a: "flow_def s = None \<and> no_alloc_failure e"
  let ?e1 = "e\<lparr>allocs := tl (allocs e)\<rparr>"
  let ?s1 = "s\<lparr>flow_def := Some f\<rparr>"
  have ok1: "no_alloc_failure ?e1" using a no_alloc_failure_tl by blast
  have nb0: "null_section (fresh_block e) =
      [0xFC, 0x30, 0x11, 0, 0, 0, 0, 0, 0, 0, 0xFF, 0xF0, 0, 0, 0, 0, 0x7A, 0x4F, 0xBF, 0xFF]"
    by (rule null_section_bytes) simp
  have bn: "upipe_ts_scte35g_build_null (?e1, ?s1) =
     (?e1\<lparr>allocs := tl (tl (allocs ?e1))\<rparr>,
      ?s1\<lparr>scte35_null_section := Some (null_section (fresh_block e))\<rparr>)"
    using build_null_built [of ?s1 ?e1] ok1 by (simp add: fresh_block_def)
  have ok2: "no_alloc_failure (?e1\<lparr>allocs := tl (tl (allocs ?e1))\<rparr>)"
    using no_alloc_failure_tl2 [OF ok1] .
  have "\<exists>e' s'. upipe_ts_scte35g_set_flow_def (e, s) (Some f) = (UBASE_ERR_NONE, (e', s')) \<and>
              flow_def s' = Some f \<and>
              scte35_null_section s' = Some (null_section (fresh_block e)) \<and>
              (scte35_interval s \<noteq> 0 \<longrightarrow>
                 events e' = events e @ [New_flow_def] \<and>
                 map_option o_psi_section_interval (output_flow_def s') = Some (scte35_interval s))"
  proof (cases "scte35_interval s = 0")
    case True
    then show ?thesis using a assms bn
      by (simp add: upipe_ts_scte35g_set_flow_def_def alloc_ok upipe_ts_scte35g_build_flow_def_def)
  next
    case False
    then show ?thesis using a assms bn ok2
      by (simp add: upipe_ts_scte35g_set_flow_def_def alloc_ok build_flow_def_ok)
  qed
  then show "\<exists>e' s'. upipe_ts_scte35g_set_flow_def (e, s) (Some f) = (UBASE_ERR_NONE, (e', s')) \<and>
              flow_def s' = Some f \<and>
              scte35_null_section s' = Some (null_section (fresh_block e)) \<and>
              scte35_null_section s' = Some
                [0xFC, 0x30, 0x11, 0, 0, 0, 0, 0, 0, 0, 0xFF, 0xF0, 0, 0, 0, 0,
                 0x7A, 0x4F, 0xBF, 0xFF] \<and>
              (scte35_interval s \<noteq> 0 \<longrightarrow>
                 events e' = events e @ [New_flow_def] \<and>
                 map_option o_psi_section_interval (output_flow_def s') = Some (scte35_interval s))"
    unfolding nb0 by blast
next
  assume a: "flow_def s = None"
  let ?B = "[0xFC, 0x30, 0x11, 0, 0, 0, 0, 0, 0, 0, 0xFF, 0xF0, 0, 0, 0, 0, 0x7A, 0x4F, 0xBF, 0xFF]
    :: u8 list"
  obtain b1 e1 where a1: "alloc e = (b1, e1)" by (cases "alloc e")
  have ev1: "events e1 = events e"
    using a1 by (auto simp: alloc_def split: list.splits)
  show "\<exists>r e' s'. upipe_ts_scte35g_set_flow_def (e, s) (Some f) = (r, (e', s')) \<and>
              (r = UBASE_ERR_NONE \<longrightarrow> flow_def s' = Some f) \<and>
              (scte35_null_section s' = Some ?B \<or>
               scte35_null_section s' = scte35_null_section s \<and>
               Fatal_alloc \<in> set (drop (length (events e)) (events e')))"
  proof (cases b1)
    case False
    with a1 assms ev1 show ?thesis
      by (simp add: upipe_ts_scte35g_set_flow_def_def throw_def)
  next
    case True
    let ?s1 = "s\<lparr>flow_def := Some f\<rparr>"
    have fd: "flow_def ?s1 \<noteq> None" by simp
    from build_null_cases [of e1 ?s1] fd
    consider e2 where
        "upipe_ts_scte35g_build_null (e1, ?s1) = (e2, ?s1\<lparr>scte35_null_section := Some ?B\<rparr>)"
      | e2 where "upipe_ts_scte35g_build_null (e1, ?s1) = (e2, ?s1)"
          "events e2 = events e1 @ [Fatal_alloc]"
      by blast
    then show ?thesis
    proof cases
      case 1
      obtain e3 s3 where
        bf: "upipe_ts_scte35g_build_flow_def (e2, ?s1\<lparr>scte35_null_section := Some ?B\<rparr>) =
               (e3, s3)"
        by (cases "upipe_ts_scte35g_build_flow_def (e2, ?s1\<lparr>scte35_null_section := Some ?B\<rparr>)")
      from build_flow_def_frame [of e2 "?s1\<lparr>scte35_null_section := Some ?B\<rparr>"] bf
      have fr: "flow_def s3 = Some f" "scte35_null_section s3 = Some ?B" by simp_all
      have run: "upipe_ts_scte35g_set_flow_def (e, s) (Some f) = (UBASE_ERR_NONE, (e3, s3))"
        using a a1 True assms 1 bf by (simp add: upipe_ts_scte35g_set_flow_def_def)
      from run fr show ?thesis by simp
    next
      case 2
      obtain e3 s3 where bf: "upipe_ts_scte35g_build_flow_def (e2, ?s1) = (e3, s3)"
        by (cases "upipe_ts_scte35g_build_flow_def (e2, ?s1)")
      from build_flow_def_frame [of e2 ?s1] bf
      have fr: "flow_def s3 = Some f" "scte35_null_section s3 = scte35_null_section s"
        by simp_all
      have run: "upipe_ts_scte35g_set_flow_def (e, s) (Some f) = (UBASE_ERR_NONE, (e3, s3))"
        using a a1 True assms 2 bf by (simp add: upipe_ts_scte35g_set_flow_def_def)
      have mono: "\<exists>xs. events e3 = events e2 @ xs"
        using bf alloc_chain_events [of 5 e2]
        by (cases "alloc_chain 5 e2")
          (auto simp: upipe_ts_scte35g_build_flow_def_def throw_def
            split: bool.splits if_splits)
      then obtain xs where "events e3 = events e @ Fatal_alloc # xs"
        using 2(2) ev1 by auto
      then have "Fatal_alloc \<in> set (drop (length (events e)) (events e3))" by simp
      with run fr show ?thesis by simp
    qed
  qed
next
  assume a: "flow_def s \<noteq> None"
  show "\<exists>r e' s'. upipe_ts_scte35g_set_flow_def (e, s) (Some f) = (r, (e', s')) \<and>
              scte35_null_section s' = scte35_null_section s \<and>
              output_flow_def s' = output_flow_def s \<and>
              New_flow_def \<notin> set (drop (length (events e)) (events e')) \<and>
              (no_alloc_failure e \<longrightarrow> r = UBASE_ERR_NONE \<and> flow_def s' = Some f \<and> events e' = events e)"
    using a assms
    by (cases "allocs e")
      (auto simp: upipe_ts_scte35g_set_flow_def_def alloc_def throw_def no_alloc_failure_def
        split: prod.splits bool.splits)
qed

lemma alloc_chain_nil: "allocs e = [] \<Longrightarrow> alloc_chain n e = (True, e)"
  by (induction n) (simp_all add: alloc_def)

text \<open>Claim C7, as stated, has the null section regenerated, and the output flow definition
  republished, at every change of the input flow definition. In this run a first
  \<^verbatim>\<open>SET_FLOW_DEF\<close> stores the flow definition while the allocation of the block fails, the
  interval is set, and a second \<^verbatim>\<open>SET_FLOW_DEF\<close> changes the flow definition: the pipe still
  has no null section, and no flow definition is announced after the one of the interval.\<close>

theorem set_flow_def_again_no_rebuild:
  "snd (upipe_ts_scte35g_set_flow_def
          (upipe_ts_scte35g_set_scte35_interval
             (snd (upipe_ts_scte35g_set_flow_def
                     (env0\<lparr>allocs := [True, False]\<rparr>, upipe_ts_scte35g_alloc)
                     (Some (flow_def_uref ''void.scte35.''))))
             1350000)
          (Some (flow_def_uref ''void.scte35.pic.''))) =
     (env0\<lparr>events := [Fatal_alloc, New_flow_def]\<rparr>,
      upipe_ts_scte35g_alloc
        \<lparr>flow_def := Some (flow_def_uref ''void.scte35.pic.''),
         output_flow_def := Some \<lparr>o_def = ''block.mpegtspsi.mpegtsscte35.'',
            o_psi_section_interval = 1350000, o_octetrate = 3660, o_tb_rate = 125000\<rparr>,
         scte35_interval := 1350000,
         scte35_null_section := None\<rparr>)"
proof -
  have m: "uref_flow_match_def (flow_def_uref ''void.scte35.'') ''void.scte35.''"
    "uref_flow_match_def (flow_def_uref ''void.scte35.pic.'') ''void.scte35.''"
    by (simp_all add: uref_flow_match_def_def flow_def_uref_def attr_def udict0_def)
  have s1: "snd (upipe_ts_scte35g_set_flow_def
                     (env0\<lparr>allocs := [True, False]\<rparr>, upipe_ts_scte35g_alloc)
                     (Some (flow_def_uref ''void.scte35.''))) =
      (env0\<lparr>events := [Fatal_alloc]\<rparr>,
       upipe_ts_scte35g_alloc\<lparr>flow_def := Some (flow_def_uref ''void.scte35.'')\<rparr>)"
    using m(1)
    by (simp add: upipe_ts_scte35g_set_flow_def_def upipe_ts_scte35g_build_flow_def_def
        upipe_ts_scte35g_build_null_def ubuf_block_alloc_def env0_def alloc_def throw_def
        upipe_ts_scte35g_alloc_def)
  have s2: "upipe_ts_scte35g_set_scte35_interval
      (env0\<lparr>events := [Fatal_alloc]\<rparr>,
       upipe_ts_scte35g_alloc\<lparr>flow_def := Some (flow_def_uref ''void.scte35.'')\<rparr>) 1350000 =
      (env0\<lparr>events := [Fatal_alloc, New_flow_def]\<rparr>,
       upipe_ts_scte35g_alloc
        \<lparr>flow_def := Some (flow_def_uref ''void.scte35.''),
         output_flow_def := Some \<lparr>o_def = ''block.mpegtspsi.mpegtsscte35.'',
            o_psi_section_interval = 1350000, o_octetrate = 3660, o_tb_rate = 125000\<rparr>,
         scte35_interval := 1350000\<rparr>)"
    by (simp add: upipe_ts_scte35g_set_scte35_interval_def upipe_ts_scte35g_build_flow_def_def
        alloc_chain_nil env0_def throw_def upipe_ts_scte35g_alloc_def TS_SIZE_def
        TS_HEADER_SIZE_def UCLOCK_FREQ_def TB_RATE_PSI_def)
  show ?thesis
    unfolding s1 s2 using m(2)
    by (simp add: upipe_ts_scte35g_set_flow_def_def env0_def alloc_def
        upipe_ts_scte35g_alloc_def)
qed

theorem set_flow_def_first_only_witness:
  "uref_flow_match_def (flow_def_uref ''void.scte35.'') ''void.scte35.'' \<and>
   flow_def upipe_ts_scte35g_alloc = None \<and> no_alloc_failure env0 \<and>
   (\<exists>e' s'. upipe_ts_scte35g_set_flow_def (env0, upipe_ts_scte35g_alloc)
               (Some (flow_def_uref ''void.scte35.'')) = (UBASE_ERR_NONE, (e', s')) \<and>
            flow_def s' = Some (flow_def_uref ''void.scte35.'') \<and>
            scte35_null_section s' = Some (null_section (fresh_block env0)) \<and>
            scte35_null_section s' = Some
              [0xFC, 0x30, 0x11, 0, 0, 0, 0, 0, 0, 0, 0xFF, 0xF0, 0, 0, 0, 0,
               0x7A, 0x4F, 0xBF, 0xFF]) \<and>
   flow_def pending2 \<noteq> None \<and>
   (\<exists>r e' s'. upipe_ts_scte35g_set_flow_def (env0, pending2)
               (Some (flow_def_uref ''void.scte35.'')) = (r, (e', s')) \<and>
            scte35_null_section s' = scte35_null_section pending2 \<and>
            output_flow_def s' = output_flow_def pending2 \<and> events e' = events env0)"
proof -
  have m: "uref_flow_match_def (flow_def_uref ''void.scte35.'') ''void.scte35.''"
    by (simp add: uref_flow_match_def_def flow_def_uref_def attr_def udict0_def)
  have n: "flow_def upipe_ts_scte35g_alloc = None" "flow_def pending2 \<noteq> None"
    by (simp_all add: upipe_ts_scte35g_alloc_def pending2_def)
  from set_flow_def_first_only [OF m, of upipe_ts_scte35g_alloc env0]
    set_flow_def_first_only [OF m, of pending2 env0] m n no_alloc_failure_env0
  show ?thesis by (simp del: not_None_eq) blast
qed

text \<open>Claim C4, as stated, gives every event whose program date is present a scheduled form
  with the 33-bit date in it. The splice\_insert whose program date is \<open>2^64 - 1\<close> gets no
  scheduled form, since that value is what the code reads as an absent date; and the scheduled
  form of the cancelled splice\_insert, whose program date is 9000000, has no
  \<^verbatim>\<open>splice_time()\<close>.\<close>

theorem scheduled_form_without_pts_time:
  "u_pts_prog ex_insert_max = Some UINT64_MAX \<and>
   (case upipe_ts_scte35g_input_insert (env0, upipe_ts_scte35g_alloc\<lparr>urefs := [ex_insert_max]\<rparr>) of
      Inl f \<Rightarrow> False
    | Inr (e, s) \<Rightarrow> map m_ubuf (scte35_sections s) = [None]) \<and>
   u_pts_prog ex_insert_cancel = Some 9000000 \<and>
   (case upipe_ts_scte35g_input_insert
           (env0, upipe_ts_scte35g_alloc\<lparr>urefs := [ex_insert_cancel]\<rparr>) of
      Inl f \<Rightarrow> False
    | Inr (e, s) \<Rightarrow>
        map (map_option decode_pts_time \<circ> m_ubuf) (scte35_sections s) = [Some None])"
proof -
  have l: "length (fresh_block env0) = 1024" by simp
  have a: "urefs (upipe_ts_scte35g_alloc\<lparr>urefs := [u]\<rparr>) = u # []" for u by simp
  show ?thesis
    by (simp add: input_insert_ok [OF no_alloc_failure_env0 a] insert_decode_pts_time [OF l])
      (simp add: ex_insert_max_def ex_insert_def ex_insert_cancel_def get_or_def flag_def
        udict0_def UINT64_MAX_def upipe_ts_scte35g_alloc_def)
qed

text \<open>Claim C4, amended. With no allocation failure, a splice\_insert, and a time\_signal whose
  section fits the block, gets a scheduled form exactly when its program date \<open>p\<close> is present
  and is not \<open>2^64 - 1\<close>. That scheduled form carries the date \<open>(p div 300) mod 2^33\<close>, 300 being
  \<open>CLOCK_SCALE\<close>, but for a cancelled splice\_insert, which has no \<^verbatim>\<open>splice_time()\<close>. The
  \<^verbatim>\<open>break_duration()\<close> of a splice\_insert that is not cancelled, whose duration \<open>d\<close> is present
  and is not \<open>2^64 - 1\<close>, carries the auto return flag and \<open>(d div 300) mod 2^33\<close>, in the
  immediate form and in the scheduled form when there is one; a splice\_insert that is
  cancelled, or whose duration is absent or \<open>2^64 - 1\<close>, has no \<^verbatim>\<open>break_duration()\<close>.\<close>

theorem scheduled_pts_time_wraps:
  assumes "no_alloc_failure e" and "urefs s = uref # rest"
  shows "CLOCK_SCALE = 300 \<and> POW2_33 = 2 ^ 33 \<and>
    (\<exists>e1 s1 msg imm.
        upipe_ts_scte35g_input_insert (e, s) = Inr (e1, s1) \<and>
        scte35_sections s1 = scte35_sections s @ [msg] \<and>
        m_immediate msg = Some imm \<and>
        decode_pts_time imm = None \<and>
        decode_break_duration imm =
          (case attr d_duration uref of
             None \<Rightarrow> None
           | Some d \<Rightarrow>
               if flag d_cancel uref \<or> d = UINT64_MAX then None
               else Some (flag d_auto_return uref, (d div 300) mod 2 ^ 33)) \<and>
        (case u_pts_prog uref of
           None \<Rightarrow> m_ubuf msg = None
         | Some p \<Rightarrow>
             if p = UINT64_MAX then m_ubuf msg = None
             else (\<exists>sec. m_ubuf msg = Some sec \<and>
                     decode_pts_time sec =
                       (if flag d_cancel uref then None else Some ((p div 300) mod 2 ^ 33)) \<and>
                     decode_break_duration sec =
                       (case attr d_duration uref of
                          None \<Rightarrow> None
                        | Some d \<Rightarrow>
                            if flag d_cancel uref \<or> d = UINT64_MAX then None
                            else Some (flag d_auto_return uref, (d div 300) mod 2 ^ 33))))) \<and>
    (time_signal_size (get_or (u_pts_prog uref) UINT64_MAX) rest \<le> 1024 \<longrightarrow>
       (\<exists>e1 s1 msg.
          upipe_ts_scte35g_time_signal (e, s) = Inr (e1, s1) \<and>
          scte35_sections s1 = scte35_sections s @ [msg] \<and>
          (case u_pts_prog uref of
             None \<Rightarrow> m_ubuf msg = None
           | Some p \<Rightarrow>
               if p = UINT64_MAX then m_ubuf msg = None
               else (\<exists>sec. m_ubuf msg = Some sec \<and>
                       decode_pts_time sec = Some ((p div 300) mod 2 ^ 33)))))"
proof -
  let ?P = "get_or (u_pts_prog uref) UINT64_MAX"
  let ?D = "get_or (attr d_duration uref) UINT64_MAX"
  let ?BD = "case attr d_duration uref of
             None \<Rightarrow> None
           | Some d \<Rightarrow>
               if flag d_cancel uref \<or> d = UINT64_MAX then None
               else Some (flag d_auto_return uref, (d div 300) mod 2 ^ 33)"
  have l: "length (fresh_block e) = 1024" by simp
  have c: "CLOCK_SCALE = 300" by (rule clock_scale_300)
  have w: "POW2_33 = 2 ^ 33" by (simp add: POW2_33_def)
  have bd: "(if flag d_cancel uref \<or> ?D = UINT64_MAX then None
             else Some (flag d_auto_return uref, (?D div CLOCK_SCALE) mod POW2_33)) = ?BD"
    by (simp add: get_or_def c w split: option.splits)
  let ?imm = "insert_section (fresh_block e) (flag d_cancel uref)
      (get_or (attr d_event_id uref) 0) (flag d_out_of_network uref) (flag d_auto_return uref)
      (get_or (attr d_unique_program_id uref) 0) UINT64_MAX ?D"
  let ?sec = "insert_section (fresh_block e) (flag d_cancel uref)
      (get_or (attr d_event_id uref) 0) (flag d_out_of_network uref) (flag d_auto_return uref)
      (get_or (attr d_unique_program_id uref) 0) ?P ?D"
  let ?msg = "\<lparr>m_ubuf = (if ?P \<noteq> UINT64_MAX then Some ?sec else None),
      m_immediate = Some ?imm, m_cr_sys = get_or (u_pts_sys uref) 0\<rparr>"
  have i1: "decode_pts_time ?imm = None" "decode_break_duration ?imm = ?BD"
    by (simp_all add: insert_decode_pts_time [OF l] insert_decode_break_duration [OF l] bd)
  have i2: "decode_pts_time ?sec =
      (if flag d_cancel uref \<or> ?P = UINT64_MAX then None else Some ((?P div 300) mod 2 ^ 33))"
    "decode_break_duration ?sec = ?BD"
    by (simp_all add: insert_decode_pts_time [OF l] insert_decode_break_duration [OF l] bd c w)
  have i3: "case u_pts_prog uref of
           None \<Rightarrow> m_ubuf ?msg = None
         | Some p \<Rightarrow>
             if p = UINT64_MAX then m_ubuf ?msg = None
             else (\<exists>sec. m_ubuf ?msg = Some sec \<and>
                     decode_pts_time sec =
                       (if flag d_cancel uref then None else Some ((p div 300) mod 2 ^ 33)) \<and>
                     decode_break_duration sec = ?BD)"
  proof (cases "u_pts_prog uref")
    case None
    then show ?thesis by (simp add: get_or_def)
  next
    case (Some p)
    then have g: "?P = p" by (simp add: get_or_def)
    show ?thesis
    proof (cases "p = UINT64_MAX")
      case True
      with Some g show ?thesis by simp
    next
      case False
      with Some i2 show ?thesis unfolding g by simp
    qed
  qed
  have "\<exists>e1 s1. upipe_ts_scte35g_input_insert (e, s) = Inr (e1, s1) \<and>
      scte35_sections s1 = scte35_sections s @ [?msg]"
    by (simp add: input_insert_ok [OF assms])
  then obtain e1 s1 where r: "upipe_ts_scte35g_input_insert (e, s) = Inr (e1, s1)"
    "scte35_sections s1 = scte35_sections s @ [?msg]"
    by blast
  have "upipe_ts_scte35g_input_insert (e, s) = Inr (e1, s1) \<and>
        scte35_sections s1 = scte35_sections s @ [?msg] \<and>
        m_immediate ?msg = Some ?imm \<and>
        decode_pts_time ?imm = None \<and>
        decode_break_duration ?imm = ?BD \<and>
        (case u_pts_prog uref of
           None \<Rightarrow> m_ubuf ?msg = None
         | Some p \<Rightarrow>
             if p = UINT64_MAX then m_ubuf ?msg = None
             else (\<exists>sec. m_ubuf ?msg = Some sec \<and>
                     decode_pts_time sec =
                       (if flag d_cancel uref then None else Some ((p div 300) mod 2 ^ 33)) \<and>
                     decode_break_duration sec = ?BD))"
    using r i1 i3 by simp
  then have i: "\<exists>e1 s1 msg imm.
        upipe_ts_scte35g_input_insert (e, s) = Inr (e1, s1) \<and>
        scte35_sections s1 = scte35_sections s @ [msg] \<and>
        m_immediate msg = Some imm \<and>
        decode_pts_time imm = None \<and>
        decode_break_duration imm = ?BD \<and>
        (case u_pts_prog uref of
           None \<Rightarrow> m_ubuf msg = None
         | Some p \<Rightarrow>
             if p = UINT64_MAX then m_ubuf msg = None
             else (\<exists>sec. m_ubuf msg = Some sec \<and>
                     decode_pts_time sec =
                       (if flag d_cancel uref then None else Some ((p div 300) mod 2 ^ 33)) \<and>
                     decode_break_duration sec = ?BD))"
    by blast
  have t: "\<exists>e1 s1 msg.
          upipe_ts_scte35g_time_signal (e, s) = Inr (e1, s1) \<and>
          scte35_sections s1 = scte35_sections s @ [msg] \<and>
          (case u_pts_prog uref of
             None \<Rightarrow> m_ubuf msg = None
           | Some p \<Rightarrow>
               if p = UINT64_MAX then m_ubuf msg = None
               else (\<exists>sec. m_ubuf msg = Some sec \<and>
                       decode_pts_time sec = Some ((p div 300) mod 2 ^ 33)))"
    if fit: "time_signal_size ?P rest \<le> 1024"
  proof -
    let ?b = "time_signal_bytes (fresh_block e) ((?P div CLOCK_SCALE) mod POW2_33) rest"
    let ?m = "\<lparr>m_ubuf = (if ?P \<noteq> UINT64_MAX then Some ?b else None),
               m_immediate =
                 Some (time_signal_bytes (fresh_block e)
                   (if ?P \<noteq> UINT64_MAX then (?P div CLOCK_SCALE) mod POW2_33
                    else UINT64_MAX) rest),
               m_cr_sys = get_or (u_pts_sys uref) 0\<rparr>"
    from time_signal_ok [OF assms fit] obtain e1 s1 where
      r: "upipe_ts_scte35g_time_signal (e, s) = Inr (e1, s1)"
        "scte35_sections s1 = scte35_sections s @ [?m]"
      by force
    have d: "?P \<noteq> UINT64_MAX \<Longrightarrow> decode_pts_time ?b = Some ((?P div 300) mod 2 ^ 33)"
      using time_signal_bytes_facts(2) [OF fit, of e] by (simp add: c w)
    have k: "case u_pts_prog uref of
             None \<Rightarrow> m_ubuf ?m = None
           | Some p \<Rightarrow>
               if p = UINT64_MAX then m_ubuf ?m = None
               else (\<exists>sec. m_ubuf ?m = Some sec \<and>
                       decode_pts_time sec = Some ((p div 300) mod 2 ^ 33))"
    proof (cases "u_pts_prog uref")
      case None
      then show ?thesis by (simp add: get_or_def)
    next
      case (Some p)
      then have g: "?P = p" by (simp add: get_or_def)
      show ?thesis
      proof (cases "p = UINT64_MAX")
        case True
        with Some g show ?thesis by simp
      next
        case False
        with Some d show ?thesis unfolding g by simp
      qed
    qed
    from r k show ?thesis by blast
  qed
  from c w i t show ?thesis by blast
qed

theorem scheduled_pts_time_wraps_witness:
  "(case upipe_ts_scte35g_input_insert (env0, upipe_ts_scte35g_alloc\<lparr>urefs := [ex_insert]\<rparr>) of
      Inl f \<Rightarrow> False
    | Inr (e, s) \<Rightarrow>
        map (map_option decode_pts_time \<circ> m_ubuf) (scte35_sections s) = [Some (Some 30000)] \<and>
        map (map_option decode_break_duration \<circ> m_ubuf) (scte35_sections s) =
          [Some (Some (True, 9000))] \<and>
        map (map_option decode_break_duration \<circ> m_immediate) (scte35_sections s) =
          [Some (Some (True, 9000))]) \<and>
   (case upipe_ts_scte35g_input_insert
           (env0, upipe_ts_scte35g_alloc\<lparr>urefs := [ex_insert_now]\<rparr>) of
      Inl f \<Rightarrow> False
    | Inr (e, s) \<Rightarrow>
        map m_ubuf (scte35_sections s) = [None] \<and>
        map (map_option decode_break_duration \<circ> m_immediate) (scte35_sections s) =
          [Some (Some (True, 9000))]) \<and>
   (case upipe_ts_scte35g_time_signal
           (env0, upipe_ts_scte35g_alloc\<lparr>urefs := [ex_time_signal, ex_desc]\<rparr>) of
      Inl f \<Rightarrow> False
    | Inr (e, s) \<Rightarrow>
        map (map_option decode_pts_time \<circ> m_ubuf) (scte35_sections s) = [Some (Some 300000)])"
proof -
  have x: "exported [ex_desc] = [[0x02, 0x0A, 0x43, 0x55, 0x45, 0x49, 1, 2, 3, 4, 5, 6]]"
    by (simp add: exported_Cons upipe_ts_scte_export_desc_def attr_def ex_desc_def udict0_def)
  have sz: "time_signal_size (get_or (u_pts_prog ex_time_signal) UINT64_MAX) [ex_desc] \<le> 1024"
    by (simp add: time_signal_size_def x SCTE35_HEADER_SIZE_def
        SCTE35_HEADER2_SIZE_def PSI_HEADER_SIZE_def PSI_CRC_SIZE_def)
  have a: "urefs (upipe_ts_scte35g_alloc\<lparr>urefs := u # us\<rparr>) = u # us" for u us by simp
  have i: "u_pts_prog ex_insert = Some 9000000" "(9000000::u64) \<noteq> UINT64_MAX"
    "flag d_cancel ex_insert = False" "attr d_duration ex_insert = Some 2700000"
    "flag d_auto_return ex_insert = True" "(2700000::u64) \<noteq> UINT64_MAX"
    by (simp_all add: ex_insert_def flag_def attr_def udict0_def UINT64_MAX_def)
  have n: "u_pts_prog ex_insert_now = None"
    "flag d_cancel ex_insert_now = False" "attr d_duration ex_insert_now = Some 2700000"
    "flag d_auto_return ex_insert_now = True"
    by (simp_all add: ex_insert_now_def ex_insert_def flag_def attr_def udict0_def)
  have t: "u_pts_prog ex_time_signal = Some 90000000" "(90000000::u64) \<noteq> UINT64_MAX"
    by (simp_all add: ex_time_signal_def UINT64_MAX_def)
  from scheduled_pts_time_wraps [OF no_alloc_failure_env0 a [of ex_insert "[]"],
      THEN conjunct2, THEN conjunct2, THEN conjunct1]
  obtain e1 s1 msg imm sec where
    "upipe_ts_scte35g_input_insert (env0, upipe_ts_scte35g_alloc\<lparr>urefs := [ex_insert]\<rparr>) =
       Inr (e1, s1)"
    "scte35_sections s1 = scte35_sections (upipe_ts_scte35g_alloc\<lparr>urefs := [ex_insert]\<rparr>) @ [msg]"
    "m_immediate msg = Some imm"
    "decode_break_duration imm = Some (True, (2700000 div 300) mod 2 ^ 33)"
    "m_ubuf msg = Some sec"
    "decode_pts_time sec = Some ((9000000 div 300) mod 2 ^ 33)"
    "decode_break_duration sec = Some (True, (2700000 div 300) mod 2 ^ 33)"
    unfolding i option.case by (auto simp: i)
  then have A:
    "case upipe_ts_scte35g_input_insert (env0, upipe_ts_scte35g_alloc\<lparr>urefs := [ex_insert]\<rparr>) of
      Inl f \<Rightarrow> False
    | Inr (e, s) \<Rightarrow>
        map (map_option decode_pts_time \<circ> m_ubuf) (scte35_sections s) = [Some (Some 30000)] \<and>
        map (map_option decode_break_duration \<circ> m_ubuf) (scte35_sections s) =
          [Some (Some (True, 9000))] \<and>
        map (map_option decode_break_duration \<circ> m_immediate) (scte35_sections s) =
          [Some (Some (True, 9000))]"
    by (simp add: upipe_ts_scte35g_alloc_def)
  from scheduled_pts_time_wraps [OF no_alloc_failure_env0 a [of ex_insert_now "[]"],
      THEN conjunct2, THEN conjunct2, THEN conjunct1]
  obtain e3 s3 msg3 imm3 where
    "upipe_ts_scte35g_input_insert (env0, upipe_ts_scte35g_alloc\<lparr>urefs := [ex_insert_now]\<rparr>) =
       Inr (e3, s3)"
    "scte35_sections s3 =
       scte35_sections (upipe_ts_scte35g_alloc\<lparr>urefs := [ex_insert_now]\<rparr>) @ [msg3]"
    "m_immediate msg3 = Some imm3"
    "decode_break_duration imm3 = Some (True, (2700000 div 300) mod 2 ^ 33)"
    "m_ubuf msg3 = None"
    unfolding n option.case by (auto simp: i)
  then have B:
    "case upipe_ts_scte35g_input_insert
           (env0, upipe_ts_scte35g_alloc\<lparr>urefs := [ex_insert_now]\<rparr>) of
      Inl f \<Rightarrow> False
    | Inr (e, s) \<Rightarrow>
        map m_ubuf (scte35_sections s) = [None] \<and>
        map (map_option decode_break_duration \<circ> m_immediate) (scte35_sections s) =
          [Some (Some (True, 9000))]"
    by (simp add: upipe_ts_scte35g_alloc_def)
  from scheduled_pts_time_wraps [OF no_alloc_failure_env0 a [of ex_time_signal "[ex_desc]"],
      THEN conjunct2, THEN conjunct2, THEN conjunct2, THEN mp, OF sz]
  obtain e2 s2 msg2 sec2 where
    "upipe_ts_scte35g_time_signal
       (env0, upipe_ts_scte35g_alloc\<lparr>urefs := [ex_time_signal, ex_desc]\<rparr>) = Inr (e2, s2)"
    "scte35_sections s2 =
       scte35_sections (upipe_ts_scte35g_alloc\<lparr>urefs := [ex_time_signal, ex_desc]\<rparr>) @ [msg2]"
    "m_ubuf msg2 = Some sec2"
    "decode_pts_time sec2 = Some ((90000000 div 300) mod 2 ^ 33)"
    unfolding t option.case by (auto simp: t)
  then have C:
    "case upipe_ts_scte35g_time_signal
           (env0, upipe_ts_scte35g_alloc\<lparr>urefs := [ex_time_signal, ex_desc]\<rparr>) of
      Inl f \<Rightarrow> False
    | Inr (e, s) \<Rightarrow>
        map (map_option decode_pts_time \<circ> m_ubuf) (scte35_sections s) = [Some (Some 300000)]"
    by (simp add: upipe_ts_scte35g_alloc_def)
  from A B C show ?thesis by blast
qed

text \<open>Claim C9. A record with a command type, neither start nor end, that arrives while the
  accumulator is empty is flushed at once: the input is the flush of the accumulator that holds
  only this record. For the command types NULL, INSERT and TIME\_SIGNAL the flush returns and
  leaves the accumulator empty, whatever the allocations do, and with no allocation failure an
  INSERT or a TIME\_SIGNAL appends one message, built from this record alone, to the pending
  queue, as the claim has it. For any other command type the claim fails: the \<^verbatim>\<open>default\<close>
  branch of the flush warns and returns before the accumulator is drained, so that the record
  is retained, and the next record of the same kind is appended to it and waits for further
  descriptors.\<close>

theorem input_single_fragment_flushes:
  assumes "urefs s = []" and "attr d_command_type uref = Some c"
    and "\<not> u_start uref" and "\<not> u_end uref"
  shows "upipe_ts_scte35g_input (e, s) (Some uref) =
           upipe_ts_scte35g_flush (e, s\<lparr>urefs := [uref]\<rparr>) \<and>
         (c \<in> {SCTE35_NULL_COMMAND, SCTE35_INSERT_COMMAND, SCTE35_TIME_SIGNAL_COMMAND} \<longrightarrow>
            (\<exists>e1 s1. upipe_ts_scte35g_input (e, s) (Some uref) = Inr (e1, s1) \<and> urefs s1 = [])) \<and>
         (c \<in> {SCTE35_INSERT_COMMAND, SCTE35_TIME_SIGNAL_COMMAND} \<and> no_alloc_failure e \<longrightarrow>
            (\<exists>e1 s1 msg. upipe_ts_scte35g_input (e, s) (Some uref) = Inr (e1, s1) \<and>
               scte35_sections s1 = scte35_sections s @ [msg] \<and> m_immediate msg \<noteq> None \<and>
               m_cr_sys msg = get_or (u_pts_sys uref) 0 \<and> scte35_cr_sys s1 = 0)) \<and>
         (c \<notin> {SCTE35_NULL_COMMAND, SCTE35_INSERT_COMMAND, SCTE35_TIME_SIGNAL_COMMAND} \<longrightarrow>
            upipe_ts_scte35g_input (e, s) (Some uref) =
              Inr (throw (Warn ''unimplemented command type'') e, s\<lparr>urefs := [uref]\<rparr>))"
proof -
  let ?s = "s\<lparr>urefs := [uref]\<rparr>"
  have d: "u_udict uref \<noteq> None" using assms(2) by (cases "u_udict uref") (simp_all add: attr_def)
  have u: "urefs ?s = [uref]" "urefs ?s = uref # []" by simp_all
  have f: "upipe_ts_scte35g_input (e, s) (Some uref) = upipe_ts_scte35g_flush (e, ?s)"
    using assms d by (auto simp: upipe_ts_scte35g_input_def Let_def)
  have fl: "upipe_ts_scte35g_flush (e, ?s) =
      (if c = SCTE35_INSERT_COMMAND then map_sum id drain (upipe_ts_scte35g_input_insert (e, ?s))
       else if c = SCTE35_NULL_COMMAND then Inr (drain (upipe_ts_scte35g_build_null (e, ?s)))
       else if c = SCTE35_TIME_SIGNAL_COMMAND
         then map_sum id drain (upipe_ts_scte35g_time_signal (e, ?s))
       else Inr (throw (Warn ''unimplemented command type'') e, ?s))"
    using assms(2) by (simp add: upipe_ts_scte35g_flush_def)
  have ne: "SCTE35_INSERT_COMMAND \<noteq> SCTE35_NULL_COMMAND"
    "SCTE35_INSERT_COMMAND \<noteq> SCTE35_TIME_SIGNAL_COMMAND"
    "SCTE35_NULL_COMMAND \<noteq> SCTE35_TIME_SIGNAL_COMMAND"
    by (simp_all add: SCTE35_INSERT_COMMAND_def SCTE35_NULL_COMMAND_def
        SCTE35_TIME_SIGNAL_COMMAND_def)
  have k: "\<exists>e1 s1. upipe_ts_scte35g_flush (e, ?s) = Inr (e1, s1) \<and> urefs s1 = []"
    if "c \<in> {SCTE35_NULL_COMMAND, SCTE35_INSERT_COMMAND, SCTE35_TIME_SIGNAL_COMMAND}"
  proof -
    from that consider "c = SCTE35_NULL_COMMAND" | "c = SCTE35_INSERT_COMMAND"
      | "c = SCTE35_TIME_SIGNAL_COMMAND" by auto
    then show ?thesis
    proof cases
      case 1
      then show ?thesis
        using ne by (cases "upipe_ts_scte35g_build_null (e, ?s)") (simp add: fl drain_def)
    next
      case 2
      from input_insert_drains [OF u(1), of e] obtain e1 s1 where
        "upipe_ts_scte35g_input_insert (e, ?s) = Inr (e1, s1)" by blast
      with 2 show ?thesis by (simp add: fl drain_def)
    next
      case 3
      from time_signal_single [OF u(1), of e] obtain e1 s1 where
        "upipe_ts_scte35g_time_signal (e, ?s) = Inr (e1, s1)" by blast
      with 3 ne show ?thesis by (simp add: fl drain_def)
    qed
  qed
  have m: "\<exists>e1 s1 msg. upipe_ts_scte35g_flush (e, ?s) = Inr (e1, s1) \<and>
               scte35_sections s1 = scte35_sections s @ [msg] \<and> m_immediate msg \<noteq> None \<and>
               m_cr_sys msg = get_or (u_pts_sys uref) 0 \<and> scte35_cr_sys s1 = 0"
    if c: "c \<in> {SCTE35_INSERT_COMMAND, SCTE35_TIME_SIGNAL_COMMAND}" and ok: "no_alloc_failure e"
  proof -
    from time_signal_ok [OF ok u(2) time_signal_size_Nil] obtain e2 m2 where
      t: "upipe_ts_scte35g_time_signal (e, ?s) =
         Inr (e2, ?s\<lparr>urefs := [], scte35_sections := scte35_sections ?s @ [m2],
                     scte35_cr_sys := 0\<rparr>)"
      "m_cr_sys m2 = get_or (u_pts_sys uref) 0" "m_immediate m2 \<noteq> None"
      by force
    from c consider "c = SCTE35_INSERT_COMMAND" | "c = SCTE35_TIME_SIGNAL_COMMAND" by auto
    then show ?thesis
    proof cases
      case 1
      then show ?thesis by (simp add: fl drain_def input_insert_ok [OF ok u(2)])
    next
      case 2
      with t ne show ?thesis by (simp add: fl drain_def)
    qed
  qed
  have o: "upipe_ts_scte35g_flush (e, ?s) =
              Inr (throw (Warn ''unimplemented command type'') e, ?s)"
    if "c \<notin> {SCTE35_NULL_COMMAND, SCTE35_INSERT_COMMAND, SCTE35_TIME_SIGNAL_COMMAND}"
    using that by (simp add: fl)
  from f k m o show ?thesis by (simp only:) blast
qed

theorem input_single_fragment_flushes_witness:
  "upipe_ts_scte35g_input (env0, upipe_ts_scte35g_alloc) (Some (fragment 0x04 False False)) =
     Inr (env0\<lparr>events := [Warn ''unimplemented command type'']\<rparr>,
          upipe_ts_scte35g_alloc\<lparr>urefs := [fragment 0x04 False False]\<rparr>) \<and>
   upipe_ts_scte35g_input
     (env0\<lparr>events := [Warn ''unimplemented command type'']\<rparr>,
      upipe_ts_scte35g_alloc\<lparr>urefs := [fragment 0x04 False False]\<rparr>)
     (Some (fragment 0x04 False False)) =
     Inr (env0\<lparr>events := [Warn ''unimplemented command type'', Verbose ''wait for next descriptor'']\<rparr>,
          upipe_ts_scte35g_alloc\<lparr>urefs := [fragment 0x04 False False, fragment 0x04 False False]\<rparr>) \<and>
   (case upipe_ts_scte35g_input (env0, upipe_ts_scte35g_alloc)
          (Some (fragment SCTE35_TIME_SIGNAL_COMMAND False False)) of
      Inl f \<Rightarrow> False
    | Inr (e, s) \<Rightarrow>
        urefs s = [] \<and> map m_cr_sys (scte35_sections s) = [0] \<and>
        map (\<lambda>m. m_immediate m \<noteq> None) (scte35_sections s) = [True] \<and> scte35_cr_sys s = 0)"
proof -
  let ?u = "fragment SCTE35_TIME_SIGNAL_COMMAND False False"
  let ?v = "fragment 0x04 False False"
  have h: "urefs upipe_ts_scte35g_alloc = []"
    "attr d_command_type ?u = Some SCTE35_TIME_SIGNAL_COMMAND" "\<not> u_start ?u" "\<not> u_end ?u"
    by (simp_all add: upipe_ts_scte35g_alloc_def fragment_def attr_def)
  have k: "attr d_command_type ?v = Some 0x04" "\<not> u_start ?v" "\<not> u_end ?v"
    "(0x04 :: u8) \<notin> {SCTE35_NULL_COMMAND, SCTE35_INSERT_COMMAND, SCTE35_TIME_SIGNAL_COMMAND}"
    by (simp_all add: fragment_def attr_def SCTE35_INSERT_COMMAND_def SCTE35_NULL_COMMAND_def
        SCTE35_TIME_SIGNAL_COMMAND_def)
  have g: "get_or (u_pts_sys ?u) 0 = 0" by (simp add: fragment_def get_or_def)
  from input_single_fragment_flushes [OF h(1) k(1,2,3), of env0] k(4)
  have "upipe_ts_scte35g_input (env0, upipe_ts_scte35g_alloc) (Some ?v) =
      Inr (throw (Warn ''unimplemented command type'') env0,
           upipe_ts_scte35g_alloc\<lparr>urefs := [?v]\<rparr>)"
    by blast
  then have A: "upipe_ts_scte35g_input (env0, upipe_ts_scte35g_alloc) (Some ?v) =
     Inr (env0\<lparr>events := [Warn ''unimplemented command type'']\<rparr>,
          upipe_ts_scte35g_alloc\<lparr>urefs := [?v]\<rparr>)"
    by (simp add: throw_def env0_def)
  have B: "upipe_ts_scte35g_input
     (env0\<lparr>events := [Warn ''unimplemented command type'']\<rparr>,
      upipe_ts_scte35g_alloc\<lparr>urefs := [?v]\<rparr>) (Some ?v) =
     Inr (env0\<lparr>events := [Warn ''unimplemented command type'', Verbose ''wait for next descriptor'']\<rparr>,
          upipe_ts_scte35g_alloc\<lparr>urefs := [?v, ?v]\<rparr>)"
    by (simp add: upipe_ts_scte35g_input_def fragment_def attr_def
        upipe_ts_scte35g_alloc_def env0_def throw_def)
  note t = input_single_fragment_flushes [OF h, of env0]
  from t obtain e1 s1 where
    a: "upipe_ts_scte35g_input (env0, upipe_ts_scte35g_alloc) (Some ?u) = Inr (e1, s1)"
      "urefs s1 = []"
    by blast
  from t no_alloc_failure_env0 obtain e2 s2 msg where
    b: "upipe_ts_scte35g_input (env0, upipe_ts_scte35g_alloc) (Some ?u) = Inr (e2, s2)"
      "scte35_sections s2 = scte35_sections upipe_ts_scte35g_alloc @ [msg]"
      "m_immediate msg \<noteq> None" "m_cr_sys msg = 0" "scte35_cr_sys s2 = 0"
    unfolding g by blast
  from a b have "s2 = s1" by simp
  with a b have C: "case upipe_ts_scte35g_input (env0, upipe_ts_scte35g_alloc) (Some ?u) of
      Inl f \<Rightarrow> False
    | Inr (e, s) \<Rightarrow>
        urefs s = [] \<and> map m_cr_sys (scte35_sections s) = [0] \<and>
        map (\<lambda>m. m_immediate m \<noteq> None) (scte35_sections s) = [True] \<and> scte35_cr_sys s = 0"
    by (simp add: upipe_ts_scte35g_alloc_def)
  from A B C show ?thesis by blast
qed


end
